theory Spec2Isabelle
  imports Complex_Main "HOL-Library.AList"
begin

section \<open>JavaScript values and strings\<close>

text \<open>
  Strings are byte lists (UTF-8).  Timestamps (\<^verbatim>\<open>Date.now()\<close>) are integers counting
  milliseconds.  A JavaScript object used as a dictionary is an association list:
  \<^verbatim>\<open>obj[k]\<close> is \<^term>\<open>map_of obj k\<close>, \<^verbatim>\<open>obj[k] = v\<close> is \<^term>\<open>AList.update k v obj\<close>
  and \<^verbatim>\<open>delete obj[k]\<close> is \<^term>\<open>AList.delete k obj\<close>.
\<close>

datatype jsval = JUndefined | JNull | JBool bool | JNum real | JNaN | JStr string

fun truthy :: "jsval \<Rightarrow> bool" where
  "truthy JUndefined = False"
| "truthy JNull = False"
| "truthy (JBool b) = b"
| "truthy (JNum r) = (r \<noteq> 0)"
| "truthy JNaN = False"
| "truthy (JStr s) = (s \<noteq> [])"

definition js_or :: "jsval \<Rightarrow> jsval \<Rightarrow> jsval" where
  \<comment> \<open>\<^verbatim>\<open>a || b\<close>\<close>
  "js_or a b = (if truthy a then a else b)"

fun split :: "char \<Rightarrow> string \<Rightarrow> string list" where
  \<comment> \<open>\<^verbatim>\<open>s.split(c)\<close> for a one-character separator\<close>
  "split c [] = [[]]"
| "split c (x # xs) =
     (if x = c then [] # split c xs
      else (case split c xs of [] \<Rightarrow> [[x]] | w # ws \<Rightarrow> (x # w) # ws))"

definition startsWith :: "string \<Rightarrow> string \<Rightarrow> bool" where
  \<comment> \<open>\<^verbatim>\<open>s.startsWith(p)\<close>\<close>
  "startsWith s p = (take (length p) s = p)"

definition endsWith :: "string \<Rightarrow> string \<Rightarrow> bool" where
  \<comment> \<open>\<^verbatim>\<open>s.endsWith(p)\<close>\<close>
  "endsWith s p = (length p \<le> length s \<and> drop (length s - length p) s = p)"

definition includesChar :: "string \<Rightarrow> char \<Rightarrow> bool" where
  \<comment> \<open>\<^verbatim>\<open>s.includes(c)\<close> for a one-character needle\<close>
  "includesChar s c = (c \<in> set s)"

definition userPart :: "string \<Rightarrow> string" where
  \<comment> \<open>\<^verbatim>\<open>chatId.split("@")[0]\<close>\<close>
  "userPart chatId = hd (split CHR ''@'' chatId)"

section \<open>Outbound messages\<close>

text \<open>
  The texts the bot sends are fixed templates (\<^verbatim>\<open>messageProvider.js\<close> and the literals
  in the handlers); each template is a constructor, with the values interpolated into it.
  Every template of \<^verbatim>\<open>messageProvider.js\<close> has two wordings, chosen by
  \<^verbatim>\<open>languageCode === "en"\<close>.
\<close>

datatype lang = En | Es

datatype msg =
    OffInvalidHours            \<comment> \<open>"Por favor especifica un numero valido de horas (1-168)"\<close>
  | OffConfirmed int int       \<comment> \<open>"Bot desactivado por N horas. Se reactivara ... el DATE"\<close>
  | BotActivatedAgain          \<comment> \<open>"Bot activado nuevamente para este chat"\<close>
  | BotAlreadyActive           \<comment> \<open>"El bot ya estaba activo para este chat"\<close>
  | ReactivateMissingChat      \<comment> \<open>"Debes especificar el ID del chat a reactivar ..."\<close>
  | ChatReactivated string     \<comment> \<open>"Chat ID reactivado exitosamente"\<close>
  | ChatWasNotDisabled string  \<comment> \<open>"El chat ID no estaba desactivado"\<close>
  | WelcomeMessage
  | LanguagePrompt
  | BusinessHoursMenu lang
  | OutOfHoursMessage lang
  | WatchesResponse lang
  | DiamondsResponse lang
  | GoldResponse lang
  | FallbackMessage lang
  | DefaultResponse lang
  | ClosingMessage lang bool
  | BlankLineBetween msg msg   \<comment> \<open>\<^verbatim>\<open>a + "\n\n" + b\<close>\<close>
  | Farewell lang              \<comment> \<open>"Thank you for your inquiry! ..." / "Gracias por tu consulta! ..."\<close>
  | ErrorApology lang          \<comment> \<open>"I'm sorry, there was an error ..." / "Lo siento, hubo un error ..."\<close>

section \<open>The state of the process\<close>

text \<open>
  The modules are singletons, so the process has one state: the owner's number and the
  three dictionaries of \<^verbatim>\<open>commandHandler.js\<close> (from chat id to an entry with an
  \<^verbatim>\<open>expiry\<close> instant), the dictionary \<^verbatim>\<open>states\<close> of \<^verbatim>\<open>stateManager.js\<close> (from user id
  to the session record), and a journal of what the process has done to the outside, in
  order: a write of \<^verbatim>\<open>disabled_chats.json\<close>, a write of \<^verbatim>\<open>states.json\<close>, a message sent
  with \<^verbatim>\<open>sendBotMessage\<close> (which remembers the id of the message), a message sent with
  \<^verbatim>\<open>sock.sendMessage\<close> directly, and a message that the socket rejected.  A write that
  fails is caught and logged inside \<^verbatim>\<open>saveDisabledState\<close> and \<^verbatim>\<open>saveStates\<close> and changes
  nothing else, so the journal has the write in both cases.
\<close>

record timed =
  expiry :: int

record intervention = timed +
  startTime :: int

record disabling = intervention +
  disabledBy :: string

record completion = timed +
  completedAt :: int

type_synonym 'v jsobj = "(string \<times> 'v) list"

text \<open>
  A session record.  \<open>languageSelectionComplete\<close> and \<open>stateText\<close> (the property
  \<^verbatim>\<open>text\<close>) are absent from a new record (\<open>None\<close> is \<^verbatim>\<open>undefined\<close>); \<^verbatim>\<open>userInfo\<close>, which
  nothing reads or writes, is left out.
\<close>

record userState =
  languageCode :: "string option"
  currentContext :: string
  lastInteraction :: int
  sessionStarted :: int
  selectedProduct :: jsval
  processCompleted :: bool
  processStage :: string
  languageSelectionComplete :: "bool option"
  stateText :: "string option"

datatype effect =
    WroteDisabledChats "disabling jsobj" "intervention jsobj" "completion jsobj"
  | WroteStates "userState jsobj"
  | BotMessage string msg
  | SockMessage string msg
  | SendRejected string msg

record bot =
  ownerNumber :: string
  disabledChats :: "disabling jsobj"
  manualInterventions :: "intervention jsobj"
  completedChats :: "completion jsobj"
  states :: "userState jsobj"
  journal :: "effect list"

text \<open>
  \<^verbatim>\<open>sock.sendMessage\<close> resolves or rejects, and the handlers do not choose which: a
  \<open>socket\<close> tells, from the journal so far, the chat and the message, whether the send
  resolves.  A handler ends by returning or by throwing, and leaves a state in both cases.
\<close>

type_synonym socket = "effect list \<Rightarrow> string \<Rightarrow> msg \<Rightarrow> bool"

datatype outcome = Returned bot | Threw bot

fun stateOf :: "outcome \<Rightarrow> bot" where
  "stateOf (Returned b) = b"
| "stateOf (Threw b) = b"

fun returned :: "outcome \<Rightarrow> bool" where
  "returned (Returned b) = True"
| "returned (Threw b) = False"

definition sockSendMessage :: "socket \<Rightarrow> string \<Rightarrow> msg \<Rightarrow> bot \<Rightarrow> outcome" where
  \<comment> \<open>\<^verbatim>\<open>await sock.sendMessage(chatId, { text })\<close>\<close>
  "sockSendMessage sock chatId content b =
     (if sock (journal b) chatId content
      then Returned (b\<lparr>journal := journal b @ [SockMessage chatId content]\<rparr>)
      else Threw (b\<lparr>journal := journal b @ [SendRejected chatId content]\<rparr>))"

definition sendBotMessage :: "socket \<Rightarrow> string \<Rightarrow> msg \<Rightarrow> bot \<Rightarrow> outcome" where
  \<comment> \<open>\<^verbatim>\<open>messageService.js\<close>: the rejection is logged and thrown again\<close>
  "sendBotMessage sock chatId content b =
     (if sock (journal b) chatId content
      then Returned (b\<lparr>journal := journal b @ [BotMessage chatId content]\<rparr>)
      else Threw (b\<lparr>journal := journal b @ [SendRejected chatId content]\<rparr>))"

definition sendBotMessageLegacy :: "socket \<Rightarrow> string \<Rightarrow> msg \<Rightarrow> bot \<Rightarrow> outcome" where
  \<comment> \<open>\<open>sendBotMessage\<close> of the single-file \<^verbatim>\<open>index.js\<close>: the rejection is logged and dropped\<close>
  "sendBotMessageLegacy sock chatId content b =
     (if sock (journal b) chatId content
      then Returned (b\<lparr>journal := journal b @ [BotMessage chatId content]\<rparr>)
      else Returned (b\<lparr>journal := journal b @ [SendRejected chatId content]\<rparr>))"

definition acceptAll :: socket where
  \<comment> \<open>the socket on which every send resolves\<close>
  "acceptAll history chatId content = True"

text \<open>
  The messages of a journal that were sent, in order, and the messages that were handed
  to the socket, sent or rejected.
\<close>

fun messagesOf :: "effect list \<Rightarrow> (string \<times> msg) list" where
  "messagesOf [] = []"
| "messagesOf (BotMessage chatId content # es) = (chatId, content) # messagesOf es"
| "messagesOf (SockMessage chatId content # es) = (chatId, content) # messagesOf es"
| "messagesOf (SendRejected chatId content # es) = messagesOf es"
| "messagesOf (WroteDisabledChats d m c # es) = messagesOf es"
| "messagesOf (WroteStates s # es) = messagesOf es"

fun attemptsOf :: "effect list \<Rightarrow> (string \<times> msg) list" where
  "attemptsOf [] = []"
| "attemptsOf (BotMessage chatId content # es) = (chatId, content) # attemptsOf es"
| "attemptsOf (SockMessage chatId content # es) = (chatId, content) # attemptsOf es"
| "attemptsOf (SendRejected chatId content # es) = (chatId, content) # attemptsOf es"
| "attemptsOf (WroteDisabledChats d m c # es) = attemptsOf es"
| "attemptsOf (WroteStates s # es) = attemptsOf es"

section \<open>The command handler and its three disable namespaces\<close>

definition isOwner :: "bot \<Rightarrow> string \<Rightarrow> bool" where
  "isOwner h userId = (userId = ownerNumber h)"

definition saveDisabledState :: "bot \<Rightarrow> bot" where
  "saveDisabledState h =
     h\<lparr>journal := journal h
          @ [WroteDisabledChats (disabledChats h) (manualInterventions h) (completedChats h)]\<rparr>"

text \<open>
  The loop \<^verbatim>\<open>for (const k in obj) { if (P(obj[k])) { delete obj[k]; log.push(k) } }\<close>
  over the keys \<open>ks\<close> the object had when the loop started.  It returns the object and
  the keys deleted, in order; the source's counter is the number of deleted keys.
\<close>

fun forInDelete :: "('v \<Rightarrow> bool) \<Rightarrow> string list \<Rightarrow> 'v jsobj \<Rightarrow> 'v jsobj \<times> string list" where
  "forInDelete P [] obj = (obj, [])"
| "forInDelete P (k # ks) obj =
     (case map_of obj k of
        None \<Rightarrow> forInDelete P ks obj
      | Some e \<Rightarrow>
          if P e
          then (let (obj', log) = forInDelete P ks (AList.delete k obj) in (obj', k # log))
          else forInDelete P ks obj)"

definition forIn :: "('v \<Rightarrow> bool) \<Rightarrow> 'v jsobj \<Rightarrow> 'v jsobj \<times> string list" where
  "forIn P obj = forInDelete P (map fst obj) obj"

definition cleanExpiredEntries :: "int \<Rightarrow> bot \<Rightarrow> bot" where
  "cleanExpiredEntries now h =
     (let (d, l1) = forIn (\<lambda>e. expiry e < now) (disabledChats h);
          (m, l2) = forIn (\<lambda>e. expiry e < now) (manualInterventions h);
          (c, l3) = forIn (\<lambda>e. expiry e < now) (completedChats h);
          cleaned = length l1 + length l2 + length l3;
          h' = h\<lparr>disabledChats := d, manualInterventions := m, completedChats := c\<rparr>
      in if cleaned > 0 then saveDisabledState h' else h')"

definition liveEntry :: "int \<Rightarrow> ('a timed_scheme) jsobj \<Rightarrow> string \<Rightarrow> jsval" where
  \<comment> \<open>\<^verbatim>\<open>obj[chatId] && obj[chatId].expiry > Date.now()\<close>\<close>
  "liveEntry now obj chatId =
     (case map_of obj chatId of None \<Rightarrow> JUndefined | Some e \<Rightarrow> JBool (expiry e > now))"

definition isChatDisabled :: "int \<Rightarrow> string \<Rightarrow> bot \<Rightarrow> jsval \<times> bot" where
  "isChatDisabled now chatId h =
     (let h' = cleanExpiredEntries now h;
          isDisabledByCommand = liveEntry now (disabledChats h') chatId;
          isDisabledByIntervention = liveEntry now (manualInterventions h') chatId;
          isDisabledByCompletion = liveEntry now (completedChats h') chatId
      in (js_or (js_or isDisabledByCommand isDisabledByIntervention) isDisabledByCompletion, h'))"

subsection \<open>Registering and clearing entries\<close>

definition hoursMs :: "int \<Rightarrow> int" where
  \<comment> \<open>\<^verbatim>\<open>hours * 60 * 60 * 1000\<close>\<close>
  "hoursMs hours = hours * 60 * 60 * 1000"

definition registerManualIntervention :: "int \<Rightarrow> string \<Rightarrow> int option \<Rightarrow> bot \<Rightarrow> bot" where
  \<comment> \<open>\<^verbatim>\<open>registerManualIntervention(chatId, hours = 1)\<close>; \<open>None\<close> is the omitted argument\<close>
  "registerManualIntervention now chatId hoursArg h =
     (let hours = (case hoursArg of None \<Rightarrow> 1 | Some n \<Rightarrow> n);
          expiryTime = now + hoursMs hours
      in saveDisabledState
           (h\<lparr>manualInterventions :=
                AList.update chatId \<lparr>expiry = expiryTime, startTime = now\<rparr> (manualInterventions h)\<rparr>))"

definition markProcessCompleted :: "int \<Rightarrow> string \<Rightarrow> int option \<Rightarrow> bot \<Rightarrow> bot" where
  \<comment> \<open>\<^verbatim>\<open>markProcessCompleted(chatId, hours = 1)\<close>; \<open>None\<close> is the omitted argument\<close>
  "markProcessCompleted now chatId hoursArg h =
     (let hours = (case hoursArg of None \<Rightarrow> 1 | Some n \<Rightarrow> n);
          expiryTime = now + hoursMs hours
      in saveDisabledState
           (h\<lparr>completedChats :=
                AList.update chatId \<lparr>expiry = expiryTime, completedAt = now\<rparr> (completedChats h)\<rparr>))"

definition detectOwnerMessage :: "string \<Rightarrow> string \<Rightarrow> bot \<Rightarrow> bool \<times> bot" where
  "detectOwnerMessage chatId message h =
     (if \<not> isOwner h (userPart chatId) then (False, h)
      else if startsWith message ''/on'' then (False, h)
      else (True, h))"

subsection \<open>White space and \<^verbatim>\<open>parseInt\<close>\<close>

text \<open>
  The white space that \<^verbatim>\<open>parseInt\<close> and \<^verbatim>\<open>trim\<close> skip is the \<^verbatim>\<open>WhiteSpace\<close> and
  \<^verbatim>\<open>LineTerminator\<close> of the language: the code points 9 to 13 and 32, U+00A0, U+1680,
  U+2000 to U+200A, U+2028, U+2029, U+202F, U+205F, U+3000 and U+FEFF.  In a byte list
  these are one byte, the two bytes C2 A0, or three bytes starting with E1, E2, E3 or EF.
\<close>

definition whiteSpace1 :: "char \<Rightarrow> bool" where
  \<comment> \<open>tab, line feed, vertical tab, form feed, carriage return, space\<close>
  "whiteSpace1 a = (of_char a \<in> {9, 10, 11, 12, 13, 32 :: nat})"

definition whiteSpace2 :: "char \<Rightarrow> char \<Rightarrow> bool" where
  \<comment> \<open>U+00A0\<close>
  "whiteSpace2 a b = (of_char a = (0xC2 :: nat) \<and> of_char b = (0xA0 :: nat))"

definition whiteSpace3 :: "char \<Rightarrow> char \<Rightarrow> char \<Rightarrow> bool" where
  "whiteSpace3 a b c =
     (let x = (of_char a :: nat); y = (of_char b :: nat); z = (of_char c :: nat)
      in (x = 0xE1 \<and> y = 0x9A \<and> z = 0x80)
         \<comment> \<open>U+1680\<close>
       \<or> (x = 0xE2 \<and> y = 0x80 \<and> 0x80 \<le> z \<and> z \<le> 0x8A)
         \<comment> \<open>U+2000 to U+200A\<close>
       \<or> (x = 0xE2 \<and> y = 0x80 \<and> (z = 0xA8 \<or> z = 0xA9 \<or> z = 0xAF))
         \<comment> \<open>U+2028, U+2029, U+202F\<close>
       \<or> (x = 0xE2 \<and> y = 0x81 \<and> z = 0x9F)
         \<comment> \<open>U+205F\<close>
       \<or> (x = 0xE3 \<and> y = 0x80 \<and> z = 0x80)
         \<comment> \<open>U+3000\<close>
       \<or> (x = 0xEF \<and> y = 0xBB \<and> z = 0xBF))
         \<comment> \<open>U+FEFF\<close>"

fun trimStart :: "string \<Rightarrow> string" where
  \<comment> \<open>\<^verbatim>\<open>s.trimStart()\<close>, which is also the first step of \<^verbatim>\<open>parseInt\<close>\<close>
  "trimStart (a # b # c # s) =
     (if whiteSpace1 a then trimStart (b # c # s)
      else if whiteSpace2 a b then trimStart (c # s)
      else if whiteSpace3 a b c then trimStart s
      else a # b # c # s)"
| "trimStart [a, b] =
     (if whiteSpace1 a then trimStart [b] else if whiteSpace2 a b then [] else [a, b])"
| "trimStart [a] = (if whiteSpace1 a then [] else [a])"
| "trimStart [] = []"

fun trimEndRev :: "string \<Rightarrow> string" where
  \<comment> \<open>the same from the end, on the reversed byte list\<close>
  "trimEndRev (c # b # a # s) =
     (if whiteSpace1 c then trimEndRev (b # a # s)
      else if whiteSpace2 b c then trimEndRev (a # s)
      else if whiteSpace3 a b c then trimEndRev s
      else c # b # a # s)"
| "trimEndRev [c, b] =
     (if whiteSpace1 c then trimEndRev [b] else if whiteSpace2 b c then [] else [c, b])"
| "trimEndRev [c] = (if whiteSpace1 c then [] else [c])"
| "trimEndRev [] = []"

definition trimEnd :: "string \<Rightarrow> string" where
  \<comment> \<open>\<^verbatim>\<open>s.trimEnd()\<close>\<close>
  "trimEnd s = rev (trimEndRev (rev s))"

definition trim :: "string \<Rightarrow> string" where
  \<comment> \<open>\<^verbatim>\<open>s.trim()\<close>\<close>
  "trim s = trimEnd (trimStart s)"

text \<open>
  \<^verbatim>\<open>parseInt(s)\<close> with no radix: skip the leading white space, read an optional sign,
  read \<^verbatim>\<open>0x\<close>/\<^verbatim>\<open>0X\<close> as the mark of radix 16, then take the longest run of digits; no
  digit gives \<^verbatim>\<open>NaN\<close> (\<open>None\<close>).  The result is the integer the digits denote; the
  language rounds it to the nearest double, which is another number only beyond
  \<open>2\<^sup>5\<^sup>3\<close>, far above every bound the commands compare it with.
\<close>

definition digitValue :: "char \<Rightarrow> nat option" where
  "digitValue c =
     (let n = (of_char c :: nat)
      in if 48 \<le> n \<and> n \<le> 57 then Some (n - 48)
         else if 97 \<le> n \<and> n \<le> 122 then Some (n - 87)
         else if 65 \<le> n \<and> n \<le> 90 then Some (n - 55)
         else None)"

definition isRadixDigit :: "nat \<Rightarrow> char \<Rightarrow> bool" where
  "isRadixDigit radix c = (case digitValue c of None \<Rightarrow> False | Some d \<Rightarrow> d < radix)"

definition radixValue :: "nat \<Rightarrow> string \<Rightarrow> nat" where
  "radixValue radix z = foldl (\<lambda>acc c. acc * radix + (case digitValue c of None \<Rightarrow> 0 | Some d \<Rightarrow> d)) 0 z"

definition parseInt :: "string \<Rightarrow> int option" where
  "parseInt s =
     (let s1 = trimStart s;
          (sign, s2) = (case s1 of
                          [] \<Rightarrow> (1, s1)
                        | c # r \<Rightarrow> if c = CHR ''-'' then (- 1, r)
                                   else if c = CHR ''+'' then (1, r) else (1, s1));
          (radix, s3) = (if startsWith s2 ''0x'' \<or> startsWith s2 ''0X''
                         then (16, drop 2 s2) else (10, s2));
          z = takeWhile (isRadixDigit radix) s3
      in if z = [] then None else Some (sign * int (radixValue radix z)))"

subsection \<open>The \<^verbatim>\<open>/off\<close>, \<^verbatim>\<open>/on\<close> and \<^verbatim>\<open>/reactivate\<close> commands\<close>

definition deactivateBot :: "socket \<Rightarrow> int \<Rightarrow> string \<Rightarrow> string list \<Rightarrow> bot \<Rightarrow> outcome" where
  "deactivateBot sock now chatId args h =
     (let hours = (case args of
                     [] \<Rightarrow> Some 24
                   | a # _ \<Rightarrow> if a \<noteq> [] then parseInt a else Some 24)
      in case hours of
           None \<Rightarrow> sendBotMessage sock chatId OffInvalidHours h
         | Some n \<Rightarrow>
             if n \<le> 0 \<or> n > 168 then sendBotMessage sock chatId OffInvalidHours h
             else
               (let expiryTime = now + hoursMs n;
                    h' = saveDisabledState
                           (h\<lparr>disabledChats :=
                                AList.update chatId
                                  \<lparr>expiry = expiryTime, startTime = now, disabledBy = ownerNumber h\<rparr>
                                  (disabledChats h)\<rparr>)
                in sendBotMessage sock chatId (OffConfirmed n expiryTime) h'))"

text \<open>
  The three blocks \<^verbatim>\<open>if (this.X[chatId]) { delete this.X[chatId]; wasDisabled = true }\<close>,
  which \<^verbatim>\<open>activateBot\<close> and \<^verbatim>\<open>forceReactivate\<close> both contain; the result carries
  \<^verbatim>\<open>wasDisabled\<close>.
\<close>

definition deleteFromNamespaces :: "string \<Rightarrow> bot \<Rightarrow> bot \<times> bool" where
  "deleteFromNamespaces chatId h =
     (let (h1, w1) = (case map_of (disabledChats h) chatId of
                        None \<Rightarrow> (h, False)
                      | Some _ \<Rightarrow> (h\<lparr>disabledChats := AList.delete chatId (disabledChats h)\<rparr>, True));
          (h2, w2) = (case map_of (manualInterventions h1) chatId of
                        None \<Rightarrow> (h1, w1)
                      | Some _ \<Rightarrow> (h1\<lparr>manualInterventions :=
                                         AList.delete chatId (manualInterventions h1)\<rparr>, True));
          (h3, w3) = (case map_of (completedChats h2) chatId of
                        None \<Rightarrow> (h2, w2)
                      | Some _ \<Rightarrow> (h2\<lparr>completedChats :=
                                         AList.delete chatId (completedChats h2)\<rparr>, True))
      in (h3, w3))"

definition activateBot :: "socket \<Rightarrow> string \<Rightarrow> bot \<Rightarrow> outcome" where
  "activateBot sock chatId h =
     (let (h', wasDisabled) = deleteFromNamespaces chatId h;
          h'' = saveDisabledState h'
      in if wasDisabled then sendBotMessage sock chatId BotActivatedAgain h''
         else sendBotMessage sock chatId BotAlreadyActive h'')"

definition forceReactivate :: "socket \<Rightarrow> string \<Rightarrow> string list \<Rightarrow> bot \<Rightarrow> outcome" where
  "forceReactivate sock chatId args h =
     (case args of
        [] \<Rightarrow> sockSendMessage sock chatId ReactivateMissingChat h
      | a # _ \<Rightarrow>
          (let targetChatId = (if \<not> includesChar a CHR ''@'' then a @ ''@s.whatsapp.net'' else a);
               (h', wasDisabled) = deleteFromNamespaces targetChatId h
           in if wasDisabled
              then sockSendMessage sock chatId (ChatReactivated targetChatId) (saveDisabledState h')
              else sockSendMessage sock chatId (ChatWasNotDisabled targetChatId) h'))"

text \<open>
  What the three tests \<^verbatim>\<open>if (this.X[chatId])\<close> find: an entry for the chat in at least one
  namespace, whatever its expiry.
\<close>

definition hasEntry :: "bot \<Rightarrow> string \<Rightarrow> bool" where
  "hasEntry h chatId =
     (map_of (disabledChats h) chatId \<noteq> None
      \<or> map_of (manualInterventions h) chatId \<noteq> None
      \<or> map_of (completedChats h) chatId \<noteq> None)"

subsection \<open>A sample state\<close>

definition exampleBot :: bot where
  "exampleBot =
     \<lparr>ownerNumber = ''1234567890'',
      disabledChats = [],
      manualInterventions = [(''111@s.whatsapp.net'', \<lparr>expiry = 500, startTime = 0\<rparr>)],
      completedChats = [(''222@s.whatsapp.net'', \<lparr>expiry = 5000, completedAt = 1400\<rparr>)],
      states = [], journal = []\<rparr>"

definition ownerOffBot :: bot where
  \<comment> \<open>the registry one hour after the owner sent \<^verbatim>\<open>/off 1\<close> to the bot at instant 0\<close>
  "ownerOffBot =
     \<lparr>ownerNumber = ''1234567890'',
      disabledChats = [(''1234567890@s.whatsapp.net'',
                        \<lparr>expiry = 3600000, startTime = 0, disabledBy = ''1234567890''\<rparr>)],
      manualInterventions = [], completedChats = [],
      states = [], journal = []\<rparr>"

section \<open>The time manager\<close>

text \<open>
  \<^verbatim>\<open>timeManager.js\<close>.  A \<^verbatim>\<open>Date\<close> is read through four accessors only: \<^verbatim>\<open>getMonth()\<close>
  (0 to 11), \<^verbatim>\<open>getDate()\<close> (1 to 31), \<^verbatim>\<open>getDay()\<close> (0 = Sunday to 6 = Saturday, the keys
  of the \<^verbatim>\<open>businessHours\<close> table) and \<^verbatim>\<open>getHours()\<close> (0 to 23).
\<close>

datatype weekday = Sunday | Monday | Tuesday | Wednesday | Thursday | Friday | Saturday

fun dayNumber :: "weekday \<Rightarrow> int" where
  "dayNumber Sunday = 0"
| "dayNumber Monday = 1"
| "dayNumber Tuesday = 2"
| "dayNumber Wednesday = 3"
| "dayNumber Thursday = 4"
| "dayNumber Friday = 5"
| "dayNumber Saturday = 6"

record jsDate =
  getMonth :: nat
  getDate :: nat
  getDay :: weekday
  getHours :: int

datatype dayHours = Closed | OpenHours int int
  \<comment> \<open>\<^verbatim>\<open>{ open: false }\<close> and \<^verbatim>\<open>{ open: true, start: s, end: e }\<close>\<close>

fun businessHours :: "weekday \<Rightarrow> dayHours" where
  "businessHours Sunday = Closed"
| "businessHours Monday = OpenHours 10 17"
| "businessHours Tuesday = OpenHours 10 17"
| "businessHours Wednesday = OpenHours 10 17"
| "businessHours Thursday = OpenHours 10 17"
| "businessHours Friday = OpenHours 10 17"
| "businessHours Saturday = OpenHours 10 12"

definition holidays :: "string list" where
  "holidays = [''01-01'', ''07-04'', ''12-25'']"

definition digitChar :: "nat \<Rightarrow> char" where
  "digitChar d = char_of (48 + d)"

fun toString :: "nat \<Rightarrow> string" where
  \<comment> \<open>\<^verbatim>\<open>n.toString()\<close> for a non-negative integer\<close>
  "toString n = (if n < 10 then [digitChar n] else toString (n div 10) @ [digitChar (n mod 10)])"

declare toString.simps [simp del]

definition padStart :: "nat \<Rightarrow> char \<Rightarrow> string \<Rightarrow> string" where
  \<comment> \<open>\<^verbatim>\<open>s.padStart(n, c)\<close>\<close>
  "padStart n c s = replicate (n - length s) c @ s"

definition isHoliday :: "jsDate \<Rightarrow> bool" where
  "isHoliday date =
     (let month = getMonth date + 1;
          day = getDate date;
          dateStr = padStart 2 CHR ''0'' (toString month) @ ''-'' @ padStart 2 CHR ''0'' (toString day)
      in dateStr \<in> set holidays)"

definition isBusinessHours :: "jsDate \<Rightarrow> bool" where
  "isBusinessHours now =
     (let day = getDay now; hour = getHours now
      in if isHoliday now then False
         else (case businessHours day of
                 Closed \<Rightarrow> False
               | OpenHours start end \<Rightarrow> hour \<ge> start \<and> hour < end))"

section \<open>The auto-reactivation manager\<close>

text \<open>
  \<^verbatim>\<open>autoReactivationManager.js\<close>.  \<open>wasBusinessHours\<close> starts as \<^verbatim>\<open>null\<close> (\<open>None\<close>);
  \<open>massReactivationDone\<close> is the pair \<^verbatim>\<open>{day, hour}\<close>, which starts as (-1, -1);
  \<open>checkIntervalId\<close> is \<^verbatim>\<open>null\<close> or the timer, kept as the period it was set with.
  \<open>checkAndReactivate\<close> takes the two clock readings of one invocation: \<open>now\<close> for
  \<^verbatim>\<open>Date.now()\<close> and \<open>date\<close> for \<^verbatim>\<open>timeManager.getCurrentDate()\<close>.
\<close>

record autoReactivationManager =
  checkInterval :: int
  isRunning :: bool
  lastCheck :: "int option"
  checkIntervalId :: "int option"
  recentlyReactivated :: "string list"
  wasBusinessHours :: "bool option"
  massReactivationDone :: "int \<times> int"

definition newManager :: autoReactivationManager where
  \<comment> \<open>the constructor\<close>
  "newManager =
     \<lparr>checkInterval = 5 * 60 * 1000, isRunning = False, lastCheck = None,
      checkIntervalId = None, recentlyReactivated = [], wasBusinessHours = None,
      massReactivationDone = (- 1, - 1)\<rparr>"

type_synonym scheduler = "autoReactivationManager \<times> bot"

definition massReactivateAllChats :: "scheduler \<Rightarrow> nat \<times> scheduler" where
  "massReactivateAllChats s =
     (let (mgr, h) = s;
          (d, l1) = forIn (\<lambda>_. True) (disabledChats h);
          (m, l2) = forIn (\<lambda>_. True) (manualInterventions h);
          (c, l3) = forIn (\<lambda>_. True) (completedChats h);
          reactivationCount = length l1 + length l2 + length l3;
          h' = h\<lparr>disabledChats := d, manualInterventions := m, completedChats := c\<rparr>;
          mgr' = mgr\<lparr>recentlyReactivated := recentlyReactivated mgr @ l1 @ l2 @ l3\<rparr>
      in (reactivationCount, mgr', if reactivationCount > 0 then saveDisabledState h' else h'))"

definition closingDetected :: "autoReactivationManager \<Rightarrow> jsDate \<Rightarrow> bool" where
  \<comment> \<open>the two nested tests that guard the call of \<open>massReactivateAllChats\<close>\<close>
  "closingDetected mgr date =
     ((wasBusinessHours mgr = Some True \<and> \<not> isBusinessHours date)
      \<and> (fst (massReactivationDone mgr) \<noteq> dayNumber (getDay date)
           \<or> snd (massReactivationDone mgr) \<noteq> getHours date))"

text \<open>
  \<open>checkAndReactivate\<close> in its two parts: the block that detects the end of business
  hours (\<open>closingCheck\<close>, giving the count of the mass reactivation), and the three loops
  that release the entries whose expiry is not later than now (\<open>expirySweep\<close>).
\<close>

definition closingCheck :: "jsDate \<Rightarrow> scheduler \<Rightarrow> nat \<times> scheduler" where
  "closingCheck date s =
     (let (mgr, h) = s;
          currentDay = dayNumber (getDay date);
          currentHour = getHours date
      in if closingDetected mgr date
         then (let (n, mgr', h') = massReactivateAllChats (mgr, h)
               in (n, mgr'\<lparr>massReactivationDone := (currentDay, currentHour)\<rparr>, h'))
         else (0, mgr, h))"

definition expirySweep :: "int \<Rightarrow> nat \<Rightarrow> scheduler \<Rightarrow> nat \<times> scheduler" where
  "expirySweep now count1 s =
     (let (mgr, h) = s;
          (d, l1) = forIn (\<lambda>e. expiry e \<le> now) (disabledChats h);
          (m, l2) = forIn (\<lambda>e. expiry e \<le> now) (manualInterventions h);
          (c, l3) = forIn (\<lambda>e. expiry e \<le> now) (completedChats h);
          reactivationCount = count1 + length l1 + length l2 + length l3;
          mgr' = mgr\<lparr>recentlyReactivated := recentlyReactivated mgr @ l1 @ l2 @ l3\<rparr>;
          h' = h\<lparr>disabledChats := d, manualInterventions := m, completedChats := c\<rparr>
      in (reactivationCount, mgr', if reactivationCount > 0 then saveDisabledState h' else h'))"

definition checkAndReactivate :: "int \<Rightarrow> jsDate \<Rightarrow> scheduler \<Rightarrow> nat \<times> scheduler" where
  "checkAndReactivate now date s =
     (let (mgr, h) = s;
          mgr1 = mgr\<lparr>lastCheck := Some now, recentlyReactivated := []\<rparr>;
          isBusinessHoursNow = isBusinessHours date;
          (count1, mgr2, h2) = closingCheck date (mgr1, h);
          mgr3 = mgr2\<lparr>wasBusinessHours := Some isBusinessHoursNow\<rparr>
      in expirySweep now count1 (mgr3, h2))"

text \<open>
  \<open>startAutoReactivation\<close> reads the business-hours flag itself (\<open>started\<close> is the date
  of that reading) and stores it in \<open>wasBusinessHours\<close> before it runs its own check, which
  has its readings \<open>now\<close> and \<open>date\<close>.  \<open>setCheckInterval\<close> is called with an integer: its
  one caller passes the result of \<open>parseInt\<close>, after it has rejected \<^verbatim>\<open>NaN\<close>.
\<close>

definition startAutoReactivation :: "jsDate \<Rightarrow> int \<Rightarrow> jsDate \<Rightarrow> scheduler \<Rightarrow> scheduler" where
  "startAutoReactivation started now date s =
     (let (mgr, h) = s
      in if isRunning mgr then s
         else
           (let mgr1 = mgr\<lparr>wasBusinessHours := Some (isBusinessHours started)\<rparr>;
                (n, mgr2, h2) = checkAndReactivate now date (mgr1, h)
            in (mgr2\<lparr>checkIntervalId := Some (checkInterval mgr2), isRunning := True\<rparr>, h2)))"

definition stopAutoReactivation :: "scheduler \<Rightarrow> scheduler" where
  "stopAutoReactivation s =
     (let (mgr, h) = s
      in if \<not> isRunning mgr \<or> checkIntervalId mgr = None then s
         else (mgr\<lparr>checkIntervalId := None, isRunning := False\<rparr>, h))"

definition minutesMs :: "int \<Rightarrow> int" where
  \<comment> \<open>\<^verbatim>\<open>minutes * 60 * 1000\<close>\<close>
  "minutesMs minutes = minutes * 60 * 1000"

definition setCheckInterval ::
    "int \<Rightarrow> jsDate \<Rightarrow> int \<Rightarrow> jsDate \<Rightarrow> scheduler \<Rightarrow> bool \<times> scheduler" where
  "setCheckInterval minutes started now date s =
     (let (mgr, h) = s
      in if minutes \<le> 0 then (False, s)
         else
           (let mgr1 = mgr\<lparr>checkInterval := minutesMs minutes\<rparr>
            in (True,
                if isRunning mgr1
                then startAutoReactivation started now date (stopAutoReactivation (mgr1, h))
                else (mgr1, h))))"

subsection \<open>Runs of the scheduler\<close>

text \<open>
  What happens to the manager over time is a sequence of calls of its methods, each with
  the clock readings it makes; between them the other handlers change the registry
  (\<open>OtherHandlers\<close> gives the process state they leave).
\<close>

datatype call =
    CheckAndReactivate int jsDate
  | StartAutoReactivation jsDate int jsDate
  | StopAutoReactivation
  | SetCheckInterval int jsDate int jsDate
  | OtherHandlers bot

fun perform :: "call \<Rightarrow> scheduler \<Rightarrow> scheduler" where
  "perform (CheckAndReactivate now date) s = snd (checkAndReactivate now date s)"
| "perform (StartAutoReactivation started now date) s = startAutoReactivation started now date s"
| "perform StopAutoReactivation s = stopAutoReactivation s"
| "perform (SetCheckInterval minutes started now date) s =
     snd (setCheckInterval minutes started now date s)"
| "perform (OtherHandlers h) s = (fst s, h)"

text \<open>
  The checks that a call runs (none or one), each with the date it read, the date that
  \<open>startAutoReactivation\<close> read just before when the check is the one it runs, and whether
  the check performed the mass reactivation.
\<close>

record check =
  startedAt :: "jsDate option"
  checkedAt :: jsDate
  massReactivated :: bool

definition checkOfStart :: "jsDate \<Rightarrow> jsDate \<Rightarrow> scheduler \<Rightarrow> check list" where
  "checkOfStart started date s =
     (if isRunning (fst s) then []
      else [\<lparr>startedAt = Some started, checkedAt = date,
             massReactivated =
               closingDetected ((fst s)\<lparr>wasBusinessHours := Some (isBusinessHours started)\<rparr>)
                 date\<rparr>])"

fun checksOf :: "call \<Rightarrow> scheduler \<Rightarrow> check list" where
  "checksOf (CheckAndReactivate now date) s =
     [\<lparr>startedAt = None, checkedAt = date, massReactivated = closingDetected (fst s) date\<rparr>]"
| "checksOf (StartAutoReactivation started now date) s = checkOfStart started date s"
| "checksOf StopAutoReactivation s = []"
| "checksOf (SetCheckInterval minutes started now date) s =
     (if minutes \<le> 0 \<or> \<not> isRunning (fst s) then []
      else checkOfStart started date
             (stopAutoReactivation ((fst s)\<lparr>checkInterval := minutesMs minutes\<rparr>, snd s)))"
| "checksOf (OtherHandlers h) s = []"

fun run :: "call list \<Rightarrow> scheduler \<Rightarrow> scheduler" where
  "run [] s = s"
| "run (c # cs) s = run cs (perform c s)"

fun checks :: "call list \<Rightarrow> scheduler \<Rightarrow> check list" where
  "checks [] s = []"
| "checks (c # cs) s = checksOf c s @ checks cs (perform c s)"

text \<open>
  \<open>startAutoReactivation\<close> reads the clock for its own flag and, at once, the check it
  runs reads it again.  A call in which both readings give the same flag:
\<close>

fun sameReading :: "call \<Rightarrow> bool" where
  "sameReading (StartAutoReactivation started now date)
     = (isBusinessHours started = isBusinessHours date)"
| "sameReading (SetCheckInterval minutes started now date)
     = (isBusinessHours started = isBusinessHours date)"
| "sameReading (CheckAndReactivate now date) = True"
| "sameReading StopAutoReactivation = True"
| "sameReading (OtherHandlers h) = True"

definition dayHour :: "jsDate \<Rightarrow> int \<times> int" where
  \<comment> \<open>\<^verbatim>\<open>currentDay\<close> and \<^verbatim>\<open>currentHour\<close>\<close>
  "dayHour date = (dayNumber (getDay date), getHours date)"

definition massReactivations :: "call list \<Rightarrow> scheduler \<Rightarrow> (int \<times> int) list" where
  \<comment> \<open>the (day, hour) readings at which a run performed a mass reactivation, in order\<close>
  "massReactivations calls s =
     map (\<lambda>e. dayHour (checkedAt e)) (filter massReactivated (checks calls s))"

subsection \<open>Sample runs of the scheduler\<close>

text \<open>
  Six checks: Monday 2 June at 16 h and 17 h, Tuesday 3 June at 16 h and 17 h, Monday
  9 June at 16 h and 17 h (times in milliseconds from Monday 2 June, 0 h).
\<close>

definition exampleChecks :: "call list" where
  "exampleChecks =
     [CheckAndReactivate 57600000 \<lparr>getMonth = 5, getDate = 2, getDay = Monday, getHours = 16\<rparr>,
      CheckAndReactivate 61200000 \<lparr>getMonth = 5, getDate = 2, getDay = Monday, getHours = 17\<rparr>,
      CheckAndReactivate 144000000 \<lparr>getMonth = 5, getDate = 3, getDay = Tuesday, getHours = 16\<rparr>,
      CheckAndReactivate 147600000 \<lparr>getMonth = 5, getDate = 3, getDay = Tuesday, getHours = 17\<rparr>,
      CheckAndReactivate 662400000 \<lparr>getMonth = 5, getDate = 9, getDay = Monday, getHours = 16\<rparr>,
      CheckAndReactivate 666000000 \<lparr>getMonth = 5, getDate = 9, getDay = Monday, getHours = 17\<rparr>]"

text \<open>
  The scheduler is started on Monday 2 June at 16 h; the timer runs a check at 16 h 55;
  at 17 h 02 the owner sends \<^verbatim>\<open>/reactivation interval 10\<close>, which restarts the scheduler;
  the timer runs a check at 17 h 12.
\<close>

definition exampleRestart :: "call list" where
  "exampleRestart =
     [StartAutoReactivation \<lparr>getMonth = 5, getDate = 2, getDay = Monday, getHours = 16\<rparr>
        57600000 \<lparr>getMonth = 5, getDate = 2, getDay = Monday, getHours = 16\<rparr>,
      CheckAndReactivate 60900000 \<lparr>getMonth = 5, getDate = 2, getDay = Monday, getHours = 16\<rparr>,
      SetCheckInterval 10 \<lparr>getMonth = 5, getDate = 2, getDay = Monday, getHours = 17\<rparr>
        61320000 \<lparr>getMonth = 5, getDate = 2, getDay = Monday, getHours = 17\<rparr>,
      CheckAndReactivate 61920000 \<lparr>getMonth = 5, getDate = 2, getDay = Monday, getHours = 17\<rparr>]"

section \<open>The state manager\<close>

text \<open>\<^verbatim>\<open>stateManager.js\<close>.  Every change of \<^verbatim>\<open>states\<close> is followed by a write of the file.\<close>

definition saveStates :: "bot \<Rightarrow> bot" where
  "saveStates b = b\<lparr>journal := journal b @ [WroteStates (states b)]\<rparr>"

definition newUserState :: "int \<Rightarrow> userState" where
  "newUserState now =
     \<lparr>languageCode = None, currentContext = ''welcome'', lastInteraction = now,
      sessionStarted = now, selectedProduct = JNull, processCompleted = False,
      processStage = ''initial'', languageSelectionComplete = None, stateText = None\<rparr>"

definition getUserState :: "int \<Rightarrow> string \<Rightarrow> bot \<Rightarrow> userState \<times> bot" where
  "getUserState now userId b =
     (case map_of (states b) userId of
        None \<Rightarrow>
          (let b' = saveStates (b\<lparr>states := AList.update userId (newUserState now) (states b)\<rparr>)
           in (newUserState now, b'))
      | Some userState \<Rightarrow> (userState, b))"

text \<open>The object of updates passed to \<open>updateUserState\<close>, one constructor for each property.\<close>

datatype update =
    LanguageCode string
  | CurrentContext string
  | LanguageSelectionComplete bool
  | ProcessCompleted bool
  | SelectedProduct jsval

fun applyUpdate :: "update \<Rightarrow> userState \<Rightarrow> userState" where
  "applyUpdate (LanguageCode c) u = u\<lparr>languageCode := Some c\<rparr>"
| "applyUpdate (CurrentContext c) u = u\<lparr>currentContext := c\<rparr>"
| "applyUpdate (LanguageSelectionComplete f) u = u\<lparr>languageSelectionComplete := Some f\<rparr>"
| "applyUpdate (ProcessCompleted f) u = u\<lparr>processCompleted := f\<rparr>"
| "applyUpdate (SelectedProduct p) u = u\<lparr>selectedProduct := p\<rparr>"

definition updateUserState :: "int \<Rightarrow> string \<Rightarrow> update list \<Rightarrow> bot \<Rightarrow> bot" where
  \<comment> \<open>\<^verbatim>\<open>{ ...userState, ...updates, lastInteraction: Date.now() }\<close>; the callers drop the result\<close>
  "updateUserState now userId updates b =
     (let (userState, b1) = getUserState now userId b;
          updated = (fold applyUpdate updates userState)\<lparr>lastInteraction := now\<rparr>
      in saveStates (b1\<lparr>states := AList.update userId updated (states b1)\<rparr>))"

section \<open>The message provider\<close>

definition langOf :: "string option \<Rightarrow> lang" where
  \<comment> \<open>\<^verbatim>\<open>languageCode === "en"\<close> chooses the English wording\<close>
  "langOf code = (if code = Some ''en'' then En else Es)"

definition getBusinessHoursMenu :: "string option \<Rightarrow> msg" where
  "getBusinessHoursMenu code = BusinessHoursMenu (langOf code)"

definition getOutOfHoursMessage :: "string option \<Rightarrow> msg" where
  "getOutOfHoursMessage code = OutOfHoursMessage (langOf code)"

definition getWatchesResponse :: "string option \<Rightarrow> msg" where
  "getWatchesResponse code = WatchesResponse (langOf code)"

definition getDiamondsResponse :: "string option \<Rightarrow> msg" where
  "getDiamondsResponse code = DiamondsResponse (langOf code)"

definition getGoldResponse :: "string option \<Rightarrow> msg" where
  "getGoldResponse code = GoldResponse (langOf code)"

definition getFallbackMessage :: "string option \<Rightarrow> msg" where
  "getFallbackMessage code = FallbackMessage (langOf code)"

definition getDefaultResponse :: "string option \<Rightarrow> msg" where
  "getDefaultResponse code = DefaultResponse (langOf code)"

definition getClosingMessage :: "string option \<Rightarrow> bool \<Rightarrow> msg" where
  "getClosingMessage code inBusinessHours = ClosingMessage (langOf code) inBusinessHours"

section \<open>The intent processor\<close>

text \<open>
  \<^verbatim>\<open>handlers/intentProcessor.js\<close>.  The parameters of the detected intent are read at
  two places only: \<^verbatim>\<open>parameters.number?.numberValue\<close> and
  \<^verbatim>\<open>parameters.language?.stringValue\<close> (\<open>JUndefined\<close> when absent).
\<close>

record parameters =
  numberValue :: jsval
  stringValue :: jsval

definition espanol :: string where
  \<comment> \<open>the word with n tilde (bytes C3 B1)\<close>
  "espanol = ''espa'' @ [CHR 0xC3, CHR 0xB1] @ ''ol''"

definition lowerChar :: "char \<Rightarrow> char" where
  "lowerChar c = (if 65 \<le> (of_char c :: nat) \<and> (of_char c :: nat) \<le> 90
                  then char_of ((of_char c :: nat) + 32) else c)"

fun toLowerCase :: "string \<Rightarrow> string" where
  \<comment> \<open>\<^verbatim>\<open>s.toLowerCase()\<close> on the ASCII letters and the Latin-1 capitals (C3 80 to C3 9E)\<close>
  "toLowerCase [] = []"
| "toLowerCase [c] = [lowerChar c]"
| "toLowerCase (c # d # cs) =
     (if (of_char c :: nat) = 195 \<and> 128 \<le> (of_char d :: nat) \<and> (of_char d :: nat) \<le> 158
          \<and> (of_char d :: nat) \<noteq> 151
      then c # char_of ((of_char d :: nat) + 32) # toLowerCase cs
      else lowerChar c # toLowerCase (d # cs))"

definition languageInput :: "parameters \<Rightarrow> userState \<Rightarrow> jsval" where
  "languageInput parameters userState =
     js_or
       (js_or (numberValue parameters)
          (if stringValue parameters = JStr espanol then JNum 1
           else if stringValue parameters = JStr ''ingles''
                 \<or> stringValue parameters = JStr ''english'' then JNum 2
           else JNull))
       (if stateText userState = Some ''1''
           \<or> map_option toLowerCase (stateText userState) = Some espanol
           \<or> map_option toLowerCase (stateText userState) = Some ''espanol''
        then JStr ''es''
        else if stateText userState = Some ''2''
           \<or> map_option toLowerCase (stateText userState) = Some ''english''
           \<or> map_option toLowerCase (stateText userState) = Some ''ingles''
        then JStr ''en''
        else JNull)"

definition languageCodeOf :: "jsval \<Rightarrow> string" where
  "languageCodeOf input =
     (if input = JNum 1 \<or> input = JStr ''1'' \<or> input = JStr ''es'' \<or> input = JStr espanol
      then ''es'' else ''en'')"

text \<open>
  The cases of \<open>processIntent\<close>.  The two files that contain \<open>processIntent\<close> each call
  the \<open>sendBotMessage\<close> of their own module, so the cases take it as \<open>send\<close>.
\<close>

type_synonym send = "string \<Rightarrow> msg \<Rightarrow> bot \<Rightarrow> outcome"

definition welcomeIntent :: "send \<Rightarrow> int \<Rightarrow> string \<Rightarrow> string \<Rightarrow> bot \<Rightarrow> outcome" where
  \<comment> \<open>\<^verbatim>\<open>case "Default Welcome Intent"\<close>\<close>
  "welcomeIntent send now chatId userId b =
     (case send chatId WelcomeMessage b of
        Threw b1 \<Rightarrow> Threw b1
      | Returned b1 \<Rightarrow>
          Returned (updateUserState now userId [CurrentContext ''waiting_language_selection''] b1))"

definition lenguajeIntent ::
    "send \<Rightarrow> int \<Rightarrow> jsDate \<Rightarrow> string \<Rightarrow> string \<Rightarrow> parameters \<Rightarrow> userState \<Rightarrow> bot \<Rightarrow> outcome" where
  \<comment> \<open>\<^verbatim>\<open>case "lenguaje"\<close> of \<^verbatim>\<open>handlers/intentProcessor.js\<close>\<close>
  "lenguajeIntent send now date chatId userId parameters userState b =
     (let input = languageInput parameters userState
      in if truthy input
         then
           (let code = languageCodeOf input;
                b1 = updateUserState now userId
                       [LanguageCode code, CurrentContext ''language_selected'',
                        LanguageSelectionComplete True] b
            in if isBusinessHours date
               then send chatId (getBusinessHoursMenu (Some code)) b1
               else send chatId (getOutOfHoursMessage (Some code))
                      (updateUserState now userId
                         [CurrentContext ''product_selected'', ProcessCompleted True] b1))
         else send chatId LanguagePrompt
                (updateUserState now userId [CurrentContext ''waiting_language_selection''] b))"

definition lenguajeIntentLegacy ::
    "send \<Rightarrow> int \<Rightarrow> jsDate \<Rightarrow> string \<Rightarrow> string \<Rightarrow> parameters \<Rightarrow> userState \<Rightarrow> bot \<Rightarrow> outcome" where
  \<comment> \<open>\<^verbatim>\<open>case "lenguaje"\<close> of the single-file \<^verbatim>\<open>index.js\<close>, which tests \<^verbatim>\<open>!isBusinessHours\<close>\<close>
  "lenguajeIntentLegacy send now date chatId userId parameters userState b =
     (let input = languageInput parameters userState
      in if truthy input
         then
           (let code = languageCodeOf input;
                b1 = updateUserState now userId
                       [LanguageCode code, CurrentContext ''language_selected'',
                        LanguageSelectionComplete True] b
            in if \<not> isBusinessHours date
               then send chatId (getBusinessHoursMenu (Some code)) b1
               else send chatId (getOutOfHoursMessage (Some code))
                      (updateUserState now userId
                         [CurrentContext ''product_selected'', ProcessCompleted True] b1))
         else send chatId LanguagePrompt
                (updateUserState now userId [CurrentContext ''waiting_language_selection''] b))"

definition productSelectionIntent ::
    "send \<Rightarrow> int \<Rightarrow> jsDate \<Rightarrow> string \<Rightarrow> string \<Rightarrow> parameters \<Rightarrow> userState \<Rightarrow> bot \<Rightarrow> outcome" where
  \<comment> \<open>\<^verbatim>\<open>case "ProductSelection"\<close>\<close>
  "productSelectionIntent send now date chatId userId parameters userState b =
     (let productType = js_or (numberValue parameters) (stringValue parameters);
          responseMessage =
            (if productType \<in> set [JStr ''1'', JStr ''relojes'', JStr ''watches'', JNum 1]
             then Some (getWatchesResponse (languageCode userState))
             else if productType \<in> set [JStr ''2'', JStr ''diamantes'', JStr ''diamonds'', JNum 2]
             then Some (getDiamondsResponse (languageCode userState))
             else if productType
                     \<in> set [JStr ''3'', JStr ''oro'', JStr ''gold'', JStr ''plata'', JStr ''silver'', JNum 3]
             then Some (getGoldResponse (languageCode userState))
             else None)
      in case responseMessage of
           None \<Rightarrow> send chatId (getFallbackMessage (languageCode userState)) b
         | Some response \<Rightarrow>
             (let b1 = updateUserState now userId
                         [CurrentContext ''product_selected'', SelectedProduct productType,
                          ProcessCompleted True] b;
                  closingMessage = getClosingMessage (languageCode userState) (isBusinessHours date)
              in send chatId (BlankLineBetween response closingMessage) b1))"

definition fallbackIntent :: "send \<Rightarrow> int \<Rightarrow> string \<Rightarrow> string \<Rightarrow> userState \<Rightarrow> bot \<Rightarrow> outcome" where
  \<comment> \<open>\<^verbatim>\<open>case "Default Fallback Intent"\<close>\<close>
  "fallbackIntent send now chatId userId userState b =
     (if currentContext userState = ''waiting_language_selection''
      then send chatId LanguagePrompt
             (updateUserState now userId [CurrentContext ''waiting_language_selection''] b)
      else send chatId (getFallbackMessage (languageCode userState)) b)"

definition processIntent ::
    "socket \<Rightarrow> int \<Rightarrow> jsDate \<Rightarrow> string \<Rightarrow> string \<Rightarrow> string \<Rightarrow> parameters \<Rightarrow> userState \<Rightarrow> bot
       \<Rightarrow> outcome" where
  \<comment> \<open>\<open>processIntent\<close> of \<^verbatim>\<open>handlers/intentProcessor.js\<close>\<close>
  "processIntent sock now date chatId userId intent parameters userState b =
     (if intent = ''Default Welcome Intent''
        then welcomeIntent (sendBotMessage sock) now chatId userId b
      else if intent = ''lenguaje''
        then lenguajeIntent (sendBotMessage sock) now date chatId userId parameters userState b
      else if intent = ''ProductSelection''
        then productSelectionIntent (sendBotMessage sock) now date chatId userId parameters
               userState b
      else if intent = ''Default Fallback Intent''
        then fallbackIntent (sendBotMessage sock) now chatId userId userState b
      else sendBotMessage sock chatId (getDefaultResponse (languageCode userState)) b)"

definition processIntentLegacy ::
    "socket \<Rightarrow> int \<Rightarrow> jsDate \<Rightarrow> string \<Rightarrow> string \<Rightarrow> string \<Rightarrow> parameters \<Rightarrow> userState \<Rightarrow> bot
       \<Rightarrow> outcome" where
  \<comment> \<open>\<open>processIntent\<close> of the single-file \<^verbatim>\<open>index.js\<close>\<close>
  "processIntentLegacy sock now date chatId userId intent parameters userState b =
     (if intent = ''Default Welcome Intent''
        then welcomeIntent (sendBotMessageLegacy sock) now chatId userId b
      else if intent = ''lenguaje''
        then lenguajeIntentLegacy (sendBotMessageLegacy sock) now date chatId userId parameters
               userState b
      else if intent = ''ProductSelection''
        then productSelectionIntent (sendBotMessageLegacy sock) now date chatId userId parameters
               userState b
      else if intent = ''Default Fallback Intent''
        then fallbackIntent (sendBotMessageLegacy sock) now chatId userId userState b
      else sendBotMessageLegacy sock chatId (getDefaultResponse (languageCode userState)) b)"

section \<open>The incoming-message handler\<close>

text \<open>
  \<^verbatim>\<open>handlers/incomingMessage.js\<close>.  A message is read through \<^verbatim>\<open>key.remoteJid\<close>,
  \<^verbatim>\<open>message.conversation\<close> and \<^verbatim>\<open>message.extendedTextMessage?.text\<close>.  The dispatch of an
  owner command (\<^verbatim>\<open>commandHandler.handleCommand\<close>) and the call of Dialogflow
  (\<^verbatim>\<open>detectIntentWithContexts\<close>, \<open>None\<close> when it throws or its answer has no intent) are
  parameters of the handler.
\<close>

record message =
  remoteJid :: string
  conversation :: "string option"
  extendedText :: "string option"

definition messageText :: "message \<Rightarrow> string" where
  \<comment> \<open>\<^verbatim>\<open>message.message.conversation || message.message.extendedTextMessage?.text || ""\<close>\<close>
  "messageText m =
     (let ext = (case extendedText m of None \<Rightarrow> [] | Some t \<Rightarrow> t)
      in case conversation m of
           None \<Rightarrow> ext
         | Some t \<Rightarrow> if t \<noteq> [] then t else ext)"

definition wave :: string where
  \<comment> \<open>the waving-hand emoji (bytes F0 9F 91 8B)\<close>
  "wave = [CHR 0xF0, CHR 0x9F, CHR 0x91, CHR 0x8B]"

definition commandNames :: "string list" where
  "commandNames =
     [wave, ''/help'', ''/off'', ''/on'', ''/status'', ''/reset'', ''/stats'', ''/clean'',
      ''/cleanusers'', ''/setinactive'', ''/reactivation'', ''/reactivate'']"

definition isCommand :: "string \<Rightarrow> bool" where
  "isCommand text =
     (let trimmedMessage = trim text
      in trimmedMessage = wave
         \<or> (startsWith trimmedMessage ''/''
             \<and> hd (split CHR '' '' trimmedMessage) \<in> set commandNames))"

definition orEs :: "string option \<Rightarrow> string" where
  \<comment> \<open>\<^verbatim>\<open>userState.languageCode || "es"\<close>\<close>
  "orEs code = (case code of None \<Rightarrow> ''es'' | Some c \<Rightarrow> if c \<noteq> [] then c else ''es'')"

type_synonym dialogflow =
  "string \<Rightarrow> string \<Rightarrow> string \<Rightarrow> string list \<Rightarrow> (string \<times> parameters) option"

definition completeProcess :: "socket \<Rightarrow> int \<Rightarrow> string \<Rightarrow> string \<Rightarrow> userState \<Rightarrow> bot \<Rightarrow> outcome" where
  \<comment> \<open>step 5, the block under \<^verbatim>\<open>intent === "ProcessCompleted" || userState.processCompleted\<close>\<close>
  "completeProcess sock now chatId userId userState b =
     (let b1 = markProcessCompleted now chatId None b;
          language = orEs (languageCode userState);
          farewellMsg = (if language = ''en'' then Farewell En else Farewell Es)
      in case sendBotMessage sock chatId farewellMsg b1 of
           Threw b2 \<Rightarrow> Threw b2
         | Returned b2 \<Rightarrow>
             Returned (updateUserState now userId [CurrentContext [], ProcessCompleted False] b2))"

definition dialogflowTurn ::
    "socket \<Rightarrow> int \<Rightarrow> jsDate \<Rightarrow> dialogflow \<Rightarrow> string \<Rightarrow> string \<Rightarrow> string \<Rightarrow> userState \<Rightarrow> bot
       \<Rightarrow> outcome" where
  \<comment> \<open>the \<^verbatim>\<open>try\<close> block, steps 4 to 6\<close>
  "dialogflowTurn sock now date detectIntentWithContexts chatId userId userMessage userState b =
     (let currentContexts =
            (if currentContext userState \<noteq> [] then [currentContext userState] else [])
      in case detectIntentWithContexts userId userMessage
                (orEs (languageCode userState)) currentContexts of
           None \<Rightarrow> Threw b
         | Some (intent, parameters) \<Rightarrow>
             if intent = ''ProcessCompleted'' \<or> processCompleted userState
             then completeProcess sock now chatId userId userState b
             else processIntent sock now date chatId userId intent parameters userState b)"

definition handleIncomingMessage ::
    "socket \<Rightarrow> int \<Rightarrow> jsDate \<Rightarrow> (message \<Rightarrow> bot \<Rightarrow> outcome) \<Rightarrow> dialogflow \<Rightarrow> message \<Rightarrow> bot
       \<Rightarrow> outcome" where
  "handleIncomingMessage sock now date handleCommand detectIntentWithContexts m b =
     (let chatId = remoteJid m
      in if endsWith chatId ''@g.us'' then Returned b
         else
           (let userId = userPart chatId;
                userMessage = messageText m
            in if isOwner b userId \<and> isCommand userMessage then handleCommand m b
               else if isOwner b userId \<and> fst (detectOwnerMessage chatId userMessage b)
               then Returned b
               else
                 (let (disabled, b1) = isChatDisabled now chatId b
                  in if truthy disabled then Returned b1
                     else
                       (let (userState, b2) = getUserState now userId b1
                        in case dialogflowTurn sock now date detectIntentWithContexts chatId
                                  userId userMessage userState b2 of
                             Returned b3 \<Rightarrow> Returned b3
                           | Threw b3 \<Rightarrow>
                               sendBotMessage sock chatId
                                 (ErrorApology (langOf (languageCode userState))) b3))))"

subsection \<open>Sample sessions\<close>

definition exampleParameters :: parameters where
  \<comment> \<open>the number 2, as Dialogflow gives it for the reply "2"\<close>
  "exampleParameters = \<lparr>numberValue = JNum 2, stringValue = JUndefined\<rparr>"

definition waitingUser :: userState where
  "waitingUser =
     \<lparr>languageCode = None, currentContext = ''waiting_language_selection'',
      lastInteraction = 0, sessionStarted = 0, selectedProduct = JNull,
      processCompleted = False, processStage = ''initial'',
      languageSelectionComplete = None, stateText = None\<rparr>"

definition waitingBot :: bot where
  "waitingBot =
     \<lparr>ownerNumber = ''1234567890'', disabledChats = [], manualInterventions = [],
      completedChats = [], states = [(''5551234567'', waitingUser)], journal = []\<rparr>"






definition noCommand :: "message \<Rightarrow> bot \<Rightarrow> outcome" where
  \<comment> \<open>a command dispatcher for turns that carry no owner command\<close>
  "noCommand m b = Returned b"

definition welcomeDialogflow :: dialogflow where
  \<comment> \<open>a call of Dialogflow that detects the welcome intent\<close>
  "welcomeDialogflow userId text code contexts =
     Some (''Default Welcome Intent'', \<lparr>numberValue = JUndefined, stringValue = JUndefined\<rparr>)"

definition onlineMessage :: message where
  \<comment> \<open>the owner writes \<^verbatim>\<open>/online\<close> in the chat with the bot's own number\<close>
  "onlineMessage =
     \<lparr>remoteJid = ''1234567890@s.whatsapp.net'', conversation = Some ''/online'',
      extendedText = None\<rparr>"



section \<open>Facts about the loops\<close>

lemma map_of_forInDelete:
  "map_of (fst (forInDelete P ks obj)) k =
     (if k \<in> set ks
      then (case map_of obj k of None \<Rightarrow> None | Some e \<Rightarrow> if P e then None else Some e)
      else map_of obj k)"
proof (induction ks arbitrary: obj)
  case Nil
  show ?case by simp
next
  case (Cons a ks)
  show ?case
  proof (cases "map_of obj a")
    case None
    then show ?thesis using Cons.IH [of obj] by (auto split: option.splits)
  next
    case (Some e)
    show ?thesis
    proof (cases "P e")
      case True
      then show ?thesis
        using Some Cons.IH [of "AList.delete a obj"]
        by (auto simp: delete_conv' split_beta split: option.splits)
    next
      case False
      then show ?thesis using Some Cons.IH [of obj] by (auto split: option.splits)
    qed
  qed
qed

lemma map_of_forIn:
  "map_of (fst (forIn P obj)) k =
     (case map_of obj k of None \<Rightarrow> None | Some e \<Rightarrow> if P e then None else Some e)"
proof (cases "map_of obj k")
  case None
  then show ?thesis by (simp add: forIn_def map_of_forInDelete)
next
  case (Some e)
  then have "k \<in> set (map fst obj)"
    by (metis map_of_eq_None_iff option.distinct(1) set_map)
  then show ?thesis using Some by (simp add: forIn_def map_of_forInDelete)
qed

lemma cleanExpiredEntries_sel:
  "map_of (disabledChats (cleanExpiredEntries now h)) k =
     (case map_of (disabledChats h) k of None \<Rightarrow> None
      | Some e \<Rightarrow> if expiry e < now then None else Some e)"
  "map_of (manualInterventions (cleanExpiredEntries now h)) k =
     (case map_of (manualInterventions h) k of None \<Rightarrow> None
      | Some e \<Rightarrow> if expiry e < now then None else Some e)"
  "map_of (completedChats (cleanExpiredEntries now h)) k =
     (case map_of (completedChats h) k of None \<Rightarrow> None
      | Some e \<Rightarrow> if expiry e < now then None else Some e)"
  "ownerNumber (cleanExpiredEntries now h) = ownerNumber h"
  using map_of_forIn [of "\<lambda>e. expiry e < now" "disabledChats h" k]
        map_of_forIn [of "\<lambda>e. expiry e < now" "manualInterventions h" k]
        map_of_forIn [of "\<lambda>e. expiry e < now" "completedChats h" k]
  by (simp_all add: cleanExpiredEntries_def saveDisabledState_def Let_def split_beta)

lemma liveEntry_after_clean:
  "liveEntry now (disabledChats (cleanExpiredEntries now h)) k = JBool True \<longleftrightarrow>
     (\<exists>e. map_of (disabledChats h) k = Some e \<and> expiry e > now)"
  "liveEntry now (manualInterventions (cleanExpiredEntries now h)) k = JBool True \<longleftrightarrow>
     (\<exists>e. map_of (manualInterventions h) k = Some e \<and> expiry e > now)"
  "liveEntry now (completedChats (cleanExpiredEntries now h)) k = JBool True \<longleftrightarrow>
     (\<exists>e. map_of (completedChats h) k = Some e \<and> expiry e > now)"
  by (auto simp: liveEntry_def cleanExpiredEntries_sel split: option.splits)

lemma js_or_true_iff:
  "js_or a b = JBool True \<longleftrightarrow> a = JBool True \<or> (\<not> truthy a \<and> b = JBool True)"
  by (cases a) (auto simp: js_or_def)

lemma liveEntry_not_truthy: "liveEntry now obj k \<noteq> JBool True \<Longrightarrow> \<not> truthy (liveEntry now obj k)"
  by (auto simp: liveEntry_def split: option.splits)

section \<open>The disable registry and the owner commands\<close>

text \<open>
  C2.  \<open>isChatDisabled\<close> answers \<^verbatim>\<open>true\<close> exactly when the chat has, in at least one of
  the three namespaces, an entry whose expiry is later than now; and the sweep it runs
  first leaves no entry whose expiry instant has passed, in any namespace and for any chat.
\<close>

theorem isChatDisabled_true_iff_live_entry:
  "(fst (isChatDisabled now chatId h) = JBool True \<longleftrightarrow>
      (\<exists>e. map_of (disabledChats h) chatId = Some e \<and> expiry e > now) \<or>
      (\<exists>e. map_of (manualInterventions h) chatId = Some e \<and> expiry e > now) \<or>
      (\<exists>e. map_of (completedChats h) chatId = Some e \<and> expiry e > now))
   \<and> (\<forall>k e. map_of (disabledChats (snd (isChatDisabled now chatId h))) k = Some e
          \<longrightarrow> \<not> expiry e < now)
   \<and> (\<forall>k e. map_of (manualInterventions (snd (isChatDisabled now chatId h))) k = Some e
          \<longrightarrow> \<not> expiry e < now)
   \<and> (\<forall>k e. map_of (completedChats (snd (isChatDisabled now chatId h))) k = Some e
          \<longrightarrow> \<not> expiry e < now)"
proof -
  let ?h = "cleanExpiredEntries now h"
  have res: "fst (isChatDisabled now chatId h) =
      js_or (js_or (liveEntry now (disabledChats ?h) chatId)
                   (liveEntry now (manualInterventions ?h) chatId))
            (liveEntry now (completedChats ?h) chatId)"
    and st: "snd (isChatDisabled now chatId h) = ?h"
    by (simp_all add: isChatDisabled_def Let_def)
  have a: "fst (isChatDisabled now chatId h) = JBool True \<longleftrightarrow>
      liveEntry now (disabledChats ?h) chatId = JBool True \<or>
      liveEntry now (manualInterventions ?h) chatId = JBool True \<or>
      liveEntry now (completedChats ?h) chatId = JBool True"
    unfolding res js_or_true_iff
    using liveEntry_not_truthy [of now "disabledChats ?h" chatId]
          liveEntry_not_truthy [of now "manualInterventions ?h" chatId]
    by (auto simp: js_or_def)
  have b: "\<forall>k e. map_of (disabledChats ?h) k = Some e \<longrightarrow> \<not> expiry e < now"
    by (auto simp: cleanExpiredEntries_sel split: option.splits if_splits)
  have c: "\<forall>k e. map_of (manualInterventions ?h) k = Some e \<longrightarrow> \<not> expiry e < now"
    by (auto simp: cleanExpiredEntries_sel split: option.splits if_splits)
  have d: "\<forall>k e. map_of (completedChats ?h) k = Some e \<longrightarrow> \<not> expiry e < now"
    by (auto simp: cleanExpiredEntries_sel split: option.splits if_splits)
  show ?thesis
    unfolding st using a b c d liveEntry_after_clean [of now h chatId] by blast
qed

theorem isChatDisabled_witness:
  "fst (isChatDisabled 1000 ''222@s.whatsapp.net'' exampleBot) = JBool True
   \<and> map_of (manualInterventions (snd (isChatDisabled 1000 ''222@s.whatsapp.net'' exampleBot)))
        ''111@s.whatsapp.net'' = None"
proof -
  have live: "\<exists>e. map_of (completedChats exampleBot) ''222@s.whatsapp.net'' = Some e \<and> expiry e > 1000"
    by (simp add: exampleBot_def)
  have "map_of (manualInterventions (snd (isChatDisabled 1000 ''222@s.whatsapp.net'' exampleBot)))
        ''111@s.whatsapp.net'' = None"
    by (simp add: isChatDisabled_def cleanExpiredEntries_def forIn_def exampleBot_def saveDisabledState_def Let_def)
  then show ?thesis
    using live isChatDisabled_true_iff_live_entry [of 1000 "''222@s.whatsapp.net''" exampleBot]
    by blast
qed

lemma split_not_Nil: "split c s \<noteq> []"
  by (induction s) (auto split: list.splits)

lemma hd_split: "hd (split c s) = takeWhile (\<lambda>x. x \<noteq> c) s"
  using split_not_Nil [of c] by (induction s) (auto split: list.splits)

lemma userPart_takeWhile: "userPart chatId = takeWhile (\<lambda>x. x \<noteq> CHR ''@'') chatId"
  by (simp add: userPart_def hd_split)

lemma registerManualIntervention_entry:
  "map_of (manualInterventions (registerManualIntervention now chatId None h)) chatId
     = Some \<lparr>expiry = now + 3600000, startTime = now\<rparr>"
  by (simp add: registerManualIntervention_def saveDisabledState_def hoursMs_def Let_def update_conv')

lemma markProcessCompleted_entry:
  "map_of (completedChats (markProcessCompleted now chatId None h)) chatId
     = Some \<lparr>expiry = now + 3600000, completedAt = now\<rparr>"
  by (simp add: markProcessCompleted_def saveDisabledState_def hoursMs_def Let_def update_conv')

text \<open>
  C4.  Called without a duration, \<open>registerManualIntervention\<close> and
  \<open>markProcessCompleted\<close> use their default of one hour: the entry created at instant 0
  expires at 3600000 ms, whereas 24 hours are 86400000 ms.
\<close>

theorem default_duration_is_one_hour:
  "map_of (manualInterventions
            (registerManualIntervention 0 ''5551234567@s.whatsapp.net'' None exampleBot))
      ''5551234567@s.whatsapp.net'' = Some \<lparr>expiry = 3600000, startTime = 0\<rparr>
   \<and> map_of (completedChats
            (markProcessCompleted 0 ''5551234567@s.whatsapp.net'' None exampleBot))
      ''5551234567@s.whatsapp.net'' = Some \<lparr>expiry = 3600000, completedAt = 0\<rparr>
   \<and> hoursMs 24 = 86400000"
  by (simp add: registerManualIntervention_entry markProcessCompleted_entry hoursMs_def)

lemma detectOwnerMessage_iff:
  "fst (detectOwnerMessage chatId text h)
     = (userPart chatId = ownerNumber h \<and> \<not> startsWith text ''/on'')
   \<and> snd (detectOwnerMessage chatId text h) = h"
  by (simp add: detectOwnerMessage_def isOwner_def)

lemma sendBotMessage_state:
  "stateOf (sendBotMessage sock c m b)
     = b\<lparr>journal := journal b
            @ [if sock (journal b) c m then BotMessage c m else SendRejected c m]\<rparr>"
  "returned (sendBotMessage sock c m b) = sock (journal b) c m"
  by (simp_all add: sendBotMessage_def)

lemma sendBotMessageLegacy_state:
  "stateOf (sendBotMessageLegacy sock c m b)
     = b\<lparr>journal := journal b
            @ [if sock (journal b) c m then BotMessage c m else SendRejected c m]\<rparr>"
  "returned (sendBotMessageLegacy sock c m b)"
  by (simp_all add: sendBotMessageLegacy_def)

lemma sockSendMessage_state:
  "stateOf (sockSendMessage sock c m b)
     = b\<lparr>journal := journal b
            @ [if sock (journal b) c m then SockMessage c m else SendRejected c m]\<rparr>"
  "returned (sockSendMessage sock c m b) = sock (journal b) c m"
  by (simp_all add: sockSendMessage_def)

lemma isChatDisabled_exampleBot:
  "isChatDisabled 1000 ''1234567890@s.whatsapp.net'' exampleBot
     = (JUndefined,
        exampleBot\<lparr>manualInterventions := [],
                   journal := [WroteDisabledChats [] []
                                 [(''222@s.whatsapp.net'', \<lparr>expiry = 5000, completedAt = 1400\<rparr>)]]\<rparr>)"
  "isChatDisabled 1000 ''111@s.whatsapp.net'' exampleBot
     = (JUndefined,
        exampleBot\<lparr>manualInterventions := [],
                   journal := [WroteDisabledChats [] []
                                 [(''222@s.whatsapp.net'', \<lparr>expiry = 5000, completedAt = 1400\<rparr>)]]\<rparr>)"
  by (simp_all add: isChatDisabled_def cleanExpiredEntries_def forIn_def liveEntry_def js_or_def
        exampleBot_def saveDisabledState_def Let_def)

lemma isCommand_online: "\<not> isCommand ''/online''"
  by (simp add: isCommand_def trim_def trimEnd_def whiteSpace1_def whiteSpace2_def whiteSpace3_def
        startsWith_def commandNames_def wave_def Let_def)

text \<open>
  C9.  \<open>detectOwnerMessage\<close> tests \<^verbatim>\<open>message.startsWith("/on")\<close>, so for the owner it
  answers \<^verbatim>\<open>false\<close> not only for the \<^verbatim>\<open>/on\<close> command but for every text that begins with
  these three characters.  The owner's text \<^verbatim>\<open>/online\<close> is not the command and
  \<open>isCommand\<close> does not take it for one, yet \<open>detectOwnerMessage\<close> answers \<^verbatim>\<open>false\<close>; the
  incoming-message handler then treats the owner as a customer and sends the welcome.
  For a text of the owner that does not begin with \<^verbatim>\<open>/on\<close> the answer is \<^verbatim>\<open>true\<close>.
\<close>

theorem detectOwnerMessage_takes_online_for_on:
  "userPart ''1234567890@s.whatsapp.net'' = ownerNumber exampleBot
   \<and> ''/online'' \<noteq> ''/on''
   \<and> \<not> isCommand ''/online''
   \<and> detectOwnerMessage ''1234567890@s.whatsapp.net'' ''/online'' exampleBot = (False, exampleBot)
   \<and> detectOwnerMessage ''1234567890@s.whatsapp.net'' ''/on'' exampleBot = (False, exampleBot)
   \<and> detectOwnerMessage ''1234567890@s.whatsapp.net'' ''hola, ya le atiendo'' exampleBot
       = (True, exampleBot)
   \<and> messagesOf (journal (stateOf (handleIncomingMessage acceptAll 1000
          \<lparr>getMonth = 5, getDate = 2, getDay = Monday, getHours = 11\<rparr>
          noCommand welcomeDialogflow onlineMessage exampleBot)))
       = [(''1234567890@s.whatsapp.net'', WelcomeMessage)]"
proof -
  have u: "userPart ''1234567890@s.whatsapp.net'' = ''1234567890''"
    by (simp add: userPart_def)
  have d: "detectOwnerMessage ''1234567890@s.whatsapp.net'' ''/online'' exampleBot
             = (False, exampleBot)"
    "detectOwnerMessage ''1234567890@s.whatsapp.net'' ''/on'' exampleBot = (False, exampleBot)"
    "detectOwnerMessage ''1234567890@s.whatsapp.net'' ''hola, ya le atiendo'' exampleBot
       = (True, exampleBot)"
    by (simp_all add: detectOwnerMessage_def isOwner_def u startsWith_def exampleBot_def)
  have m: "remoteJid onlineMessage = ''1234567890@s.whatsapp.net''"
    "messageText onlineMessage = ''/online''"
    by (simp_all add: onlineMessage_def messageText_def)
  have o: "isOwner exampleBot ''1234567890''" "ownerNumber exampleBot = ''1234567890''"
    by (simp_all add: isOwner_def exampleBot_def)
  have s: "states exampleBot = []"
    by (simp add: exampleBot_def)
  have "messagesOf (journal (stateOf (handleIncomingMessage acceptAll 1000
          \<lparr>getMonth = 5, getDate = 2, getDay = Monday, getHours = 11\<rparr>
          noCommand welcomeDialogflow onlineMessage exampleBot)))
       = [(''1234567890@s.whatsapp.net'', WelcomeMessage)]"
    by (simp add: handleIncomingMessage_def m u o d isCommand_online endsWith_def
          isChatDisabled_exampleBot getUserState_def saveStates_def dialogflowTurn_def
          welcomeDialogflow_def newUserState_def processIntent_def welcomeIntent_def
          sendBotMessage_def acceptAll_def updateUserState_def s Let_def)
  then show ?thesis
    using d isCommand_online by (simp add: u o)
qed

lemma deleteFromNamespaces_maps:
  "map_of (disabledChats (fst (deleteFromNamespaces c h))) k = (if k = c then None else map_of (disabledChats h) k)"
  "map_of (manualInterventions (fst (deleteFromNamespaces c h))) k = (if k = c then None else map_of (manualInterventions h) k)"
  "map_of (completedChats (fst (deleteFromNamespaces c h))) k = (if k = c then None else map_of (completedChats h) k)"
  by (auto simp: deleteFromNamespaces_def Let_def split_beta delete_conv' split: option.splits)

lemma deleteFromNamespaces_flag: "snd (deleteFromNamespaces c h) = hasEntry h c"
  by (auto simp: deleteFromNamespaces_def hasEntry_def Let_def split_beta split: option.splits)

lemma deleteFromNamespaces_absent:
  "map_of (disabledChats h) c = None \<Longrightarrow> map_of (manualInterventions h) c = None
   \<Longrightarrow> map_of (completedChats h) c = None \<Longrightarrow> deleteFromNamespaces c h = (h, False)"
  by (simp add: deleteFromNamespaces_def)

lemma deleteFromNamespaces_other:
  "ownerNumber (fst (deleteFromNamespaces c h)) = ownerNumber h"
  "journal (fst (deleteFromNamespaces c h)) = journal h"
  "states (fst (deleteFromNamespaces c h)) = states h"
  by (auto simp: deleteFromNamespaces_def Let_def split_beta split: option.splits)

lemma saveDisabledState_sel:
  "disabledChats (saveDisabledState h) = disabledChats h"
  "manualInterventions (saveDisabledState h) = manualInterventions h"
  "completedChats (saveDisabledState h) = completedChats h"
  "ownerNumber (saveDisabledState h) = ownerNumber h"
  "states (saveDisabledState h) = states h"
  by (simp_all add: saveDisabledState_def)

lemma parseInt_examples:
  "parseInt ''2'' = Some 2" "parseInt ''168'' = Some 168" "parseInt ''169'' = Some 169"
  "parseInt ''0'' = Some 0" "parseInt ''abc'' = None" "parseInt ''-3'' = Some (- 3)"
  "parseInt ([CHR 0xC2, CHR 0xA0] @ ''5'') = Some 5" "parseInt '' 7 days'' = Some 7"
  by (simp_all add: parseInt_def whiteSpace1_def whiteSpace2_def whiteSpace3_def
        startsWith_def isRadixDigit_def digitValue_def radixValue_def)

lemma isChatDisabled_hasEntry:
  "fst (isChatDisabled now chatId h) = JBool True \<Longrightarrow> hasEntry h chatId"
proof -
  assume "fst (isChatDisabled now chatId h) = JBool True"
  then have "liveEntry now (disabledChats (cleanExpiredEntries now h)) chatId = JBool True
      \<or> liveEntry now (manualInterventions (cleanExpiredEntries now h)) chatId = JBool True
      \<or> liveEntry now (completedChats (cleanExpiredEntries now h)) chatId = JBool True"
    by (auto simp: isChatDisabled_def Let_def js_or_def split: if_splits)
  then show "hasEntry h chatId"
    unfolding liveEntry_after_clean hasEntry_def by auto
qed

lemma activateBot_state:
  "stateOf (activateBot sock chatId b)
     = (fst (deleteFromNamespaces chatId b))
         \<lparr>journal := journal b
            @ [WroteDisabledChats (disabledChats (fst (deleteFromNamespaces chatId b)))
                 (manualInterventions (fst (deleteFromNamespaces chatId b)))
                 (completedChats (fst (deleteFromNamespaces chatId b))),
               if returned (activateBot sock chatId b)
               then BotMessage chatId (if hasEntry b chatId then BotActivatedAgain else BotAlreadyActive)
               else SendRejected chatId (if hasEntry b chatId then BotActivatedAgain else BotAlreadyActive)]\<rparr>"
  by (simp add: activateBot_def Let_def split_beta deleteFromNamespaces_flag sendBotMessage_state
        saveDisabledState_def deleteFromNamespaces_other)

lemma activateBot_returned:
  "returned (activateBot sock chatId b)
     = sock (journal b
               @ [WroteDisabledChats (disabledChats (fst (deleteFromNamespaces chatId b)))
                    (manualInterventions (fst (deleteFromNamespaces chatId b)))
                    (completedChats (fst (deleteFromNamespaces chatId b)))])
         chatId (if hasEntry b chatId then BotActivatedAgain else BotAlreadyActive)"
  by (simp add: activateBot_def Let_def split_beta deleteFromNamespaces_flag sendBotMessage_state
        saveDisabledState_def deleteFromNamespaces_other)

lemma forceReactivate_state:
  assumes "t = (if includesChar target CHR ''@'' then target else target @ ''@s.whatsapp.net'')"
  shows "stateOf (forceReactivate sock caller (target # rest) b)
     = (fst (deleteFromNamespaces t b))
         \<lparr>journal := journal b
            @ (if hasEntry b t
               then [WroteDisabledChats (disabledChats (fst (deleteFromNamespaces t b)))
                       (manualInterventions (fst (deleteFromNamespaces t b)))
                       (completedChats (fst (deleteFromNamespaces t b))),
                     if returned (forceReactivate sock caller (target # rest) b)
                     then SockMessage caller (ChatReactivated t)
                     else SendRejected caller (ChatReactivated t)]
               else [if returned (forceReactivate sock caller (target # rest) b)
                     then SockMessage caller (ChatWasNotDisabled t)
                     else SendRejected caller (ChatWasNotDisabled t)])\<rparr>"
  using assms
  by (simp add: forceReactivate_def Let_def split_beta deleteFromNamespaces_flag
        sockSendMessage_state saveDisabledState_def deleteFromNamespaces_other)

lemma hasEntry_after_delete: "\<not> hasEntry (fst (deleteFromNamespaces c h)) c"
  by (simp add: hasEntry_def deleteFromNamespaces_maps)

lemma hasEntry_journal: "hasEntry (h\<lparr>journal := j\<rparr>) c = hasEntry h c"
  by (simp add: hasEntry_def)

lemma deleteFromNamespaces_no_entry: "\<not> hasEntry h c \<Longrightarrow> fst (deleteFromNamespaces c h) = h"
  by (simp add: hasEntry_def deleteFromNamespaces_absent)

text \<open>
  What reactivation does in every state.  Reactivating a chat, by \<^verbatim>\<open>/on\<close> (\<open>activateBot\<close>) or by
  \<^verbatim>\<open>/reactivate\<close> for a target chat (\<open>forceReactivate\<close>, which takes its first argument and
  appends \<^verbatim>\<open>@s.whatsapp.net\<close> when it has no \<^verbatim>\<open>@\<close>), leaves that chat without an entry in any of the three namespaces
  and every other chat with the entries it had.  The reply it hands to the socket says
  whether the chat had an entry in some namespace, of whatever expiry; this is the case for
  every chat that \<open>isChatDisabled\<close> calls disabled.  A second call right after hands over
  the reply that the chat was not disabled and leaves the three namespaces as they were.
  All of this holds whether the socket takes the replies or rejects them.
\<close>

lemma reactivation_clears_and_is_idempotent:
  assumes "r1 = activateBot sock chatId b"
      and "r2 = activateBot sock chatId (stateOf r1)"
      and "t = (if includesChar target CHR ''@'' then target else target @ ''@s.whatsapp.net'')"
      and "g1 = forceReactivate sock caller (target # rest) b"
      and "g2 = forceReactivate sock caller (target # rest) (stateOf g1)"
  shows "map_of (disabledChats (stateOf r1)) k
           = (if k = chatId then None else map_of (disabledChats b) k)
       \<and> map_of (manualInterventions (stateOf r1)) k
           = (if k = chatId then None else map_of (manualInterventions b) k)
       \<and> map_of (completedChats (stateOf r1)) k
           = (if k = chatId then None else map_of (completedChats b) k)
       \<and> journal (stateOf r1) = journal b
            @ [WroteDisabledChats (disabledChats (stateOf r1)) (manualInterventions (stateOf r1))
                 (completedChats (stateOf r1)),
               if returned r1
               then BotMessage chatId
                      (if hasEntry b chatId then BotActivatedAgain else BotAlreadyActive)
               else SendRejected chatId
                      (if hasEntry b chatId then BotActivatedAgain else BotAlreadyActive)]
       \<and> (fst (isChatDisabled now chatId b) = JBool True \<longrightarrow> hasEntry b chatId)
       \<and> journal (stateOf r2) = journal (stateOf r1)
            @ [WroteDisabledChats (disabledChats (stateOf r1)) (manualInterventions (stateOf r1))
                 (completedChats (stateOf r1)),
               if returned r2 then BotMessage chatId BotAlreadyActive
               else SendRejected chatId BotAlreadyActive]
       \<and> disabledChats (stateOf r2) = disabledChats (stateOf r1)
       \<and> manualInterventions (stateOf r2) = manualInterventions (stateOf r1)
       \<and> completedChats (stateOf r2) = completedChats (stateOf r1)
       \<and> map_of (disabledChats (stateOf g1)) k
           = (if k = t then None else map_of (disabledChats b) k)
       \<and> map_of (manualInterventions (stateOf g1)) k
           = (if k = t then None else map_of (manualInterventions b) k)
       \<and> map_of (completedChats (stateOf g1)) k
           = (if k = t then None else map_of (completedChats b) k)
       \<and> journal (stateOf g1) = journal b
            @ (if hasEntry b t
               then [WroteDisabledChats (disabledChats (stateOf g1))
                       (manualInterventions (stateOf g1)) (completedChats (stateOf g1)),
                     if returned g1 then SockMessage caller (ChatReactivated t)
                     else SendRejected caller (ChatReactivated t)]
               else [if returned g1 then SockMessage caller (ChatWasNotDisabled t)
                     else SendRejected caller (ChatWasNotDisabled t)])
       \<and> (fst (isChatDisabled now t b) = JBool True \<longrightarrow> hasEntry b t)
       \<and> journal (stateOf g2) = journal (stateOf g1)
            @ [if returned g2 then SockMessage caller (ChatWasNotDisabled t)
               else SendRejected caller (ChatWasNotDisabled t)]
       \<and> disabledChats (stateOf g2) = disabledChats (stateOf g1)
       \<and> manualInterventions (stateOf g2) = manualInterventions (stateOf g1)
       \<and> completedChats (stateOf g2) = completedChats (stateOf g1)"
proof -
  let ?d = "fst (deleteFromNamespaces chatId b)"
  have ns1: "disabledChats (stateOf r1) = disabledChats ?d"
    "manualInterventions (stateOf r1) = manualInterventions ?d"
    "completedChats (stateOf r1) = completedChats ?d"
    by (simp_all add: assms(1) activateBot_state)
  have maps1: "map_of (disabledChats (stateOf r1)) k
           = (if k = chatId then None else map_of (disabledChats b) k)"
    "map_of (manualInterventions (stateOf r1)) k
           = (if k = chatId then None else map_of (manualInterventions b) k)"
    "map_of (completedChats (stateOf r1)) k
           = (if k = chatId then None else map_of (completedChats b) k)"
    by (simp_all only: ns1 deleteFromNamespaces_maps)
  have j1: "journal (stateOf r1) = journal b
            @ [WroteDisabledChats (disabledChats (stateOf r1)) (manualInterventions (stateOf r1))
                 (completedChats (stateOf r1)),
               if returned r1
               then BotMessage chatId
                      (if hasEntry b chatId then BotActivatedAgain else BotAlreadyActive)
               else SendRejected chatId
                      (if hasEntry b chatId then BotActivatedAgain else BotAlreadyActive)]"
    unfolding ns1 by (simp add: assms(1) activateBot_state)
  have no1: "\<not> hasEntry (stateOf r1) chatId"
    using hasEntry_after_delete [of chatId b]
    by (simp add: hasEntry_def ns1)
  have same1: "fst (deleteFromNamespaces chatId (stateOf r1)) = stateOf r1"
    using no1 by (rule deleteFromNamespaces_no_entry)
  have second: "journal (stateOf r2) = journal (stateOf r1)
            @ [WroteDisabledChats (disabledChats (stateOf r1)) (manualInterventions (stateOf r1))
                 (completedChats (stateOf r1)),
               if returned r2 then BotMessage chatId BotAlreadyActive
               else SendRejected chatId BotAlreadyActive]"
    "disabledChats (stateOf r2) = disabledChats (stateOf r1)"
    "manualInterventions (stateOf r2) = manualInterventions (stateOf r1)"
    "completedChats (stateOf r2) = completedChats (stateOf r1)"
    using no1 by (simp_all add: assms(2) activateBot_state same1)
  let ?e = "fst (deleteFromNamespaces t b)"
  note g1 = forceReactivate_state [OF assms(3), of sock caller rest b, folded assms(4)]
  have nsg: "disabledChats (stateOf g1) = disabledChats ?e"
    "manualInterventions (stateOf g1) = manualInterventions ?e"
    "completedChats (stateOf g1) = completedChats ?e"
    by (simp_all add: g1)
  have mapsg: "map_of (disabledChats (stateOf g1)) k
           = (if k = t then None else map_of (disabledChats b) k)"
    "map_of (manualInterventions (stateOf g1)) k
           = (if k = t then None else map_of (manualInterventions b) k)"
    "map_of (completedChats (stateOf g1)) k
           = (if k = t then None else map_of (completedChats b) k)"
    by (simp_all only: nsg deleteFromNamespaces_maps)
  have jg: "journal (stateOf g1) = journal b
            @ (if hasEntry b t
               then [WroteDisabledChats (disabledChats (stateOf g1))
                       (manualInterventions (stateOf g1)) (completedChats (stateOf g1)),
                     if returned g1 then SockMessage caller (ChatReactivated t)
                     else SendRejected caller (ChatReactivated t)]
               else [if returned g1 then SockMessage caller (ChatWasNotDisabled t)
                     else SendRejected caller (ChatWasNotDisabled t)])"
    unfolding nsg by (simp add: g1)
  have nog: "\<not> hasEntry (stateOf g1) t"
    using hasEntry_after_delete [of t b]
    by (simp add: hasEntry_def nsg)
  have sameg: "fst (deleteFromNamespaces t (stateOf g1)) = stateOf g1"
    using nog by (rule deleteFromNamespaces_no_entry)
  note g2 = forceReactivate_state [OF assms(3), of sock caller rest "stateOf g1", folded assms(5)]
  have second': "journal (stateOf g2) = journal (stateOf g1)
            @ [if returned g2 then SockMessage caller (ChatWasNotDisabled t)
               else SendRejected caller (ChatWasNotDisabled t)]"
    "disabledChats (stateOf g2) = disabledChats (stateOf g1)"
    "manualInterventions (stateOf g2) = manualInterventions (stateOf g1)"
    "completedChats (stateOf g2) = completedChats (stateOf g1)"
    using nog by (simp_all add: g2 sameg)
  have dis: "fst (isChatDisabled now chatId b) = JBool True \<longrightarrow> hasEntry b chatId"
    "fst (isChatDisabled now t b) = JBool True \<longrightarrow> hasEntry b t"
    by (simp_all add: isChatDisabled_hasEntry)
  show ?thesis
    using maps1 j1 second mapsg jg second' dis by (simp only: simp_thms)
qed

lemma reactivation_example:
  "journal (stateOf (activateBot acceptAll ''222@s.whatsapp.net'' exampleBot))
     = [WroteDisabledChats [] [(''111@s.whatsapp.net'', \<lparr>expiry = 500, startTime = 0\<rparr>)] [],
        BotMessage ''222@s.whatsapp.net'' BotActivatedAgain]
   \<and> journal (stateOf (activateBot acceptAll ''222@s.whatsapp.net''
        (stateOf (activateBot acceptAll ''222@s.whatsapp.net'' exampleBot))))
     = [WroteDisabledChats [] [(''111@s.whatsapp.net'', \<lparr>expiry = 500, startTime = 0\<rparr>)] [],
        BotMessage ''222@s.whatsapp.net'' BotActivatedAgain,
        WroteDisabledChats [] [(''111@s.whatsapp.net'', \<lparr>expiry = 500, startTime = 0\<rparr>)] [],
        BotMessage ''222@s.whatsapp.net'' BotAlreadyActive]
   \<and> map_of (manualInterventions (stateOf (activateBot acceptAll ''222@s.whatsapp.net'' exampleBot)))
        ''111@s.whatsapp.net'' = Some \<lparr>expiry = 500, startTime = 0\<rparr>
   \<and> journal (stateOf (forceReactivate acceptAll ''1234567890@s.whatsapp.net'' [''111'']
        (stateOf (forceReactivate acceptAll ''1234567890@s.whatsapp.net'' [''111''] exampleBot))))
     = [WroteDisabledChats [] [] [(''222@s.whatsapp.net'', \<lparr>expiry = 5000, completedAt = 1400\<rparr>)],
        SockMessage ''1234567890@s.whatsapp.net'' (ChatReactivated ''111@s.whatsapp.net''),
        SockMessage ''1234567890@s.whatsapp.net'' (ChatWasNotDisabled ''111@s.whatsapp.net'')]
   \<and> hasEntry exampleBot ''222@s.whatsapp.net''
   \<and> hasEntry exampleBot ''111@s.whatsapp.net''"
proof -
  have a: "disabledChats (stateOf (activateBot acceptAll ''222@s.whatsapp.net'' exampleBot)) = []"
    "manualInterventions (stateOf (activateBot acceptAll ''222@s.whatsapp.net'' exampleBot))
       = [(''111@s.whatsapp.net'', \<lparr>expiry = 500, startTime = 0\<rparr>)]"
    "completedChats (stateOf (activateBot acceptAll ''222@s.whatsapp.net'' exampleBot)) = []"
    "disabledChats (stateOf (forceReactivate acceptAll ''1234567890@s.whatsapp.net'' [''111'']
        exampleBot)) = []"
    "manualInterventions (stateOf (forceReactivate acceptAll ''1234567890@s.whatsapp.net''
        [''111''] exampleBot)) = []"
    "completedChats (stateOf (forceReactivate acceptAll ''1234567890@s.whatsapp.net'' [''111'']
        exampleBot)) = [(''222@s.whatsapp.net'', \<lparr>expiry = 5000, completedAt = 1400\<rparr>)]"
    by (simp_all add: activateBot_def forceReactivate_def deleteFromNamespaces_def exampleBot_def
          sendBotMessage_def sockSendMessage_def saveDisabledState_def includesChar_def
          acceptAll_def Let_def)
  have r: "returned (activateBot acceptAll ''222@s.whatsapp.net'' exampleBot) = True"
    "returned (activateBot acceptAll ''222@s.whatsapp.net''
        (stateOf (activateBot acceptAll ''222@s.whatsapp.net'' exampleBot))) = True"
    "returned (forceReactivate acceptAll ''1234567890@s.whatsapp.net'' [''111''] exampleBot) = True"
    "returned (forceReactivate acceptAll ''1234567890@s.whatsapp.net'' [''111'']
        (stateOf (forceReactivate acceptAll ''1234567890@s.whatsapp.net'' [''111''] exampleBot)))
      = True"
    by (simp_all add: activateBot_def forceReactivate_def sendBotMessage_def sockSendMessage_def
          acceptAll_def Let_def split_beta)
  have t: "(if includesChar ''111'' CHR ''@'' then ''111'' else ''111'' @ ''@s.whatsapp.net'')
             = ''111@s.whatsapp.net''"
    by (simp add: includesChar_def)
  have c: "hasEntry exampleBot ''222@s.whatsapp.net'' = True"
    "hasEntry exampleBot ''111@s.whatsapp.net'' = True"
    "journal exampleBot = []"
    "map_of (manualInterventions exampleBot) ''111@s.whatsapp.net''
       = Some \<lparr>expiry = 500, startTime = 0\<rparr>"
    by (simp_all add: exampleBot_def hasEntry_def)
  have d: "fst (isChatDisabled 100 ''222@s.whatsapp.net'' exampleBot) = JBool True"
    "fst (isChatDisabled 100 ''111@s.whatsapp.net'' exampleBot) = JBool True"
    by (simp_all add: isChatDisabled_def cleanExpiredEntries_def forIn_def liveEntry_def js_or_def
          exampleBot_def Let_def)
  note T = reactivation_clears_and_is_idempotent
          [where chatId = "''222@s.whatsapp.net''" and b = exampleBot and target = "''111''"
             and caller = "''1234567890@s.whatsapp.net''" and sock = acceptAll and now = 100
             and k = "''111@s.whatsapp.net''" and rest = "[]",
           OF refl refl refl refl refl, unfolded t]
  show ?thesis
    using T d by (simp add: a r c)
qed

text \<open>
  C7.  Reactivation reports whether the chat had an entry, not whether it was disabled.
  At instant 1000 the chat 111 of \<open>exampleBot\<close> is not disabled: its one entry, a manual
  intervention, expired at 500 and has not been swept since.  Yet \<^verbatim>\<open>/on\<close> in that chat
  removes the entry and answers that the bot was activated again, and \<^verbatim>\<open>/reactivate 111\<close>
  answers that the chat was reactivated, where for the chat 333, which has no entry, they
  answer that the bot was already active and that the chat was not disabled.  In the same
  way, half a second after the owner's \<^verbatim>\<open>/off 1\<close> has expired (\<open>ownerOffBot\<close>), the owner's
  chat is not disabled, and \<^verbatim>\<open>/on\<close> answers that the bot was activated again.
\<close>

theorem reactivation_reports_expired_entry:
  "fst (isChatDisabled 1000 ''111@s.whatsapp.net'' exampleBot) = JUndefined
   \<and> \<not> truthy (fst (isChatDisabled 1000 ''111@s.whatsapp.net'' exampleBot))
   \<and> activateBot acceptAll ''111@s.whatsapp.net'' exampleBot
       = Returned (exampleBot\<lparr>manualInterventions := [],
            journal := [WroteDisabledChats [] []
                          [(''222@s.whatsapp.net'', \<lparr>expiry = 5000, completedAt = 1400\<rparr>)],
                        BotMessage ''111@s.whatsapp.net'' BotActivatedAgain]\<rparr>)
   \<and> forceReactivate acceptAll ''1234567890@s.whatsapp.net'' [''111''] exampleBot
       = Returned (exampleBot\<lparr>manualInterventions := [],
            journal := [WroteDisabledChats [] []
                          [(''222@s.whatsapp.net'', \<lparr>expiry = 5000, completedAt = 1400\<rparr>)],
                        SockMessage ''1234567890@s.whatsapp.net''
                          (ChatReactivated ''111@s.whatsapp.net'')]\<rparr>)
   \<and> messagesOf (journal (stateOf (activateBot acceptAll ''333@s.whatsapp.net'' exampleBot)))
       = [(''333@s.whatsapp.net'', BotAlreadyActive)]
   \<and> messagesOf (journal (stateOf (forceReactivate acceptAll ''1234567890@s.whatsapp.net''
         [''333''] exampleBot)))
       = [(''1234567890@s.whatsapp.net'', ChatWasNotDisabled ''333@s.whatsapp.net'')]
   \<and> disabledChats (stateOf (deactivateBot acceptAll 0 ''1234567890@s.whatsapp.net'' [''1'']
         (ownerOffBot\<lparr>disabledChats := []\<rparr>))) = disabledChats ownerOffBot
   \<and> \<not> truthy (fst (isChatDisabled 3600500 ''1234567890@s.whatsapp.net'' ownerOffBot))
   \<and> activateBot acceptAll ''1234567890@s.whatsapp.net'' ownerOffBot
       = Returned (ownerOffBot\<lparr>disabledChats := [],
            journal := [WroteDisabledChats [] [] [],
                        BotMessage ''1234567890@s.whatsapp.net'' BotActivatedAgain]\<rparr>)"
proof -
  have one: "parseInt ''1'' = Some 1"
    by (simp add: parseInt_def whiteSpace1_def whiteSpace2_def whiteSpace3_def
          startsWith_def isRadixDigit_def digitValue_def radixValue_def)
  have owner: "disabledChats (stateOf (deactivateBot acceptAll 0 ''1234567890@s.whatsapp.net'' [''1'']
         (ownerOffBot\<lparr>disabledChats := []\<rparr>))) = disabledChats ownerOffBot"
    "\<not> truthy (fst (isChatDisabled 3600500 ''1234567890@s.whatsapp.net'' ownerOffBot))"
    "activateBot acceptAll ''1234567890@s.whatsapp.net'' ownerOffBot
       = Returned (ownerOffBot\<lparr>disabledChats := [],
            journal := [WroteDisabledChats [] [] [],
                        BotMessage ''1234567890@s.whatsapp.net'' BotActivatedAgain]\<rparr>)"
    by (simp_all add: ownerOffBot_def deactivateBot_def one hoursMs_def
          isChatDisabled_def cleanExpiredEntries_def forIn_def liveEntry_def js_or_def
          activateBot_def deleteFromNamespaces_def sendBotMessage_def saveDisabledState_def
          acceptAll_def Let_def)
  have "activateBot acceptAll ''111@s.whatsapp.net'' exampleBot
       = Returned (exampleBot\<lparr>manualInterventions := [],
            journal := [WroteDisabledChats [] []
                          [(''222@s.whatsapp.net'', \<lparr>expiry = 5000, completedAt = 1400\<rparr>)],
                        BotMessage ''111@s.whatsapp.net'' BotActivatedAgain]\<rparr>)"
   "forceReactivate acceptAll ''1234567890@s.whatsapp.net'' [''111''] exampleBot
       = Returned (exampleBot\<lparr>manualInterventions := [],
            journal := [WroteDisabledChats [] []
                          [(''222@s.whatsapp.net'', \<lparr>expiry = 5000, completedAt = 1400\<rparr>)],
                        SockMessage ''1234567890@s.whatsapp.net''
                          (ChatReactivated ''111@s.whatsapp.net'')]\<rparr>)"
   "messagesOf (journal (stateOf (activateBot acceptAll ''333@s.whatsapp.net'' exampleBot)))
       = [(''333@s.whatsapp.net'', BotAlreadyActive)]"
   "messagesOf (journal (stateOf (forceReactivate acceptAll ''1234567890@s.whatsapp.net''
         [''333''] exampleBot)))
       = [(''1234567890@s.whatsapp.net'', ChatWasNotDisabled ''333@s.whatsapp.net'')]"
    by (simp_all add: activateBot_def forceReactivate_def deleteFromNamespaces_def exampleBot_def
          sendBotMessage_def sockSendMessage_def saveDisabledState_def includesChar_def
          acceptAll_def Let_def)
  then show ?thesis
    using owner by (simp add: isChatDisabled_exampleBot)
qed

text \<open>
  C8.  \<^verbatim>\<open>/off\<close> with no argument (no token after the command, or an empty one) disables
  the invoking chat for 24 hours; with an argument it disables the chat for that many
  hours when \<open>parseInt\<close> reads an integer from 1 to 168 in it, and otherwise hands the error
  text to the socket and changes nothing else: no namespace, no session, and no write of
  the file.  In each case the handler returns when the socket takes the reply and throws
  when it rejects it.
\<close>

theorem deactivateBot_accepts_1_to_168:
  "((args = [] \<or> (\<exists>rest. args = [] # rest)) \<longrightarrow>
      stateOf (deactivateBot sock now chatId args h) =
        h\<lparr>disabledChats :=
            (AList.update chatId
                    \<lparr>expiry = now + hoursMs 24, startTime = now, disabledBy = ownerNumber h\<rparr>
                    (disabledChats h)),
          journal := journal h
            @ [WroteDisabledChats
                 (AList.update chatId
                    \<lparr>expiry = now + hoursMs 24, startTime = now, disabledBy = ownerNumber h\<rparr>
                    (disabledChats h))
                 (manualInterventions h) (completedChats h),
               if returned (deactivateBot sock now chatId args h)
               then BotMessage chatId (OffConfirmed 24 (now + hoursMs 24))
               else SendRejected chatId (OffConfirmed 24 (now + hoursMs 24))]\<rparr>
      \<and> returned (deactivateBot sock now chatId args h)
          = sock (journal h
                    @ [WroteDisabledChats
                 (AList.update chatId
                    \<lparr>expiry = now + hoursMs 24, startTime = now, disabledBy = ownerNumber h\<rparr>
                    (disabledChats h))
                 (manualInterventions h) (completedChats h)])
              chatId (OffConfirmed 24 (now + hoursMs 24)))
   \<and> (\<forall>a rest n. args = a # rest \<and> a \<noteq> [] \<and> parseInt a = Some n \<and> 1 \<le> n \<and> n \<le> 168 \<longrightarrow>
      stateOf (deactivateBot sock now chatId args h) =
        h\<lparr>disabledChats :=
            (AList.update chatId
                    \<lparr>expiry = now + hoursMs n, startTime = now, disabledBy = ownerNumber h\<rparr>
                    (disabledChats h)),
          journal := journal h
            @ [WroteDisabledChats
                 (AList.update chatId
                    \<lparr>expiry = now + hoursMs n, startTime = now, disabledBy = ownerNumber h\<rparr>
                    (disabledChats h))
                 (manualInterventions h) (completedChats h),
               if returned (deactivateBot sock now chatId args h)
               then BotMessage chatId (OffConfirmed n (now + hoursMs n))
               else SendRejected chatId (OffConfirmed n (now + hoursMs n))]\<rparr>
      \<and> returned (deactivateBot sock now chatId args h)
          = sock (journal h
                    @ [WroteDisabledChats
                 (AList.update chatId
                    \<lparr>expiry = now + hoursMs n, startTime = now, disabledBy = ownerNumber h\<rparr>
                    (disabledChats h))
                 (manualInterventions h) (completedChats h)])
              chatId (OffConfirmed n (now + hoursMs n)))
   \<and> (\<forall>a rest. args = a # rest \<and> a \<noteq> []
          \<and> \<not> (\<exists>n. parseInt a = Some n \<and> 1 \<le> n \<and> n \<le> 168) \<longrightarrow>
      stateOf (deactivateBot sock now chatId args h)
        = h\<lparr>journal := journal h
              @ [if returned (deactivateBot sock now chatId args h)
                 then BotMessage chatId OffInvalidHours
                 else SendRejected chatId OffInvalidHours]\<rparr>
      \<and> returned (deactivateBot sock now chatId args h) = sock (journal h) chatId OffInvalidHours)"
proof (intro conjI allI impI)
  assume "args = [] \<or> (\<exists>rest. args = [] # rest)"
  then have "(case args of [] \<Rightarrow> Some 24 | a # _ \<Rightarrow> if a \<noteq> [] then parseInt a else Some 24) = Some (24::int)"
    by auto
  then show "stateOf (deactivateBot sock now chatId args h) =
        h\<lparr>disabledChats :=
            (AList.update chatId
                    \<lparr>expiry = now + hoursMs 24, startTime = now, disabledBy = ownerNumber h\<rparr>
                    (disabledChats h)),
          journal := journal h
            @ [WroteDisabledChats
                 (AList.update chatId
                    \<lparr>expiry = now + hoursMs 24, startTime = now, disabledBy = ownerNumber h\<rparr>
                    (disabledChats h))
                 (manualInterventions h) (completedChats h),
               if returned (deactivateBot sock now chatId args h)
               then BotMessage chatId (OffConfirmed 24 (now + hoursMs 24))
               else SendRejected chatId (OffConfirmed 24 (now + hoursMs 24))]\<rparr>"
    and "returned (deactivateBot sock now chatId args h)
          = sock (journal h
                    @ [WroteDisabledChats
                 (AList.update chatId
                    \<lparr>expiry = now + hoursMs 24, startTime = now, disabledBy = ownerNumber h\<rparr>
                    (disabledChats h))
                 (manualInterventions h) (completedChats h)])
              chatId (OffConfirmed 24 (now + hoursMs 24))"
    unfolding deactivateBot_def Let_def
    by (simp_all add: sendBotMessage_state saveDisabledState_def)
next
  fix a rest n
  assume "args = a # rest \<and> a \<noteq> [] \<and> parseInt a = Some n \<and> 1 \<le> n \<and> n \<le> 168"
  then show "stateOf (deactivateBot sock now chatId args h) =
        h\<lparr>disabledChats :=
            (AList.update chatId
                    \<lparr>expiry = now + hoursMs n, startTime = now, disabledBy = ownerNumber h\<rparr>
                    (disabledChats h)),
          journal := journal h
            @ [WroteDisabledChats
                 (AList.update chatId
                    \<lparr>expiry = now + hoursMs n, startTime = now, disabledBy = ownerNumber h\<rparr>
                    (disabledChats h))
                 (manualInterventions h) (completedChats h),
               if returned (deactivateBot sock now chatId args h)
               then BotMessage chatId (OffConfirmed n (now + hoursMs n))
               else SendRejected chatId (OffConfirmed n (now + hoursMs n))]\<rparr>"
    and "returned (deactivateBot sock now chatId args h)
          = sock (journal h
                    @ [WroteDisabledChats
                 (AList.update chatId
                    \<lparr>expiry = now + hoursMs n, startTime = now, disabledBy = ownerNumber h\<rparr>
                    (disabledChats h))
                 (manualInterventions h) (completedChats h)])
              chatId (OffConfirmed n (now + hoursMs n))"
    unfolding deactivateBot_def Let_def
    by (simp_all add: sendBotMessage_state saveDisabledState_def)
next
  fix a rest
  assume "args = a # rest \<and> a \<noteq> []
          \<and> \<not> (\<exists>n. parseInt a = Some n \<and> 1 \<le> n \<and> n \<le> 168)"
  then show "stateOf (deactivateBot sock now chatId args h)
        = h\<lparr>journal := journal h
              @ [if returned (deactivateBot sock now chatId args h)
                 then BotMessage chatId OffInvalidHours
                 else SendRejected chatId OffInvalidHours]\<rparr>"
    and "returned (deactivateBot sock now chatId args h) = sock (journal h) chatId OffInvalidHours"
    unfolding deactivateBot_def Let_def
    by (cases "parseInt a"; auto simp: sendBotMessage_state)+
qed

theorem deactivateBot_witness:
  "map_of (disabledChats (stateOf (deactivateBot acceptAll 1000 ''1234567890@s.whatsapp.net'' []
        exampleBot))) ''1234567890@s.whatsapp.net''
     = Some \<lparr>expiry = 86401000, startTime = 1000, disabledBy = ''1234567890''\<rparr>
   \<and> map_of (disabledChats (stateOf (deactivateBot acceptAll 1000 ''1234567890@s.whatsapp.net''
        [''2''] exampleBot))) ''1234567890@s.whatsapp.net''
     = Some \<lparr>expiry = 7201000, startTime = 1000, disabledBy = ''1234567890''\<rparr>
   \<and> map_of (disabledChats (stateOf (deactivateBot acceptAll 1000 ''1234567890@s.whatsapp.net''
        [[CHR 0xC2, CHR 0xA0] @ ''5''] exampleBot))) ''1234567890@s.whatsapp.net''
     = Some \<lparr>expiry = 18001000, startTime = 1000, disabledBy = ''1234567890''\<rparr>
   \<and> stateOf (deactivateBot acceptAll 1000 ''1234567890@s.whatsapp.net'' [''169''] exampleBot)
     = exampleBot\<lparr>journal := [BotMessage ''1234567890@s.whatsapp.net'' OffInvalidHours]\<rparr>
   \<and> stateOf (deactivateBot acceptAll 1000 ''1234567890@s.whatsapp.net'' [''abc''] exampleBot)
     = exampleBot\<lparr>journal := [BotMessage ''1234567890@s.whatsapp.net'' OffInvalidHours]\<rparr>"
  using deactivateBot_accepts_1_to_168
          [of "[]" acceptAll 1000 "''1234567890@s.whatsapp.net''" exampleBot]
        deactivateBot_accepts_1_to_168
          [of "[''2'']" acceptAll 1000 "''1234567890@s.whatsapp.net''" exampleBot]
        deactivateBot_accepts_1_to_168
          [of "[[CHR 0xC2, CHR 0xA0] @ ''5'']" acceptAll 1000 "''1234567890@s.whatsapp.net''"
              exampleBot]
        deactivateBot_accepts_1_to_168
          [of "[''169'']" acceptAll 1000 "''1234567890@s.whatsapp.net''" exampleBot]
        deactivateBot_accepts_1_to_168
          [of "[''abc'']" acceptAll 1000 "''1234567890@s.whatsapp.net''" exampleBot]
  by (simp add: parseInt_examples [simplified] exampleBot_def hoursMs_def acceptAll_def)

section \<open>Business hours and holidays\<close>

lemma digitChar_values:
  "digitChar 0 = CHR ''0''" "digitChar 1 = CHR ''1''" "digitChar 2 = CHR ''2''"
  "digitChar 3 = CHR ''3''" "digitChar 4 = CHR ''4''" "digitChar 5 = CHR ''5''"
  "digitChar 6 = CHR ''6''" "digitChar 7 = CHR ''7''" "digitChar 8 = CHR ''8''"
  "digitChar 9 = CHR ''9''"
  by (simp_all add: digitChar_def char_of_eq_iff)

lemma digitChar_inj: "a < 10 \<Longrightarrow> b < 10 \<Longrightarrow> digitChar a = digitChar b \<longleftrightarrow> a = b"
proof
  assume "a < 10" "b < 10" "digitChar a = digitChar b"
  then have "(of_char (char_of (48 + a)) :: nat) = of_char (char_of (48 + b))"
    by (simp add: digitChar_def)
  then show "a = b" using \<open>a < 10\<close> \<open>b < 10\<close> by (simp add: take_bit_eq_mod)
qed simp

lemma pad2_toString:
  "n < 100 \<Longrightarrow> padStart 2 CHR ''0'' (toString n) = [digitChar (n div 10), digitChar (n mod 10)]"
proof (cases "n < 10")
  case True
  then show ?thesis by (simp add: toString.simps [of n] padStart_def digitChar_values)
next
  case False
  assume "n < 100"
  then have "n div 10 < 10" by simp
  then show ?thesis using False
    by (simp add: toString.simps [of n] toString.simps [of "n div 10"] padStart_def)
qed

lemma two_digits:
  "b < 10 \<Longrightarrow> (k div 10 = a \<and> k mod 10 = b) \<longleftrightarrow> k = 10 * a + (b::nat)"
  by auto

lemma dateStr_eq_iff:
  assumes "M < 100" "N < 100" "a < 10" "b < 10" "c < 10" "e < 10"
  shows "padStart 2 CHR ''0'' (toString M) @ ''-'' @ padStart 2 CHR ''0'' (toString N)
           = [digitChar a, digitChar b, CHR ''-'', digitChar c, digitChar e]
         \<longleftrightarrow> M = 10 * a + b \<and> N = 10 * c + e"
proof -
  have d: "M div 10 < 10" "M mod 10 < 10" "N div 10 < 10" "N mod 10 < 10"
    using assms(1,2) by simp_all
  have "padStart 2 CHR ''0'' (toString M) @ ''-'' @ padStart 2 CHR ''0'' (toString N)
           = [digitChar a, digitChar b, CHR ''-'', digitChar c, digitChar e]
     \<longleftrightarrow> digitChar (M div 10) = digitChar a \<and> digitChar (M mod 10) = digitChar b
         \<and> digitChar (N div 10) = digitChar c \<and> digitChar (N mod 10) = digitChar e"
    by (simp only: pad2_toString [OF assms(1)] pad2_toString [OF assms(2)] append.simps
          list.inject simp_thms)
  also have "\<dots> \<longleftrightarrow> M div 10 = a \<and> M mod 10 = b \<and> N div 10 = c \<and> N mod 10 = e"
    by (simp only: digitChar_inj [OF d(1) assms(3)] digitChar_inj [OF d(2) assms(4)]
          digitChar_inj [OF d(3) assms(5)] digitChar_inj [OF d(4) assms(6)])
  also have "\<dots> \<longleftrightarrow> M = 10 * a + b \<and> N = 10 * c + e"
    using two_digits [OF assms(4), of M a] two_digits [OF assms(6), of N c] by blast
  finally show ?thesis .
qed

lemma holiday_strings:
  "''01-01'' = [digitChar 0, digitChar 1, CHR ''-'', digitChar 0, digitChar 1]"
  "''07-04'' = [digitChar 0, digitChar 7, CHR ''-'', digitChar 0, digitChar 4]"
  "''12-25'' = [digitChar 1, digitChar 2, CHR ''-'', digitChar 2, digitChar 5]"
  by (simp_all only: digitChar_values)

lemma isHoliday_iff:
  assumes "getMonth d < 12" "getDate d \<le> 31"
  shows "isHoliday d \<longleftrightarrow>
           (getMonth d + 1, getDate d) \<in> {(1, 1), (7, 4), (12, 25)}"
proof -
  let ?m = "getMonth d + 1" and ?n = "getDate d"
  let ?s = "padStart 2 CHR ''0'' (toString ?m) @ ''-'' @ padStart 2 CHR ''0'' (toString ?n)"
  have m: "?m < 100" and n: "?n < 100" using assms by simp_all
  have "isHoliday d \<longleftrightarrow> ?s = ''01-01'' \<or> ?s = ''07-04'' \<or> ?s = ''12-25''"
    unfolding isHoliday_def Let_def holidays_def
    by (simp only: list.set insert_iff empty_iff simp_thms)
  also have "\<dots> \<longleftrightarrow> (?m = 1 \<and> ?n = 1) \<or> (?m = 7 \<and> ?n = 4) \<or> (?m = 12 \<and> ?n = 25)"
  proof -
    have "?s = ''01-01'' \<longleftrightarrow> ?m = 1 \<and> ?n = 1"
      unfolding holiday_strings using dateStr_eq_iff [OF m n, of 0 1 0 1] by simp
    moreover have "?s = ''07-04'' \<longleftrightarrow> ?m = 7 \<and> ?n = 4"
      unfolding holiday_strings using dateStr_eq_iff [OF m n, of 0 7 0 4] by simp
    moreover have "?s = ''12-25'' \<longleftrightarrow> ?m = 12 \<and> ?n = 25"
      unfolding holiday_strings using dateStr_eq_iff [OF m n, of 1 2 2 5] by simp
    ultimately show ?thesis by blast
  qed
  also have "\<dots> \<longleftrightarrow> (?m, ?n) \<in> {(1, 1), (7, 4), (12, 25)}"
    by simp
  finally show ?thesis .
qed

lemma isHoliday_examples:
  "\<not> isHoliday \<lparr>getMonth = 5, getDate = 7, getDay = Saturday, getHours = 11\<rparr>"
  "isHoliday \<lparr>getMonth = 6, getDate = 4, getDay = Saturday, getHours = 11\<rparr>"
  "isHoliday \<lparr>getMonth = 11, getDate = 25, getDay = Thursday, getHours = 15\<rparr>"
  by (simp_all add: isHoliday_iff)

text \<open>
  C6.  \<open>isBusinessHours\<close> is false on a holiday, whatever the weekday and the hour;
  otherwise false when the weekday's table entry is closed; otherwise true exactly when
  \<open>start \<le> hour < end\<close>.  With the configured table it is true on a Saturday at 11 that
  is not a holiday, false on a Saturday at 13 and false on a Sunday.  A date is a holiday
  exactly when its month and day of the month are 1 January, 4 July or 25 December.
\<close>

theorem isBusinessHours_by_table:
  "(isHoliday d \<longrightarrow> \<not> isBusinessHours d)
   \<and> (\<not> isHoliday d \<and> businessHours (getDay d) = Closed \<longrightarrow> \<not> isBusinessHours d)
   \<and> (\<forall>start end. \<not> isHoliday d \<and> businessHours (getDay d) = OpenHours start end \<longrightarrow>
          (isBusinessHours d \<longleftrightarrow> start \<le> getHours d \<and> getHours d < end))
   \<and> (getDay d = Saturday \<and> getHours d = 11 \<and> \<not> isHoliday d \<longrightarrow> isBusinessHours d)
   \<and> (getDay d = Saturday \<and> getHours d = 13 \<longrightarrow> \<not> isBusinessHours d)
   \<and> (getDay d = Sunday \<longrightarrow> \<not> isBusinessHours d)
   \<and> (getMonth d < 12 \<and> getDate d \<le> 31 \<longrightarrow>
          (isHoliday d \<longleftrightarrow> (getMonth d + 1, getDate d) \<in> {(1, 1), (7, 4), (12, 25)}))"
  using isHoliday_iff [of d]
  by (auto simp: isBusinessHours_def Let_def split: dayHours.splits)

theorem isBusinessHours_witness:
  "isBusinessHours \<lparr>getMonth = 5, getDate = 7, getDay = Saturday, getHours = 11\<rparr>
   \<and> \<not> isBusinessHours \<lparr>getMonth = 5, getDate = 7, getDay = Saturday, getHours = 13\<rparr>
   \<and> \<not> isBusinessHours \<lparr>getMonth = 5, getDate = 8, getDay = Sunday, getHours = 11\<rparr>
   \<and> \<not> isBusinessHours \<lparr>getMonth = 6, getDate = 4, getDay = Saturday, getHours = 11\<rparr>
   \<and> \<not> isBusinessHours \<lparr>getMonth = 11, getDate = 25, getDay = Thursday, getHours = 15\<rparr>
   \<and> isBusinessHours \<lparr>getMonth = 5, getDate = 2, getDay = Monday, getHours = 16\<rparr>
   \<and> \<not> isBusinessHours \<lparr>getMonth = 5, getDate = 2, getDay = Monday, getHours = 17\<rparr>"
  using isBusinessHours_by_table [of "\<lparr>getMonth = 5, getDate = 7, getDay = Saturday, getHours = 11\<rparr>"]
        isBusinessHours_by_table [of "\<lparr>getMonth = 5, getDate = 7, getDay = Saturday, getHours = 13\<rparr>"]
        isBusinessHours_by_table [of "\<lparr>getMonth = 5, getDate = 8, getDay = Sunday, getHours = 11\<rparr>"]
        isBusinessHours_by_table [of "\<lparr>getMonth = 6, getDate = 4, getDay = Saturday, getHours = 11\<rparr>"]
        isBusinessHours_by_table [of "\<lparr>getMonth = 11, getDate = 25, getDay = Thursday, getHours = 15\<rparr>"]
        isBusinessHours_by_table [of "\<lparr>getMonth = 5, getDate = 2, getDay = Monday, getHours = 16\<rparr>"]
        isBusinessHours_by_table [of "\<lparr>getMonth = 5, getDate = 2, getDay = Monday, getHours = 17\<rparr>"]
  by (simp add: isHoliday_iff)

section \<open>The scheduler\<close>

lemma forIn_all_empty: "fst (forIn (\<lambda>_. True) obj) = []"
proof -
  have "map_of (fst (forIn (\<lambda>_. True) obj)) = Map.empty"
    by (rule ext) (simp add: map_of_forIn split: option.splits)
  then show ?thesis by simp
qed

lemma forIn_Nil: "forIn P [] = ([], [])"
  by (simp add: forIn_def)

lemma closingDetected_mgr1:
  "closingDetected (mgr\<lparr>lastCheck := a, recentlyReactivated := b\<rparr>) date = closingDetected mgr date"
  by (simp add: closingDetected_def)

lemma massReactivateAllChats_sel:
  "disabledChats (snd (snd (massReactivateAllChats (mgr, h)))) = []"
  "manualInterventions (snd (snd (massReactivateAllChats (mgr, h)))) = []"
  "completedChats (snd (snd (massReactivateAllChats (mgr, h)))) = []"
  "massReactivationDone (fst (snd (massReactivateAllChats (mgr, h)))) = massReactivationDone mgr"
  "wasBusinessHours (fst (snd (massReactivateAllChats (mgr, h)))) = wasBusinessHours mgr"
  using forIn_all_empty [of "disabledChats h"] forIn_all_empty [of "manualInterventions h"]
        forIn_all_empty [of "completedChats h"]
  by (simp_all add: massReactivateAllChats_def Let_def split_beta saveDisabledState_def)

lemma closingCheck_sel:
  "massReactivationDone (fst (snd (closingCheck date (mgr, h)))) =
     (if closingDetected mgr date then (dayNumber (getDay date), getHours date)
      else massReactivationDone mgr)"
  "closingDetected mgr date \<Longrightarrow> disabledChats (snd (snd (closingCheck date (mgr, h)))) = []"
  "closingDetected mgr date \<Longrightarrow> manualInterventions (snd (snd (closingCheck date (mgr, h)))) = []"
  "closingDetected mgr date \<Longrightarrow> completedChats (snd (snd (closingCheck date (mgr, h)))) = []"
  "\<not> closingDetected mgr date \<Longrightarrow> closingCheck date (mgr, h) = (0, mgr, h)"
  by (simp_all add: closingCheck_def Let_def split_beta massReactivateAllChats_sel)

lemma expirySweep_sel:
  "massReactivationDone (fst (snd (expirySweep now n (mgr, h)))) = massReactivationDone mgr"
  "wasBusinessHours (fst (snd (expirySweep now n (mgr, h)))) = wasBusinessHours mgr"
  "map_of (disabledChats (snd (snd (expirySweep now n (mgr, h))))) k =
     (case map_of (disabledChats h) k of None \<Rightarrow> None
      | Some e \<Rightarrow> if expiry e \<le> now then None else Some e)"
  "map_of (manualInterventions (snd (snd (expirySweep now n (mgr, h))))) k =
     (case map_of (manualInterventions h) k of None \<Rightarrow> None
      | Some e \<Rightarrow> if expiry e \<le> now then None else Some e)"
  "map_of (completedChats (snd (snd (expirySweep now n (mgr, h))))) k =
     (case map_of (completedChats h) k of None \<Rightarrow> None
      | Some e \<Rightarrow> if expiry e \<le> now then None else Some e)"
  using map_of_forIn [of "\<lambda>e. expiry e \<le> now" "disabledChats h" k]
    map_of_forIn [of "\<lambda>e. expiry e \<le> now" "manualInterventions h" k]
    map_of_forIn [of "\<lambda>e. expiry e \<le> now" "completedChats h" k]
  by (simp_all add: expirySweep_def Let_def split_beta saveDisabledState_def)

lemma map_of_all_None:
  assumes "\<And>k. map_of xs k = None"
  shows "xs = []"
proof -
  have "map_of xs = Map.empty" by (rule ext) (simp add: assms)
  then show ?thesis by simp
qed

lemma checkAndReactivate_unfold:
  "snd (checkAndReactivate now date (mgr, h)) =
     snd (expirySweep now
            (fst (closingCheck date (mgr\<lparr>lastCheck := Some now, recentlyReactivated := []\<rparr>, h)))
            ((fst (snd (closingCheck date (mgr\<lparr>lastCheck := Some now, recentlyReactivated := []\<rparr>, h))))
               \<lparr>wasBusinessHours := Some (isBusinessHours date)\<rparr>,
             snd (snd (closingCheck date (mgr\<lparr>lastCheck := Some now, recentlyReactivated := []\<rparr>, h)))))"
  by (simp add: checkAndReactivate_def Let_def split_beta)

lemma checkAndReactivate_marker:
  "massReactivationDone (fst (snd (checkAndReactivate now date s))) =
     (if closingDetected (fst s) date then (dayNumber (getDay date), getHours date)
      else massReactivationDone (fst s))"
  using checkAndReactivate_unfold [of now date "fst s" "snd s"]
  by (simp add: expirySweep_sel closingCheck_sel closingDetected_mgr1)

lemma checkAndReactivate_was:
  "wasBusinessHours (fst (snd (checkAndReactivate now date s))) = Some (isBusinessHours date)"
  using checkAndReactivate_unfold [of now date "fst s" "snd s"]
  by (simp add: expirySweep_sel)

lemma checkAndReactivate_fired:
  assumes "closingDetected mgr date"
  shows "disabledChats (snd (snd (checkAndReactivate now date (mgr, h)))) = []"
    "manualInterventions (snd (snd (checkAndReactivate now date (mgr, h)))) = []"
    "completedChats (snd (snd (checkAndReactivate now date (mgr, h)))) = []"
proof -
  have c: "closingDetected (mgr\<lparr>lastCheck := Some now, recentlyReactivated := []\<rparr>) date"
    using assms by (simp add: closingDetected_mgr1)
  show "disabledChats (snd (snd (checkAndReactivate now date (mgr, h)))) = []"
    by (rule map_of_all_None) (simp add: checkAndReactivate_unfold expirySweep_sel closingCheck_sel(2) [OF c])
  show "manualInterventions (snd (snd (checkAndReactivate now date (mgr, h)))) = []"
    by (rule map_of_all_None) (simp add: checkAndReactivate_unfold expirySweep_sel closingCheck_sel(3) [OF c])
  show "completedChats (snd (snd (checkAndReactivate now date (mgr, h)))) = []"
    by (rule map_of_all_None) (simp add: checkAndReactivate_unfold expirySweep_sel closingCheck_sel(4) [OF c])
qed

lemma checkAndReactivate_not_fired:
  assumes "\<not> closingDetected mgr date"
  shows "map_of (disabledChats (snd (snd (checkAndReactivate now date (mgr, h))))) k =
           (case map_of (disabledChats h) k of None \<Rightarrow> None
            | Some e \<Rightarrow> if expiry e \<le> now then None else Some e)"
    "map_of (manualInterventions (snd (snd (checkAndReactivate now date (mgr, h))))) k =
           (case map_of (manualInterventions h) k of None \<Rightarrow> None
            | Some e \<Rightarrow> if expiry e \<le> now then None else Some e)"
    "map_of (completedChats (snd (snd (checkAndReactivate now date (mgr, h))))) k =
           (case map_of (completedChats h) k of None \<Rightarrow> None
            | Some e \<Rightarrow> if expiry e \<le> now then None else Some e)"
proof -
  have c: "\<not> closingDetected (mgr\<lparr>lastCheck := Some now, recentlyReactivated := []\<rparr>) date"
    using assms by (simp add: closingDetected_mgr1)
  show "map_of (disabledChats (snd (snd (checkAndReactivate now date (mgr, h))))) k =
           (case map_of (disabledChats h) k of None \<Rightarrow> None
            | Some e \<Rightarrow> if expiry e \<le> now then None else Some e)"
    by (simp add: checkAndReactivate_unfold closingCheck_sel(5) [OF c] expirySweep_sel)
  show "map_of (manualInterventions (snd (snd (checkAndReactivate now date (mgr, h))))) k =
           (case map_of (manualInterventions h) k of None \<Rightarrow> None
            | Some e \<Rightarrow> if expiry e \<le> now then None else Some e)"
    by (simp add: checkAndReactivate_unfold closingCheck_sel(5) [OF c] expirySweep_sel)
  show "map_of (completedChats (snd (snd (checkAndReactivate now date (mgr, h))))) k =
           (case map_of (completedChats h) k of None \<Rightarrow> None
            | Some e \<Rightarrow> if expiry e \<le> now then None else Some e)"
    by (simp add: checkAndReactivate_unfold closingCheck_sel(5) [OF c] expirySweep_sel)
qed

lemma closingDetected_other_fields:
  "closingDetected (mgr\<lparr>checkInterval := a\<rparr>) date = closingDetected mgr date"
  "closingDetected (mgr\<lparr>checkIntervalId := b, isRunning := c\<rparr>) date = closingDetected mgr date"
  by (simp_all add: closingDetected_def)

lemma closingDetected_iff:
  "closingDetected mgr date \<longleftrightarrow>
     wasBusinessHours mgr = Some True \<and> \<not> isBusinessHours date
     \<and> massReactivationDone mgr \<noteq> dayHour date"
  by (auto simp: closingDetected_def dayHour_def prod_eq_iff)

lemma checkAndReactivate_marker':
  "massReactivationDone (fst (snd (checkAndReactivate now date s))) =
     (if closingDetected (fst s) date then dayHour date else massReactivationDone (fst s))"
  by (simp add: checkAndReactivate_marker dayHour_def)

lemma startAutoReactivation_running:
  "isRunning (fst s) \<Longrightarrow> startAutoReactivation started now date s = s"
  by (simp add: startAutoReactivation_def split_beta)

lemma startAutoReactivation_stopped:
  assumes "\<not> isRunning mgr"
  shows "massReactivationDone (fst (startAutoReactivation started now date (mgr, h)))
           = massReactivationDone (fst (snd (checkAndReactivate now date
                (mgr\<lparr>wasBusinessHours := Some (isBusinessHours started)\<rparr>, h))))"
    and "wasBusinessHours (fst (startAutoReactivation started now date (mgr, h)))
           = Some (isBusinessHours date)"
    and "snd (startAutoReactivation started now date (mgr, h))
           = snd (snd (checkAndReactivate now date
                (mgr\<lparr>wasBusinessHours := Some (isBusinessHours started)\<rparr>, h)))"
  using assms
  by (simp_all add: startAutoReactivation_def split_beta Let_def checkAndReactivate_was)

lemma stopAutoReactivation_sel:
  "massReactivationDone (fst (stopAutoReactivation s)) = massReactivationDone (fst s)"
  "wasBusinessHours (fst (stopAutoReactivation s)) = wasBusinessHours (fst s)"
  "snd (stopAutoReactivation s) = snd s"
  "closingDetected (fst (stopAutoReactivation s)) date = closingDetected (fst s) date"
  by (simp_all add: stopAutoReactivation_def split_beta closingDetected_def)

lemma checkOfStart_sel:
  "massReactivationDone (fst (startAutoReactivation started now date s))
     = (case filter massReactivated (checkOfStart started date s) of
          [] \<Rightarrow> massReactivationDone (fst s) | e # _ \<Rightarrow> dayHour (checkedAt e))"
  "wasBusinessHours (fst (startAutoReactivation started now date s))
     = (case checkOfStart started date s of
          [] \<Rightarrow> wasBusinessHours (fst s) | e # _ \<Rightarrow> Some (isBusinessHours (checkedAt e)))"
proof -
  obtain mgr h where s: "s = (mgr, h)" by (cases s)
  show "massReactivationDone (fst (startAutoReactivation started now date s))
     = (case filter massReactivated (checkOfStart started date s) of
          [] \<Rightarrow> massReactivationDone (fst s) | e # _ \<Rightarrow> dayHour (checkedAt e))"
    by (cases "isRunning mgr")
       (simp_all add: s startAutoReactivation_running startAutoReactivation_stopped
          checkOfStart_def checkAndReactivate_marker')
  show "wasBusinessHours (fst (startAutoReactivation started now date s))
     = (case checkOfStart started date s of
          [] \<Rightarrow> wasBusinessHours (fst s) | e # _ \<Rightarrow> Some (isBusinessHours (checkedAt e)))"
    by (cases "isRunning mgr")
       (simp_all add: s startAutoReactivation_running startAutoReactivation_stopped
          checkOfStart_def)
qed

lemma perform_marker:
  "massReactivationDone (fst (perform c s))
     = (case filter massReactivated (checksOf c s) of
          [] \<Rightarrow> massReactivationDone (fst s) | e # _ \<Rightarrow> dayHour (checkedAt e))"
proof (cases c)
  case (CheckAndReactivate now date)
  then show ?thesis by (simp add: checkAndReactivate_marker')
next
  case (StartAutoReactivation started now date)
  then show ?thesis by (simp add: checkOfStart_sel)
next
  case StopAutoReactivation
  then show ?thesis by (simp add: stopAutoReactivation_sel)
next
  case (SetCheckInterval minutes started now date)
  obtain mgr h where s: "s = (mgr, h)" by (cases s)
  show ?thesis
    using checkOfStart_sel(1) [of started now date
            "stopAutoReactivation (mgr\<lparr>checkInterval := minutesMs minutes\<rparr>, h)"]
    by (simp add: SetCheckInterval s setCheckInterval_def Let_def stopAutoReactivation_sel
          cong: list.case_cong)
next
  case (OtherHandlers h)
  then show ?thesis by simp
qed

lemma perform_was:
  "wasBusinessHours (fst (perform c s))
     = (case checksOf c s of
          [] \<Rightarrow> wasBusinessHours (fst s) | e # _ \<Rightarrow> Some (isBusinessHours (checkedAt e)))"
proof (cases c)
  case (CheckAndReactivate now date)
  then show ?thesis by (simp add: checkAndReactivate_was)
next
  case (StartAutoReactivation started now date)
  then show ?thesis by (simp add: checkOfStart_sel)
next
  case StopAutoReactivation
  then show ?thesis by (simp add: stopAutoReactivation_sel)
next
  case (SetCheckInterval minutes started now date)
  obtain mgr h where s: "s = (mgr, h)" by (cases s)
  show ?thesis
    using checkOfStart_sel(2) [of started now date
            "stopAutoReactivation (mgr\<lparr>checkInterval := minutesMs minutes\<rparr>, h)"]
    by (simp add: SetCheckInterval s setCheckInterval_def Let_def stopAutoReactivation_sel
          cong: list.case_cong)
next
  case (OtherHandlers h)
  then show ?thesis by simp
qed

lemma checksOf_cases: "checksOf c s = [] \<or> (\<exists>e. checksOf c s = [e])"
  by (cases c) (simp_all add: checkOfStart_def)

lemma checksOf_guard:
  assumes "checksOf c s = [e]" and "massReactivated e"
  shows "\<not> isBusinessHours (checkedAt e)"
    and "massReactivationDone (fst s) \<noteq> dayHour (checkedAt e)"
    and "case startedAt e of
           Some started \<Rightarrow> isBusinessHours started
         | None \<Rightarrow> wasBusinessHours (fst s) = Some True"
proof -
  have "\<not> isBusinessHours (checkedAt e) \<and> massReactivationDone (fst s) \<noteq> dayHour (checkedAt e)
      \<and> (case startedAt e of
           Some started \<Rightarrow> isBusinessHours started
         | None \<Rightarrow> wasBusinessHours (fst s) = Some True)"
  proof (cases c)
    case (CheckAndReactivate now date)
    then show ?thesis using assms by (auto simp: closingDetected_iff)
  next
    case (StartAutoReactivation started now date)
    then show ?thesis using assms
      by (auto simp: checkOfStart_def closingDetected_iff split: if_splits)
  next
    case StopAutoReactivation
    then show ?thesis using assms by simp
  next
    case (SetCheckInterval minutes started now date)
    then show ?thesis using assms
      by (auto simp: checkOfStart_def closingDetected_iff stopAutoReactivation_sel
            split: if_splits)
  next
    case (OtherHandlers h)
    then show ?thesis using assms by simp
  qed
  then show "\<not> isBusinessHours (checkedAt e)"
    and "massReactivationDone (fst s) \<noteq> dayHour (checkedAt e)"
    and "case startedAt e of
           Some started \<Rightarrow> isBusinessHours started
         | None \<Rightarrow> wasBusinessHours (fst s) = Some True"
    by simp_all
qed

lemma checks_guard:
  assumes "i < length (checks calls s)" and "massReactivated (checks calls s ! i)"
  shows "\<not> isBusinessHours (checkedAt (checks calls s ! i))
       \<and> (case startedAt (checks calls s ! i) of
            Some started \<Rightarrow> isBusinessHours started
          | None \<Rightarrow>
              if i = 0 then wasBusinessHours (fst s) = Some True
              else isBusinessHours (checkedAt (checks calls s ! (i - 1))))"
  using assms
proof (induction calls arbitrary: s i)
  case Nil
  then show ?case by simp
next
  case (Cons c cs)
  let ?s' = "perform c s"
  from checksOf_cases [of c s] show ?case
  proof
    assume none: "checksOf c s = []"
    then have w: "wasBusinessHours (fst ?s') = wasBusinessHours (fst s)"
      by (simp add: perform_was)
    show ?thesis
      using Cons.IH [of i ?s'] Cons.prems by (auto simp: none w split: option.splits)
  next
    assume "\<exists>e. checksOf c s = [e]"
    then obtain e where one: "checksOf c s = [e]" ..
    have w: "wasBusinessHours (fst ?s') = Some (isBusinessHours (checkedAt e))"
      by (simp add: perform_was one)
    show ?thesis
    proof (cases i)
      case 0
      then have "massReactivated e" using Cons.prems by (simp add: one)
      then show ?thesis
        using checksOf_guard(1,3) [OF one] by (simp add: one 0)
    next
      case (Suc j)
      have j: "j < length (checks cs ?s')" "massReactivated (checks cs ?s' ! j)"
        using Cons.prems by (simp_all add: one Suc)
      from Cons.IH [OF j] show ?thesis
        by (cases j) (auto simp: one Suc w split: option.splits)
    qed
  qed
qed

lemma checksOf_sameReading:
  assumes "sameReading c" and "e \<in> set (checksOf c s)" and "massReactivated e"
  shows "startedAt e = None"
  using assms
  by (cases c) (auto simp: checkOfStart_def closingDetected_def split: if_splits)

lemma checks_sameReading:
  assumes "\<forall>c \<in> set calls. sameReading c"
      and "e \<in> set (checks calls s)" and "massReactivated e"
  shows "startedAt e = None"
  using assms
proof (induction calls arbitrary: s)
  case Nil
  then show ?case by simp
next
  case (Cons c cs)
  from Cons.prems(2) have "e \<in> set (checksOf c s) \<or> e \<in> set (checks cs (perform c s))"
    by simp
  then show ?case
  proof
    assume "e \<in> set (checksOf c s)"
    then show ?thesis
      using Cons.prems(1,3) checksOf_sameReading [of c e s] by simp
  next
    assume "e \<in> set (checks cs (perform c s))"
    then show ?thesis
      using Cons.IH [of "perform c s"] Cons.prems(1,3) by simp
  qed
qed

lemma checks_previous_check:
  assumes "\<forall>c \<in> set calls. sameReading c"
      and "i < length (checks calls (newManager, h))"
      and "massReactivated (checks calls (newManager, h) ! i)"
  shows "\<not> isBusinessHours (checkedAt (checks calls (newManager, h) ! i))
       \<and> 0 < i
       \<and> isBusinessHours (checkedAt (checks calls (newManager, h) ! (i - 1)))"
proof -
  have n: "startedAt (checks calls (newManager, h) ! i) = None"
    by (rule checks_sameReading [OF assms(1) nth_mem [OF assms(2)] assms(3)])
  show ?thesis
    using checks_guard [OF assms(2,3)] n
    by (auto simp: newManager_def split: if_splits)
qed

lemma massReactivations_Cons:
  "massReactivations (c # cs) s
     = map (\<lambda>e. dayHour (checkedAt e)) (filter massReactivated (checksOf c s))
       @ massReactivations cs (perform c s)"
  by (simp add: massReactivations_def)

lemma massReactivations_distinct_adj:
  "distinct_adj (massReactivationDone (fst s) # massReactivations calls s)"
proof (induction calls arbitrary: s)
  case Nil
  show ?case by (simp add: massReactivations_def)
next
  case (Cons c cs)
  let ?s' = "perform c s"
  have IH: "distinct_adj (massReactivationDone (fst ?s') # massReactivations cs ?s')"
    by (rule Cons.IH)
  from checksOf_cases [of c s] show ?case
  proof
    assume none: "checksOf c s = []"
    then show ?thesis
      using IH by (simp add: massReactivations_Cons perform_marker)
  next
    assume "\<exists>e. checksOf c s = [e]"
    then obtain e where one: "checksOf c s = [e]" ..
    show ?thesis
    proof (cases "massReactivated e")
      case True
      then show ?thesis
        using IH checksOf_guard(2) [OF one True]
        by (simp add: massReactivations_Cons perform_marker one)
    next
      case False
      then show ?thesis
        using IH by (simp add: massReactivations_Cons perform_marker one)
    qed
  qed
qed

lemma run_marker:
  "massReactivationDone (fst (run calls s))
     = last (massReactivationDone (fst s) # massReactivations calls s)"
proof (induction calls arbitrary: s)
  case Nil
  show ?case by (simp add: massReactivations_def)
next
  case (Cons c cs)
  from checksOf_cases [of c s] show ?case
  proof
    assume none: "checksOf c s = []"
    then show ?thesis
      by (simp add: Cons.IH massReactivations_Cons perform_marker)
  next
    assume "\<exists>e. checksOf c s = [e]"
    then obtain e where one: "checksOf c s = [e]" ..
    show ?thesis
      by (cases "massReactivated e")
         (simp_all add: Cons.IH massReactivations_Cons perform_marker one)
  qed
qed

lemma distinct_adj_same:
  assumes "distinct_adj xs" and "\<forall>x \<in> set xs. x = p"
  shows "length xs \<le> 1"
proof (cases xs)
  case Nil
  then show ?thesis by simp
next
  case (Cons x ys)
  show ?thesis
  proof (cases ys)
    case Nil
    then show ?thesis using Cons by simp
  next
    case (Cons y zs)
    then show ?thesis using assms \<open>xs = x # ys\<close> by simp
  qed
qed

lemma start_same_reading:
  assumes "isBusinessHours started = isBusinessHours date"
  shows "filter massReactivated (checkOfStart started date s) = []"
  using assms by (simp add: checkOfStart_def closingDetected_def)

lemma checkAndReactivate_running:
  "isRunning (fst (snd (checkAndReactivate now date s))) = isRunning (fst s)"
  "checkIntervalId (fst (snd (checkAndReactivate now date s))) = checkIntervalId (fst s)"
  "checkInterval (fst (snd (checkAndReactivate now date s))) = checkInterval (fst s)"
  by (simp_all add: checkAndReactivate_def closingCheck_def massReactivateAllChats_def
        expirySweep_def Let_def split_beta)

lemma startAutoReactivation_running_after:
  "\<not> isRunning (fst s) \<Longrightarrow> isRunning (fst (startAutoReactivation started now date s))"
  "\<not> isRunning (fst s) \<Longrightarrow>
     checkIntervalId (fst (startAutoReactivation started now date s)) = Some (checkInterval (fst s))"
  using checkAndReactivate_running
          [of now date "((fst s)\<lparr>wasBusinessHours := Some (isBusinessHours started)\<rparr>, snd s)"]
  by (simp_all add: startAutoReactivation_def split_beta Let_def)

lemma startAutoReactivation_fired:
  assumes "\<not> isRunning mgr"
      and "closingDetected (mgr\<lparr>wasBusinessHours := Some (isBusinessHours started)\<rparr>) date"
  shows "disabledChats (snd (startAutoReactivation started now date (mgr, h))) = []"
    and "manualInterventions (snd (startAutoReactivation started now date (mgr, h))) = []"
    and "completedChats (snd (startAutoReactivation started now date (mgr, h))) = []"
  using checkAndReactivate_fired [OF assms(2), of now h]
  by (simp_all add: startAutoReactivation_stopped(3) [OF assms(1)])

lemma perform_fired:
  assumes "checksOf c (mgr, h) = [e]" and "massReactivated e"
  shows "disabledChats (snd (perform c (mgr, h))) = []
       \<and> manualInterventions (snd (perform c (mgr, h))) = []
       \<and> completedChats (snd (perform c (mgr, h))) = []"
proof (cases c)
  case (CheckAndReactivate now date)
  then have "closingDetected mgr date" using assms by auto
  then show ?thesis
    by (simp add: CheckAndReactivate checkAndReactivate_fired)
next
  case (StartAutoReactivation started now date)
  then have "\<not> isRunning mgr
      \<and> closingDetected (mgr\<lparr>wasBusinessHours := Some (isBusinessHours started)\<rparr>) date"
    using assms by (auto simp: checkOfStart_def split: if_splits)
  then show ?thesis
    by (simp add: StartAutoReactivation startAutoReactivation_fired)
next
  case StopAutoReactivation
  then show ?thesis using assms by simp
next
  case (SetCheckInterval minutes started now date)
  obtain m2 h2 where t: "stopAutoReactivation (mgr\<lparr>checkInterval := minutesMs minutes\<rparr>, h) = (m2, h2)"
    by (cases "stopAutoReactivation (mgr\<lparr>checkInterval := minutesMs minutes\<rparr>, h)")
  have a: "\<not> minutes \<le> 0" "isRunning mgr" "\<not> isRunning m2"
    "closingDetected (m2\<lparr>wasBusinessHours := Some (isBusinessHours started)\<rparr>) date"
    using assms SetCheckInterval by (auto simp: checkOfStart_def t split: if_splits)
  show ?thesis
    using startAutoReactivation_fired [OF a(3,4), of now h2] a(1,2)
    by (simp add: SetCheckInterval setCheckInterval_def Let_def t)
next
  case (OtherHandlers h')
  then show ?thesis using assms by simp
qed

lemma perform_marker_changed:
  "massReactivationDone (fst (perform c s)) \<noteq> massReactivationDone (fst s)
     \<longleftrightarrow> (\<exists>e \<in> set (checksOf c s). massReactivated e)"
proof -
  from checksOf_cases [of c s] show ?thesis
  proof
    assume "checksOf c s = []"
    then show ?thesis by (simp add: perform_marker)
  next
    assume "\<exists>e. checksOf c s = [e]"
    then obtain e where one: "checksOf c s = [e]" ..
    show ?thesis
    proof (cases "massReactivated e")
      case True
      then show ?thesis
        using checksOf_guard(2) [OF one True] by (simp add: perform_marker one)
    next
      case False
      then show ?thesis by (simp add: perform_marker one)
    qed
  qed
qed

lemma massReactivations_of_start:
  assumes "isBusinessHours started = isBusinessHours date"
  shows "massReactivations [StartAutoReactivation started now date] s = []"
    and "massReactivations [SetCheckInterval minutes started now date] s = []"
  using start_same_reading [OF assms]
  by (simp_all add: massReactivations_def)

text \<open>
  C3, as the code has it.  One invocation of \<open>checkAndReactivate\<close> performs the mass
  reactivation, and so changes the stored (day, hour) marker, exactly when the stored
  flag \<open>wasBusinessHours\<close> is true, the business-hours flag is false now, and the current
  (day, hour) differs from the marker (the day is the weekday, 0 to 6).  It then leaves
  the three namespaces empty and the marker at the current (day, hour); otherwise every
  entry that expires later than now is kept.  Every check leaves the flag it read in
  \<open>wasBusinessHours\<close>, and \<open>startAutoReactivation\<close> overwrites it with its own reading before
  the check it runs.  So, over every run of the manager from its construction, a check
  performs the mass reactivation only when the flag is false now and was true at the
  reading before it: the previous check, or the reading of \<open>startAutoReactivation\<close> when
  the check is the one it runs.  When that reading agrees with the check's, the check that
  \<open>startAutoReactivation\<close> or \<open>setCheckInterval\<close> runs performs none, so that in a run
  where the two always agree a check performs the mass reactivation only when the flag is
  false now and was true at the previous check.  The marker is at each moment the
  (day, hour) of the last mass reactivation: a call of the manager changes it exactly when
  the check it runs performs one, and it then leaves the three namespaces empty.  Two
  successive mass reactivations never carry the same (day, hour), and a run whose checks
  all read the same
  (day, hour) performs at most one.
\<close>

theorem mass_reactivation_guard_and_marker:
  "(massReactivationDone (fst (snd (checkAndReactivate now date (mgr, h)))) \<noteq> massReactivationDone mgr
      \<longleftrightarrow> closingDetected mgr date)
   \<and> (closingDetected mgr date \<longleftrightarrow>
        wasBusinessHours mgr = Some True \<and> \<not> isBusinessHours date
        \<and> massReactivationDone mgr \<noteq> (dayNumber (getDay date), getHours date))
   \<and> (closingDetected mgr date \<longrightarrow>
        disabledChats (snd (snd (checkAndReactivate now date (mgr, h)))) = []
        \<and> manualInterventions (snd (snd (checkAndReactivate now date (mgr, h)))) = []
        \<and> completedChats (snd (snd (checkAndReactivate now date (mgr, h)))) = []
        \<and> massReactivationDone (fst (snd (checkAndReactivate now date (mgr, h))))
            = (dayNumber (getDay date), getHours date))
   \<and> (\<not> closingDetected mgr date \<longrightarrow>
        (\<forall>k e. map_of (disabledChats h) k = Some e \<and> expiry e > now \<longrightarrow>
           map_of (disabledChats (snd (snd (checkAndReactivate now date (mgr, h))))) k = Some e)
        \<and> (\<forall>k e. map_of (manualInterventions h) k = Some e \<and> expiry e > now \<longrightarrow>
           map_of (manualInterventions (snd (snd (checkAndReactivate now date (mgr, h))))) k = Some e)
        \<and> (\<forall>k e. map_of (completedChats h) k = Some e \<and> expiry e > now \<longrightarrow>
           map_of (completedChats (snd (snd (checkAndReactivate now date (mgr, h))))) k = Some e))
   \<and> wasBusinessHours (fst (snd (checkAndReactivate now date (mgr, h))))
        = Some (isBusinessHours date)
   \<and> (\<forall>i. i < length (checks calls (newManager, h))
            \<and> massReactivated (checks calls (newManager, h) ! i) \<longrightarrow>
          \<not> isBusinessHours (checkedAt (checks calls (newManager, h) ! i))
          \<and> (case startedAt (checks calls (newManager, h) ! i) of
                Some started \<Rightarrow> isBusinessHours started
              | None \<Rightarrow>
                  0 < i \<and> isBusinessHours (checkedAt (checks calls (newManager, h) ! (i - 1)))))
   \<and> (isBusinessHours started = isBusinessHours date \<longrightarrow>
        massReactivations [StartAutoReactivation started now date] (mgr, h) = []
        \<and> massReactivations [SetCheckInterval minutes started now date] (mgr, h) = [])
   \<and> massReactivationDone (fst (run calls (mgr, h)))
        = last (massReactivationDone mgr # massReactivations calls (mgr, h))
   \<and> distinct_adj (massReactivations calls (mgr, h))
   \<and> ((\<forall>e \<in> set (checks calls (mgr, h)). dayHour (checkedAt e) = p) \<longrightarrow>
        length (massReactivations calls (mgr, h)) \<le> 1)
   \<and> (massReactivationDone (fst (perform c (mgr, h))) \<noteq> massReactivationDone mgr
        \<longleftrightarrow> (\<exists>e \<in> set (checksOf c (mgr, h)). massReactivated e))
   \<and> ((\<exists>e \<in> set (checksOf c (mgr, h)). massReactivated e) \<longrightarrow>
        disabledChats (snd (perform c (mgr, h))) = []
        \<and> manualInterventions (snd (perform c (mgr, h))) = []
        \<and> completedChats (snd (perform c (mgr, h))) = [])
   \<and> ((\<forall>c \<in> set calls. sameReading c) \<longrightarrow>
        (\<forall>i. i < length (checks calls (newManager, h))
            \<and> massReactivated (checks calls (newManager, h) ! i) \<longrightarrow>
          \<not> isBusinessHours (checkedAt (checks calls (newManager, h) ! i))
          \<and> 0 < i
          \<and> isBusinessHours (checkedAt (checks calls (newManager, h) ! (i - 1)))))"
proof (intro conjI)
  show "massReactivationDone (fst (snd (checkAndReactivate now date (mgr, h)))) \<noteq> massReactivationDone mgr
      \<longleftrightarrow> closingDetected mgr date"
    by (auto simp: checkAndReactivate_marker closingDetected_def prod_eq_iff)
  show "closingDetected mgr date \<longleftrightarrow>
        wasBusinessHours mgr = Some True \<and> \<not> isBusinessHours date
        \<and> massReactivationDone mgr \<noteq> (dayNumber (getDay date), getHours date)"
    by (auto simp: closingDetected_def prod_eq_iff)
  show "closingDetected mgr date \<longrightarrow>
        disabledChats (snd (snd (checkAndReactivate now date (mgr, h)))) = []
        \<and> manualInterventions (snd (snd (checkAndReactivate now date (mgr, h)))) = []
        \<and> completedChats (snd (snd (checkAndReactivate now date (mgr, h)))) = []
        \<and> massReactivationDone (fst (snd (checkAndReactivate now date (mgr, h))))
            = (dayNumber (getDay date), getHours date)"
    by (simp add: checkAndReactivate_fired checkAndReactivate_marker)
  show "\<not> closingDetected mgr date \<longrightarrow>
        (\<forall>k e. map_of (disabledChats h) k = Some e \<and> expiry e > now \<longrightarrow>
           map_of (disabledChats (snd (snd (checkAndReactivate now date (mgr, h))))) k = Some e)
        \<and> (\<forall>k e. map_of (manualInterventions h) k = Some e \<and> expiry e > now \<longrightarrow>
           map_of (manualInterventions (snd (snd (checkAndReactivate now date (mgr, h))))) k = Some e)
        \<and> (\<forall>k e. map_of (completedChats h) k = Some e \<and> expiry e > now \<longrightarrow>
           map_of (completedChats (snd (snd (checkAndReactivate now date (mgr, h))))) k = Some e)"
    by (simp add: checkAndReactivate_not_fired)
  show "wasBusinessHours (fst (snd (checkAndReactivate now date (mgr, h))))
        = Some (isBusinessHours date)"
    by (rule checkAndReactivate_was)
  show "\<forall>i. i < length (checks calls (newManager, h))
            \<and> massReactivated (checks calls (newManager, h) ! i) \<longrightarrow>
          \<not> isBusinessHours (checkedAt (checks calls (newManager, h) ! i))
          \<and> (case startedAt (checks calls (newManager, h) ! i) of
                Some started \<Rightarrow> isBusinessHours started
              | None \<Rightarrow>
                  0 < i \<and> isBusinessHours (checkedAt (checks calls (newManager, h) ! (i - 1))))"
  proof (intro allI impI)
    fix i
    assume a: "i < length (checks calls (newManager, h))
            \<and> massReactivated (checks calls (newManager, h) ! i)"
    then have "\<not> isBusinessHours (checkedAt (checks calls (newManager, h) ! i))
       \<and> (case startedAt (checks calls (newManager, h) ! i) of
            Some started \<Rightarrow> isBusinessHours started
          | None \<Rightarrow>
              if i = 0 then wasBusinessHours (fst (newManager, h)) = Some True
              else isBusinessHours (checkedAt (checks calls (newManager, h) ! (i - 1))))"
      using checks_guard [of i calls "(newManager, h)"] by blast
    then show "\<not> isBusinessHours (checkedAt (checks calls (newManager, h) ! i))
          \<and> (case startedAt (checks calls (newManager, h) ! i) of
                Some started \<Rightarrow> isBusinessHours started
              | None \<Rightarrow>
                  0 < i \<and> isBusinessHours (checkedAt (checks calls (newManager, h) ! (i - 1))))"
      by (auto simp: newManager_def split: option.splits if_splits)
  qed
  show "isBusinessHours started = isBusinessHours date \<longrightarrow>
        massReactivations [StartAutoReactivation started now date] (mgr, h) = []
        \<and> massReactivations [SetCheckInterval minutes started now date] (mgr, h) = []"
    by (simp add: massReactivations_of_start)
  show "massReactivationDone (fst (run calls (mgr, h)))
        = last (massReactivationDone mgr # massReactivations calls (mgr, h))"
    using run_marker [of calls "(mgr, h)"] by simp
  have adj: "distinct_adj (massReactivationDone mgr # massReactivations calls (mgr, h))"
    using massReactivations_distinct_adj [of "(mgr, h)" calls] by simp
  then show da: "distinct_adj (massReactivations calls (mgr, h))"
    by (cases "massReactivations calls (mgr, h)") simp_all
  show "(\<forall>e \<in> set (checks calls (mgr, h)). dayHour (checkedAt e) = p) \<longrightarrow>
        length (massReactivations calls (mgr, h)) \<le> 1"
  proof
    assume same: "\<forall>e \<in> set (checks calls (mgr, h)). dayHour (checkedAt e) = p"
    have "\<forall>x \<in> set (massReactivations calls (mgr, h)). x = p"
      using same by (auto simp: massReactivations_def)
    with da show "length (massReactivations calls (mgr, h)) \<le> 1"
      by (rule distinct_adj_same)
  qed
  show "massReactivationDone (fst (perform c (mgr, h))) \<noteq> massReactivationDone mgr
        \<longleftrightarrow> (\<exists>e \<in> set (checksOf c (mgr, h)). massReactivated e)"
    using perform_marker_changed [of c "(mgr, h)"] by simp
  show "(\<exists>e \<in> set (checksOf c (mgr, h)). massReactivated e) \<longrightarrow>
        disabledChats (snd (perform c (mgr, h))) = []
        \<and> manualInterventions (snd (perform c (mgr, h))) = []
        \<and> completedChats (snd (perform c (mgr, h))) = []"
  proof
    assume "\<exists>e \<in> set (checksOf c (mgr, h)). massReactivated e"
    then obtain e where e: "checksOf c (mgr, h) = [e]" "massReactivated e"
      using checksOf_cases [of c "(mgr, h)"] by auto
    then show "disabledChats (snd (perform c (mgr, h))) = []
        \<and> manualInterventions (snd (perform c (mgr, h))) = []
        \<and> completedChats (snd (perform c (mgr, h))) = []"
      by (rule perform_fired)
  qed
  show "(\<forall>c \<in> set calls. sameReading c) \<longrightarrow>
        (\<forall>i. i < length (checks calls (newManager, h))
            \<and> massReactivated (checks calls (newManager, h) ! i) \<longrightarrow>
          \<not> isBusinessHours (checkedAt (checks calls (newManager, h) ! i))
          \<and> 0 < i
          \<and> isBusinessHours (checkedAt (checks calls (newManager, h) ! (i - 1))))"
    using checks_previous_check [of calls _ h] by blast
qed

lemma exampleChecks_checks:
  "checks exampleChecks (newManager, exampleBot) =
     [\<lparr>startedAt = None,
       checkedAt = \<lparr>getMonth = 5, getDate = 2, getDay = Monday, getHours = 16\<rparr>,
       massReactivated = False\<rparr>,
      \<lparr>startedAt = None,
       checkedAt = \<lparr>getMonth = 5, getDate = 2, getDay = Monday, getHours = 17\<rparr>,
       massReactivated = True\<rparr>,
      \<lparr>startedAt = None,
       checkedAt = \<lparr>getMonth = 5, getDate = 3, getDay = Tuesday, getHours = 16\<rparr>,
       massReactivated = False\<rparr>,
      \<lparr>startedAt = None,
       checkedAt = \<lparr>getMonth = 5, getDate = 3, getDay = Tuesday, getHours = 17\<rparr>,
       massReactivated = True\<rparr>,
      \<lparr>startedAt = None,
       checkedAt = \<lparr>getMonth = 5, getDate = 9, getDay = Monday, getHours = 16\<rparr>,
       massReactivated = False\<rparr>,
      \<lparr>startedAt = None,
       checkedAt = \<lparr>getMonth = 5, getDate = 9, getDay = Monday, getHours = 17\<rparr>,
       massReactivated = True\<rparr>]"
  by (simp add: exampleChecks_def closingDetected_def checkAndReactivate_marker
        checkAndReactivate_was newManager_def isBusinessHours_def isHoliday_iff)

lemma exampleRestart_checks:
  "checks exampleRestart (newManager, exampleBot) =
     [\<lparr>startedAt = Some \<lparr>getMonth = 5, getDate = 2, getDay = Monday, getHours = 16\<rparr>,
       checkedAt = \<lparr>getMonth = 5, getDate = 2, getDay = Monday, getHours = 16\<rparr>,
       massReactivated = False\<rparr>,
      \<lparr>startedAt = None,
       checkedAt = \<lparr>getMonth = 5, getDate = 2, getDay = Monday, getHours = 16\<rparr>,
       massReactivated = False\<rparr>,
      \<lparr>startedAt = Some \<lparr>getMonth = 5, getDate = 2, getDay = Monday, getHours = 17\<rparr>,
       checkedAt = \<lparr>getMonth = 5, getDate = 2, getDay = Monday, getHours = 17\<rparr>,
       massReactivated = False\<rparr>,
      \<lparr>startedAt = None,
       checkedAt = \<lparr>getMonth = 5, getDate = 2, getDay = Monday, getHours = 17\<rparr>,
       massReactivated = False\<rparr>]"
proof -
  let ?d16 = "\<lparr>getMonth = 5, getDate = 2, getDay = Monday, getHours = 16\<rparr>"
  let ?d17 = "\<lparr>getMonth = 5, getDate = 2, getDay = Monday, getHours = 17\<rparr>"
  let ?s1 = "startAutoReactivation ?d16 57600000 ?d16 (newManager, exampleBot)"
  let ?s2 = "snd (checkAndReactivate 60900000 ?d16 ?s1)"
  let ?s3 = "snd (setCheckInterval 10 ?d17 61320000 ?d17 ?s2)"
  have o: "isBusinessHours ?d16" "\<not> isBusinessHours ?d17"
    by (simp_all add: isBusinessHours_def isHoliday_iff)
  have n: "\<not> isRunning (fst (newManager, exampleBot))"
    by (simp add: newManager_def)
  have r1: "isRunning (fst ?s1)" "checkIntervalId (fst ?s1) \<noteq> None"
    using startAutoReactivation_running_after [OF n, of ?d16 57600000 ?d16] by simp_all
  have r2: "isRunning (fst ?s2)" "checkIntervalId (fst ?s2) \<noteq> None"
    using r1 by (simp_all add: checkAndReactivate_running)
  let ?t = "stopAutoReactivation ((fst ?s2)\<lparr>checkInterval := minutesMs 10\<rparr>, snd ?s2)"
  have t: "\<not> isRunning (fst ?t)"
    using r2 by (auto simp: stopAutoReactivation_def)
  have s3: "?s3 = startAutoReactivation ?d17 61320000 ?d17 ?t"
    using r2 by (simp add: setCheckInterval_def Let_def split_beta)
  have w3: "wasBusinessHours (fst ?s3) = Some False"
    unfolding s3 using startAutoReactivation_stopped(2) [of "fst ?t" ?d17 61320000 ?d17 "snd ?t"] t o
    by simp
  have k1: "checksOf (StartAutoReactivation ?d16 57600000 ?d16) (newManager, exampleBot)
      = [\<lparr>startedAt = Some ?d16, checkedAt = ?d16, massReactivated = False\<rparr>]"
    by (simp add: checkOfStart_def newManager_def closingDetected_def o)
  have k2: "checksOf (CheckAndReactivate 60900000 ?d16) ?s1
      = [\<lparr>startedAt = None, checkedAt = ?d16, massReactivated = False\<rparr>]"
    by (simp add: closingDetected_def o)
  have k3: "checksOf (SetCheckInterval 10 ?d17 61320000 ?d17) ?s2
      = [\<lparr>startedAt = Some ?d17, checkedAt = ?d17, massReactivated = False\<rparr>]"
    using r2 t by (simp add: checkOfStart_def closingDetected_def o)
  have k4: "checksOf (CheckAndReactivate 61920000 ?d17) ?s3
      = [\<lparr>startedAt = None, checkedAt = ?d17, massReactivated = False\<rparr>]"
    by (simp add: closingDetected_def w3)
  have p: "perform (StartAutoReactivation ?d16 57600000 ?d16) (newManager, exampleBot) = ?s1"
    "perform (CheckAndReactivate 60900000 ?d16) ?s1 = ?s2"
    "perform (SetCheckInterval 10 ?d17 61320000 ?d17) ?s2 = ?s3"
    by simp_all
  show ?thesis
    unfolding exampleRestart_def checks.simps p k1 k2 k3 k4 by simp
qed

theorem mass_reactivation_witness:
  "completedChats (snd (snd (checkAndReactivate 61200000
       \<lparr>getMonth = 5, getDate = 2, getDay = Monday, getHours = 17\<rparr>
       (newManager\<lparr>wasBusinessHours := Some True\<rparr>, exampleBot)))) = []
   \<and> massReactivationDone (fst (snd (checkAndReactivate 61200000
       \<lparr>getMonth = 5, getDate = 2, getDay = Monday, getHours = 17\<rparr>
       (newManager\<lparr>wasBusinessHours := Some True\<rparr>, exampleBot)))) = (1, 17)
   \<and> map_of (completedChats (snd (snd (checkAndReactivate 1000
       \<lparr>getMonth = 5, getDate = 2, getDay = Monday, getHours = 16\<rparr>
       (newManager\<lparr>wasBusinessHours := Some True\<rparr>, exampleBot))))) ''222@s.whatsapp.net''
       = Some \<lparr>expiry = 5000, completedAt = 1400\<rparr>
   \<and> massReactivated (checks exampleChecks (newManager, exampleBot) ! 1)
   \<and> \<not> isBusinessHours (checkedAt (checks exampleChecks (newManager, exampleBot) ! 1))
   \<and> isBusinessHours (checkedAt (checks exampleChecks (newManager, exampleBot) ! 0))
   \<and> \<not> isBusinessHours (checkedAt (checks exampleChecks (newManager, exampleBot) ! 3))
   \<and> isBusinessHours (checkedAt (checks exampleChecks (newManager, exampleBot) ! 2))
   \<and> massReactivations
        [CheckAndReactivate 61200000 \<lparr>getMonth = 5, getDate = 2, getDay = Monday, getHours = 17\<rparr>]
        (newManager\<lparr>wasBusinessHours := Some True\<rparr>, exampleBot) = [(1, 17)]
   \<and> massReactivations
        [StartAutoReactivation \<lparr>getMonth = 5, getDate = 2, getDay = Monday, getHours = 17\<rparr>
           61200000 \<lparr>getMonth = 5, getDate = 2, getDay = Monday, getHours = 17\<rparr>]
        (newManager\<lparr>wasBusinessHours := Some True\<rparr>, exampleBot) = []
   \<and> massReactivations exampleRestart (newManager, exampleBot) = []
   \<and> manualInterventions (snd (perform
        (StartAutoReactivation \<lparr>getMonth = 5, getDate = 2, getDay = Monday, getHours = 16\<rparr>
           61200000 \<lparr>getMonth = 5, getDate = 2, getDay = Monday, getHours = 17\<rparr>)
        (newManager\<lparr>wasBusinessHours := Some True\<rparr>, exampleBot))) = []
   \<and> checks
        [StartAutoReactivation \<lparr>getMonth = 5, getDate = 2, getDay = Monday, getHours = 16\<rparr>
           61200000 \<lparr>getMonth = 5, getDate = 2, getDay = Monday, getHours = 17\<rparr>]
        (newManager, exampleBot)
       = [\<lparr>startedAt = Some \<lparr>getMonth = 5, getDate = 2, getDay = Monday, getHours = 16\<rparr>,
           checkedAt = \<lparr>getMonth = 5, getDate = 2, getDay = Monday, getHours = 17\<rparr>,
           massReactivated = True\<rparr>]
   \<and> length (massReactivations
        [CheckAndReactivate 61200000 \<lparr>getMonth = 5, getDate = 2, getDay = Monday, getHours = 17\<rparr>,
         CheckAndReactivate 61500000 \<lparr>getMonth = 5, getDate = 2, getDay = Monday, getHours = 17\<rparr>]
        (newManager\<lparr>wasBusinessHours := Some True\<rparr>, exampleBot)) \<le> 1"
proof -
  let ?d16 = "\<lparr>getMonth = 5, getDate = 2, getDay = Monday, getHours = 16\<rparr>"
  let ?d17 = "\<lparr>getMonth = 5, getDate = 2, getDay = Monday, getHours = 17\<rparr>"
  let ?mgr = "newManager\<lparr>wasBusinessHours := Some True\<rparr>"
  let ?twice = "[CheckAndReactivate 61200000 ?d17, CheckAndReactivate 61500000 ?d17]"
  note T1 = mass_reactivation_guard_and_marker
      [where now = 61200000 and date = ?d17 and mgr = ?mgr and h = exampleBot
         and calls = exampleChecks and started = ?d17 and minutes = 10 and p = "(1, 17)"
         and c = "StartAutoReactivation ?d16 61200000 ?d17"]
  note T2 = mass_reactivation_guard_and_marker
      [where now = 1000 and date = ?d16 and mgr = ?mgr and h = exampleBot
         and calls = ?twice and started = ?d16 and minutes = 10 and p = "(1, 17)"
         and c = StopAutoReactivation]
  have o: "isBusinessHours ?d16" "\<not> isBusinessHours ?d17"
    by (simp_all add: isBusinessHours_def isHoliday_iff)
  have c17: "closingDetected ?mgr ?d17" and c16: "\<not> closingDetected ?mgr ?d16"
    by (simp_all add: closingDetected_def newManager_def o)
  have fired: "disabledChats (snd (snd (checkAndReactivate 61200000 ?d17 (?mgr, exampleBot)))) = []
        \<and> manualInterventions (snd (snd (checkAndReactivate 61200000 ?d17 (?mgr, exampleBot)))) = []
        \<and> completedChats (snd (snd (checkAndReactivate 61200000 ?d17 (?mgr, exampleBot)))) = []
        \<and> massReactivationDone (fst (snd (checkAndReactivate 61200000 ?d17 (?mgr, exampleBot))))
            = (dayNumber (getDay ?d17), getHours ?d17)"
    using T1 [THEN conjunct2, THEN conjunct2, THEN conjunct1] c17 by simp
  have kept: "\<forall>k e. map_of (completedChats exampleBot) k = Some e \<and> expiry e > 1000 \<longrightarrow>
           map_of (completedChats (snd (snd (checkAndReactivate 1000 ?d16 (?mgr, exampleBot))))) k
             = Some e"
    using T2 [THEN conjunct2, THEN conjunct2, THEN conjunct2, THEN conjunct1] c16 by simp
  have e222: "map_of (completedChats exampleBot) ''222@s.whatsapp.net''
                = Some \<lparr>expiry = 5000, completedAt = 1400\<rparr>"
    by (simp add: exampleBot_def)
  have guard: "\<forall>i. i < length (checks exampleChecks (newManager, exampleBot))
            \<and> massReactivated (checks exampleChecks (newManager, exampleBot) ! i) \<longrightarrow>
          \<not> isBusinessHours (checkedAt (checks exampleChecks (newManager, exampleBot) ! i))
          \<and> (case startedAt (checks exampleChecks (newManager, exampleBot) ! i) of
                Some started \<Rightarrow> isBusinessHours started
              | None \<Rightarrow>
                  0 < i \<and> isBusinessHours
                             (checkedAt (checks exampleChecks (newManager, exampleBot) ! (i - 1))))"
    by (rule T1 [THEN conjunct2, THEN conjunct2, THEN conjunct2, THEN conjunct2, THEN conjunct2, THEN conjunct1])
  have m1: "massReactivated (checks exampleChecks (newManager, exampleBot) ! 1)"
    "startedAt (checks exampleChecks (newManager, exampleBot) ! 1) = None"
    "(1::nat) < length (checks exampleChecks (newManager, exampleBot))"
    by (simp_all add: exampleChecks_checks)
  have g1: "\<not> isBusinessHours (checkedAt (checks exampleChecks (newManager, exampleBot) ! 1))
      \<and> isBusinessHours (checkedAt (checks exampleChecks (newManager, exampleBot) ! 0))"
    using guard [rule_format, of 1] m1 by simp
  have start: "massReactivations [StartAutoReactivation ?d17 61200000 ?d17] (?mgr, exampleBot) = []"
    using T1 [THEN conjunct2, THEN conjunct2, THEN conjunct2, THEN conjunct2, THEN conjunct2, THEN conjunct2, THEN conjunct1] by simp
  have same: "\<forall>e \<in> set (checks ?twice (?mgr, exampleBot)). dayHour (checkedAt e) = (1, 17)"
    by (simp add: dayHour_def)
  have once: "length (massReactivations ?twice (?mgr, exampleBot)) \<le> 1"
    using T2 [THEN conjunct2, THEN conjunct2, THEN conjunct2, THEN conjunct2, THEN conjunct2, THEN conjunct2, THEN conjunct2, THEN conjunct2, THEN conjunct2, THEN conjunct1] same by simp
  have check: "massReactivations [CheckAndReactivate 61200000 ?d17] (?mgr, exampleBot) = [(1, 17)]"
    by (simp add: massReactivations_def c17 dayHour_def)
  have restart: "massReactivations exampleRestart (newManager, exampleBot) = []"
    by (simp add: massReactivations_def exampleRestart_checks)
  have f: "\<exists>e \<in> set (checksOf (StartAutoReactivation ?d16 61200000 ?d17) (?mgr, exampleBot)).
             massReactivated e"
    by (simp add: checkOfStart_def closingDetected_def newManager_def o)
  have cleared: "manualInterventions (snd (perform (StartAutoReactivation ?d16 61200000 ?d17)
                    (?mgr, exampleBot))) = []"
    using T1 [THEN conjunct2, THEN conjunct2, THEN conjunct2, THEN conjunct2, THEN conjunct2,
              THEN conjunct2, THEN conjunct2, THEN conjunct2, THEN conjunct2, THEN conjunct2,
              THEN conjunct2, THEN conjunct1] f
    by blast
  have agree: "\<forall>c \<in> set exampleChecks. sameReading c"
    by (simp add: exampleChecks_def)
  have previous: "\<forall>i. i < length (checks exampleChecks (newManager, exampleBot))
            \<and> massReactivated (checks exampleChecks (newManager, exampleBot) ! i) \<longrightarrow>
          \<not> isBusinessHours (checkedAt (checks exampleChecks (newManager, exampleBot) ! i))
          \<and> 0 < i
          \<and> isBusinessHours (checkedAt (checks exampleChecks (newManager, exampleBot) ! (i - 1)))"
    using T1 [THEN conjunct2, THEN conjunct2, THEN conjunct2, THEN conjunct2, THEN conjunct2,
              THEN conjunct2, THEN conjunct2, THEN conjunct2, THEN conjunct2, THEN conjunct2,
              THEN conjunct2, THEN conjunct2] agree
    by (rule mp)
  have p3: "\<not> isBusinessHours (checkedAt (checks exampleChecks (newManager, exampleBot) ! 3))
      \<and> isBusinessHours (checkedAt (checks exampleChecks (newManager, exampleBot) ! 2))"
    using previous [rule_format, of 3] by (simp add: exampleChecks_checks)
  let ?late = "[StartAutoReactivation ?d16 61200000 ?d17]"
  have late: "checks ?late (newManager, exampleBot)
       = [\<lparr>startedAt = Some ?d16, checkedAt = ?d17, massReactivated = True\<rparr>]"
    by (simp add: checkOfStart_def closingDetected_def newManager_def o)
  note T3 = mass_reactivation_guard_and_marker
      [where now = 61200000 and date = ?d17 and mgr = ?mgr and h = exampleBot
         and calls = ?late and started = ?d17 and minutes = 10 and p = "(1, 17)"
         and c = StopAutoReactivation]
  have g3: "\<not> isBusinessHours ?d17 \<and> isBusinessHours ?d16"
    using T3 [THEN conjunct2, THEN conjunct2, THEN conjunct2, THEN conjunct2, THEN conjunct2,
              THEN conjunct1, unfolded late, rule_format, of 0]
    by simp
  show ?thesis
    using fired kept [rule_format, of "''222@s.whatsapp.net''" "\<lparr>expiry = 5000, completedAt = 1400\<rparr>"]
      e222 m1(1) g1 g3 p3 start once check restart late cleared
    by simp
qed

text \<open>
  C3, as stated, fails: over the six checks of \<open>exampleChecks\<close> the mass reactivation is
  performed three times, twice of them at the pair (Monday, 17 h), with the one of
  (Tuesday, 17 h) in between.  And when the scheduler is started on a Monday as the shop
  closes, so that \<open>startAutoReactivation\<close> still reads 16 h and the check it runs reads
  17 h, that check, the first of the run, performs the mass reactivation.
\<close>

theorem mass_reactivation_same_pair_twice:
  "massReactivations exampleChecks (newManager, exampleBot) = [(1, 17), (2, 17), (1, 17)]
   \<and> checks
        [StartAutoReactivation \<lparr>getMonth = 5, getDate = 2, getDay = Monday, getHours = 16\<rparr>
           61200000 \<lparr>getMonth = 5, getDate = 2, getDay = Monday, getHours = 17\<rparr>]
        (newManager, exampleBot)
       = [\<lparr>startedAt = Some \<lparr>getMonth = 5, getDate = 2, getDay = Monday, getHours = 16\<rparr>,
           checkedAt = \<lparr>getMonth = 5, getDate = 2, getDay = Monday, getHours = 17\<rparr>,
           massReactivated = True\<rparr>]
   \<and> completedChats exampleBot \<noteq> []
   \<and> completedChats (snd (run
        [StartAutoReactivation \<lparr>getMonth = 5, getDate = 2, getDay = Monday, getHours = 16\<rparr>
           61200000 \<lparr>getMonth = 5, getDate = 2, getDay = Monday, getHours = 17\<rparr>]
        (newManager, exampleBot))) = []"
proof -
  let ?d16 = "\<lparr>getMonth = 5, getDate = 2, getDay = Monday, getHours = 16\<rparr>"
  let ?d17 = "\<lparr>getMonth = 5, getDate = 2, getDay = Monday, getHours = 17\<rparr>"
  have o: "isBusinessHours ?d16" "\<not> isBusinessHours ?d17"
    by (simp_all add: isBusinessHours_def isHoliday_iff)
  have n: "\<not> isRunning newManager"
    "closingDetected (newManager\<lparr>wasBusinessHours := Some (isBusinessHours ?d16)\<rparr>) ?d17"
    by (simp_all add: newManager_def closingDetected_def o)
  have "completedChats (snd (startAutoReactivation ?d16 61200000 ?d17 (newManager, exampleBot))) = []"
    by (rule startAutoReactivation_fired(3) [OF n])
  moreover have "completedChats exampleBot \<noteq> []"
    by (simp add: exampleBot_def)
  moreover have "checks [StartAutoReactivation ?d16 61200000 ?d17] (newManager, exampleBot)
       = [\<lparr>startedAt = Some ?d16, checkedAt = ?d17, massReactivated = True\<rparr>]"
    using n by (simp add: checkOfStart_def)
  moreover have "massReactivations exampleChecks (newManager, exampleBot)
       = [(1, 17), (2, 17), (1, 17)]"
    by (simp add: massReactivations_def exampleChecks_checks dayHour_def)
  ultimately show ?thesis by simp
qed

section \<open>Sessions and intents\<close>

lemma messagesOf_append: "messagesOf (xs @ ys) = messagesOf xs @ messagesOf ys"
  by (induction xs rule: messagesOf.induct) simp_all

lemma attemptsOf_append: "attemptsOf (xs @ ys) = attemptsOf xs @ attemptsOf ys"
  by (induction xs rule: attemptsOf.induct) simp_all

lemma getUserState_sel:
  "map_of (states (snd (getUserState now userId b))) userId = Some (fst (getUserState now userId b))"
  "k \<noteq> userId \<Longrightarrow> map_of (states (snd (getUserState now userId b))) k = map_of (states b) k"
  "disabledChats (snd (getUserState now userId b)) = disabledChats b"
  "manualInterventions (snd (getUserState now userId b)) = manualInterventions b"
  "completedChats (snd (getUserState now userId b)) = completedChats b"
  "ownerNumber (snd (getUserState now userId b)) = ownerNumber b"
  "messagesOf (journal (snd (getUserState now userId b))) = messagesOf (journal b)"
  "attemptsOf (journal (snd (getUserState now userId b))) = attemptsOf (journal b)"
  by (auto simp: getUserState_def saveStates_def Let_def update_conv' messagesOf_append
        attemptsOf_append split: option.splits)

lemma getUserState_present:
  "map_of (states b) userId = Some u \<Longrightarrow> getUserState now userId b = (u, b)"
  by (simp add: getUserState_def)

lemma updateUserState_sel:
  "map_of (states (updateUserState now userId ups b)) userId
     = Some ((fold applyUpdate ups (fst (getUserState now userId b)))\<lparr>lastInteraction := now\<rparr>)"
  "k \<noteq> userId \<Longrightarrow> map_of (states (updateUserState now userId ups b)) k = map_of (states b) k"
  "disabledChats (updateUserState now userId ups b) = disabledChats b"
  "manualInterventions (updateUserState now userId ups b) = manualInterventions b"
  "completedChats (updateUserState now userId ups b) = completedChats b"
  "ownerNumber (updateUserState now userId ups b) = ownerNumber b"
  "messagesOf (journal (updateUserState now userId ups b)) = messagesOf (journal b)"
  "attemptsOf (journal (updateUserState now userId ups b)) = attemptsOf (journal b)"
  by (simp_all add: updateUserState_def Let_def split_beta saveStates_def update_conv'
        getUserState_sel messagesOf_append attemptsOf_append)


lemma sendBotMessage_sel:
  "states (stateOf (sendBotMessage sock c m b)) = states b"
  "disabledChats (stateOf (sendBotMessage sock c m b)) = disabledChats b"
  "manualInterventions (stateOf (sendBotMessage sock c m b)) = manualInterventions b"
  "completedChats (stateOf (sendBotMessage sock c m b)) = completedChats b"
  "ownerNumber (stateOf (sendBotMessage sock c m b)) = ownerNumber b"
  "attemptsOf (journal (stateOf (sendBotMessage sock c m b))) = attemptsOf (journal b) @ [(c, m)]"
  "messagesOf (journal (stateOf (sendBotMessage acceptAll c m b)))
     = messagesOf (journal b) @ [(c, m)]"
  by (simp_all add: sendBotMessage_def messagesOf_append attemptsOf_append acceptAll_def)

lemma sendBotMessageLegacy_sel:
  "states (stateOf (sendBotMessageLegacy sock c m b)) = states b"
  "attemptsOf (journal (stateOf (sendBotMessageLegacy sock c m b)))
     = attemptsOf (journal b) @ [(c, m)]"
  "messagesOf (journal (stateOf (sendBotMessageLegacy acceptAll c m b)))
     = messagesOf (journal b) @ [(c, m)]"
  by (simp_all add: sendBotMessageLegacy_def messagesOf_append attemptsOf_append acceptAll_def)

lemma languageInput_truthy: "truthy (languageInput p u) \<longleftrightarrow> languageInput p u \<noteq> JNull"
  by (auto simp: languageInput_def js_or_def)

lemma languageInput_number:
  "numberValue p = JNum r \<Longrightarrow> r \<noteq> 0 \<Longrightarrow> languageInput p u = JNum r"
  by (simp add: languageInput_def js_or_def)

text \<open>
  The language intent with a resolved input, in both files: the state in which the
  message is handed to \<open>send\<close>, and the message.
\<close>

lemma lenguajeIntent_unfold:
  assumes "languageInput p u \<noteq> JNull"
  shows "lenguajeIntent send now date chatId userId p u b
     = send chatId
         (if isBusinessHours date
          then BusinessHoursMenu (if languageCodeOf (languageInput p u) = ''en'' then En else Es)
          else OutOfHoursMessage (if languageCodeOf (languageInput p u) = ''en'' then En else Es))
         (if isBusinessHours date
          then updateUserState now userId
                 [LanguageCode (languageCodeOf (languageInput p u)),
                  CurrentContext ''language_selected'', LanguageSelectionComplete True] b
          else updateUserState now userId
                 [CurrentContext ''product_selected'', ProcessCompleted True]
                 (updateUserState now userId
                    [LanguageCode (languageCodeOf (languageInput p u)),
                     CurrentContext ''language_selected'', LanguageSelectionComplete True] b))"
    and "lenguajeIntentLegacy send now date chatId userId p u b
     = send chatId
         (if \<not> isBusinessHours date
          then BusinessHoursMenu (if languageCodeOf (languageInput p u) = ''en'' then En else Es)
          else OutOfHoursMessage (if languageCodeOf (languageInput p u) = ''en'' then En else Es))
         (if \<not> isBusinessHours date
          then updateUserState now userId
                 [LanguageCode (languageCodeOf (languageInput p u)),
                  CurrentContext ''language_selected'', LanguageSelectionComplete True] b
          else updateUserState now userId
                 [CurrentContext ''product_selected'', ProcessCompleted True]
                 (updateUserState now userId
                    [LanguageCode (languageCodeOf (languageInput p u)),
                     CurrentContext ''language_selected'', LanguageSelectionComplete True] b))"
  using assms
  by (simp_all add: lenguajeIntent_def lenguajeIntentLegacy_def Let_def languageInput_truthy
        getBusinessHoursMenu_def getOutOfHoursMessage_def langOf_def)

lemma lenguaje_session:
  "map_of (states (if inHours
          then updateUserState now userId
                 [LanguageCode code, CurrentContext ''language_selected'',
                  LanguageSelectionComplete True] b
          else updateUserState now userId
                 [CurrentContext ''product_selected'', ProcessCompleted True]
                 (updateUserState now userId
                    [LanguageCode code, CurrentContext ''language_selected'',
                     LanguageSelectionComplete True] b))) userId
     = Some (if inHours
             then (fst (getUserState now userId b))
                    \<lparr>languageCode := Some code, currentContext := ''language_selected'',
                     languageSelectionComplete := Some True, lastInteraction := now\<rparr>
             else (fst (getUserState now userId b))
                    \<lparr>languageCode := Some code, currentContext := ''product_selected'',
                     languageSelectionComplete := Some True, processCompleted := True,
                     lastInteraction := now\<rparr>)"
  "attemptsOf (journal (if inHours
          then updateUserState now userId
                 [LanguageCode code, CurrentContext ''language_selected'',
                  LanguageSelectionComplete True] b
          else updateUserState now userId
                 [CurrentContext ''product_selected'', ProcessCompleted True]
                 (updateUserState now userId
                    [LanguageCode code, CurrentContext ''language_selected'',
                     LanguageSelectionComplete True] b))) = attemptsOf (journal b)"
  "messagesOf (journal (if inHours
          then updateUserState now userId
                 [LanguageCode code, CurrentContext ''language_selected'',
                  LanguageSelectionComplete True] b
          else updateUserState now userId
                 [CurrentContext ''product_selected'', ProcessCompleted True]
                 (updateUserState now userId
                    [LanguageCode code, CurrentContext ''language_selected'',
                     LanguageSelectionComplete True] b))) = messagesOf (journal b)"
  by (simp_all add: updateUserState_sel getUserState_present)

lemma languageCodeOf_en:
  "x \<notin> {JNum 1, JStr ''1'', JStr ''es'', JStr espanol} \<Longrightarrow> languageCodeOf x = ''en''"
  by (simp add: languageCodeOf_def)

lemma processIntent_lenguaje:
  "processIntent sock now date chatId userId ''lenguaje'' p u b
     = lenguajeIntent (sendBotMessage sock) now date chatId userId p u b"
  "processIntentLegacy sock now date chatId userId ''lenguaje'' p u b
     = lenguajeIntentLegacy (sendBotMessageLegacy sock) now date chatId userId p u b"
  by (simp_all add: processIntent_def processIntentLegacy_def)

lemma monday11_open:
  "isBusinessHours \<lparr>getMonth = 5, getDate = 2, getDay = Monday, getHours = 11\<rparr>"
  by (simp add: isBusinessHours_def isHoliday_iff)

text \<open>
  C10.  In the language intent, an input that is resolved (not \<^verbatim>\<open>null\<close>) and is none of
  1, \<^verbatim>\<open>"1"\<close>, \<^verbatim>\<open>"es"\<close> and the Spanish word for Spanish sets the session language to
  \<^verbatim>\<open>"en"\<close>, and the one message handed to the socket is the menu or the out-of-hours
  message in English, not the language prompt; on a socket that takes every message it is
  the one message sent.  This holds for \<open>processIntent\<close> of both files.  A number parameter
  other than 0 is the input itself, so 3 is such an input.
\<close>

theorem other_language_input_is_english:
  "(languageInput p u \<noteq> JNull
      \<and> languageInput p u \<notin> {JNum 1, JStr ''1'', JStr ''es'', JStr espanol} \<longrightarrow>
      map_option languageCode
          (map_of (states (stateOf (processIntent sock now date chatId userId ''lenguaje'' p u b)))
             userId)
        = Some (Some ''en'')
      \<and> attemptsOf (journal (stateOf (processIntent sock now date chatId userId ''lenguaje'' p u b)))
        = attemptsOf (journal b)
          @ [(chatId, if isBusinessHours date then BusinessHoursMenu En else OutOfHoursMessage En)]
      \<and> messagesOf (journal (stateOf
            (processIntent acceptAll now date chatId userId ''lenguaje'' p u b)))
        = messagesOf (journal b)
          @ [(chatId, if isBusinessHours date then BusinessHoursMenu En else OutOfHoursMessage En)]
      \<and> map_option languageCode
          (map_of (states (stateOf
             (processIntentLegacy sock now date chatId userId ''lenguaje'' p u b))) userId)
        = Some (Some ''en'')
      \<and> attemptsOf (journal (stateOf
            (processIntentLegacy sock now date chatId userId ''lenguaje'' p u b)))
        = attemptsOf (journal b)
          @ [(chatId, if \<not> isBusinessHours date then BusinessHoursMenu En else OutOfHoursMessage En)]
      \<and> messagesOf (journal (stateOf
            (processIntentLegacy acceptAll now date chatId userId ''lenguaje'' p u b)))
        = messagesOf (journal b)
          @ [(chatId, if \<not> isBusinessHours date then BusinessHoursMenu En else OutOfHoursMessage En)])
   \<and> (\<forall>r. numberValue p = JNum r \<and> r \<noteq> 0 \<longrightarrow> languageInput p u = JNum r)"
proof (intro conjI impI allI)
  assume a: "languageInput p u \<noteq> JNull
      \<and> languageInput p u \<notin> {JNum 1, JStr ''1'', JStr ''es'', JStr espanol}"
  then have en: "languageCodeOf (languageInput p u) = ''en''"
    by (simp add: languageCodeOf_en)
  from a have nn: "languageInput p u \<noteq> JNull" by simp
  show "map_option languageCode
          (map_of (states (stateOf (processIntent sock now date chatId userId ''lenguaje'' p u b)))
             userId)
        = Some (Some ''en'')"
    unfolding processIntent_lenguaje lenguajeIntent_unfold [OF nn] sendBotMessage_sel
      lenguaje_session en by simp
  show "attemptsOf (journal (stateOf (processIntent sock now date chatId userId ''lenguaje'' p u b)))
        = attemptsOf (journal b)
          @ [(chatId, if isBusinessHours date then BusinessHoursMenu En else OutOfHoursMessage En)]"
    unfolding processIntent_lenguaje lenguajeIntent_unfold [OF nn] sendBotMessage_sel
      lenguaje_session en by simp
  show "messagesOf (journal (stateOf
            (processIntent acceptAll now date chatId userId ''lenguaje'' p u b)))
        = messagesOf (journal b)
          @ [(chatId, if isBusinessHours date then BusinessHoursMenu En else OutOfHoursMessage En)]"
    unfolding processIntent_lenguaje lenguajeIntent_unfold [OF nn] sendBotMessage_sel
      lenguaje_session en by simp
  show "map_option languageCode
          (map_of (states (stateOf
             (processIntentLegacy sock now date chatId userId ''lenguaje'' p u b))) userId)
        = Some (Some ''en'')"
    unfolding processIntent_lenguaje lenguajeIntent_unfold [OF nn] sendBotMessageLegacy_sel
      lenguaje_session en by simp
  show "attemptsOf (journal (stateOf
            (processIntentLegacy sock now date chatId userId ''lenguaje'' p u b)))
        = attemptsOf (journal b)
          @ [(chatId, if \<not> isBusinessHours date then BusinessHoursMenu En else OutOfHoursMessage En)]"
    unfolding processIntent_lenguaje lenguajeIntent_unfold [OF nn] sendBotMessageLegacy_sel
      lenguaje_session en by simp
  show "messagesOf (journal (stateOf
            (processIntentLegacy acceptAll now date chatId userId ''lenguaje'' p u b)))
        = messagesOf (journal b)
          @ [(chatId, if \<not> isBusinessHours date then BusinessHoursMenu En else OutOfHoursMessage En)]"
    unfolding processIntent_lenguaje lenguajeIntent_unfold [OF nn] sendBotMessageLegacy_sel
      lenguaje_session en by simp
next
  fix r
  assume "numberValue p = JNum r \<and> r \<noteq> 0"
  then show "languageInput p u = JNum r"
    by (simp add: languageInput_number)
qed

theorem other_language_input_witness:
  "map_option languageCode
      (map_of (states (stateOf (processIntent acceptAll 5000
          \<lparr>getMonth = 5, getDate = 2, getDay = Monday, getHours = 11\<rparr>
          ''5551234567@s.whatsapp.net'' ''5551234567'' ''lenguaje''
          \<lparr>numberValue = JNum 3, stringValue = JUndefined\<rparr> waitingUser waitingBot)))
         ''5551234567'')
     = Some (Some ''en'')
   \<and> messagesOf (journal (stateOf (processIntent acceptAll 5000
          \<lparr>getMonth = 5, getDate = 2, getDay = Monday, getHours = 11\<rparr>
          ''5551234567@s.whatsapp.net'' ''5551234567'' ''lenguaje''
          \<lparr>numberValue = JNum 3, stringValue = JUndefined\<rparr> waitingUser waitingBot)))
     = [(''5551234567@s.whatsapp.net'', BusinessHoursMenu En)]
   \<and> messagesOf (journal (stateOf (processIntentLegacy acceptAll 5000
          \<lparr>getMonth = 5, getDate = 2, getDay = Monday, getHours = 11\<rparr>
          ''5551234567@s.whatsapp.net'' ''5551234567'' ''lenguaje''
          \<lparr>numberValue = JNum 3, stringValue = JUndefined\<rparr> waitingUser waitingBot)))
     = [(''5551234567@s.whatsapp.net'', OutOfHoursMessage En)]"
proof -
  have i: "languageInput \<lparr>numberValue = JNum 3, stringValue = JUndefined\<rparr> waitingUser = JNum 3"
    by (simp add: languageInput_def js_or_def)
  have j: "messagesOf (journal waitingBot) = []" "attemptsOf (journal waitingBot) = []"
    by (simp_all add: waitingBot_def)
  show ?thesis
    using other_language_input_is_english
            [of "\<lparr>numberValue = JNum 3, stringValue = JUndefined\<rparr>" waitingUser acceptAll 5000
                "\<lparr>getMonth = 5, getDate = 2, getDay = Monday, getHours = 11\<rparr>"
                "''5551234567@s.whatsapp.net''" "''5551234567''" waitingBot]
    by (simp add: i j monday11_open)
qed

text \<open>
  C1.  On a Monday at 11 h, within business hours, a user who waits for the language
  selection answers 2, and the socket takes every message.  \<open>processIntent\<close> of
  \<^verbatim>\<open>handlers/intentProcessor.js\<close> sends the main menu and leaves \<open>processCompleted\<close>
  false, as the claim says; \<open>processIntent\<close> of the single-file \<^verbatim>\<open>index.js\<close> sends the
  out-of-hours message and sets \<open>processCompleted\<close>.
\<close>

theorem legacy_lenguaje_inverts_business_hours:
  "isBusinessHours \<lparr>getMonth = 5, getDate = 2, getDay = Monday, getHours = 11\<rparr>
   \<and> messagesOf (journal (stateOf (processIntentLegacy acceptAll 5000
          \<lparr>getMonth = 5, getDate = 2, getDay = Monday, getHours = 11\<rparr>
          ''5551234567@s.whatsapp.net'' ''5551234567'' ''lenguaje'' exampleParameters
          waitingUser waitingBot)))
     = [(''5551234567@s.whatsapp.net'', OutOfHoursMessage En)]
   \<and> map_option processCompleted
        (map_of (states (stateOf (processIntentLegacy acceptAll 5000
          \<lparr>getMonth = 5, getDate = 2, getDay = Monday, getHours = 11\<rparr>
          ''5551234567@s.whatsapp.net'' ''5551234567'' ''lenguaje'' exampleParameters
          waitingUser waitingBot))) ''5551234567'')
     = Some True
   \<and> messagesOf (journal (stateOf (processIntent acceptAll 5000
          \<lparr>getMonth = 5, getDate = 2, getDay = Monday, getHours = 11\<rparr>
          ''5551234567@s.whatsapp.net'' ''5551234567'' ''lenguaje'' exampleParameters
          waitingUser waitingBot)))
     = [(''5551234567@s.whatsapp.net'', BusinessHoursMenu En)]
   \<and> map_option processCompleted
        (map_of (states (stateOf (processIntent acceptAll 5000
          \<lparr>getMonth = 5, getDate = 2, getDay = Monday, getHours = 11\<rparr>
          ''5551234567@s.whatsapp.net'' ''5551234567'' ''lenguaje'' exampleParameters
          waitingUser waitingBot))) ''5551234567'')
     = Some False"
proof -
  have i: "languageInput exampleParameters waitingUser = JNum 2"
    by (simp add: languageInput_def js_or_def exampleParameters_def)
  then have nn: "languageInput exampleParameters waitingUser \<noteq> JNull" by simp
  have en: "languageCodeOf (JNum 2) = ''en''"
    by (simp add: languageCodeOf_def)
  have g: "fst (getUserState 5000 ''5551234567'' waitingBot) = waitingUser"
    "messagesOf (journal waitingBot) = []"
    by (simp_all add: getUserState_def waitingBot_def)
  show ?thesis
    unfolding processIntent_lenguaje lenguajeIntent_unfold [OF nn] sendBotMessage_sel
      sendBotMessageLegacy_sel lenguaje_session i en g
    by (simp add: monday11_open waitingUser_def)
qed













end
